theory Spec2Isabelle
  imports Complex_Main
begin

section \<open>JavaScript numbers\<close>

text \<open>
  The risk engine (services/riskCalculationService.js) computes the body-mass index with
  JavaScript Numbers, that is IEEE 754 binary64 values. A finite Number is modelled by the
  real it denotes, and every arithmetic operation rounds its exact result to the nearest
  binary64 value, ties to even (\<open>fl\<close>). Overflow to Infinity and subnormal results are
  outside the model: they need magnitudes above 2^1023 or below 2^-1022. Division by zero
  is modelled: it gives Infinity, -Infinity or NaN.
\<close>

function log2floor :: "real \<Rightarrow> int" where
  "log2floor x =
     (if x \<le> 0 then 0
      else if 2 \<le> x then log2floor (x / 2) + 1
      else if x < 1 then log2floor (2 * x) - 1
      else 0)"
  by pat_completeness auto

lemma half_floor_less: "2 \<le> (x::real) \<Longrightarrow> nat \<lfloor>x / 2\<rfloor> < nat \<lfloor>x\<rfloor>"
proof -
  assume h: "2 \<le> x"
  have a: "\<lfloor>x / 2\<rfloor> \<le> \<lfloor>x\<rfloor> - 1"
  proof -
    have "x / 2 \<le> x - 1" using h by simp
    then have "\<lfloor>x / 2\<rfloor> \<le> \<lfloor>x - 1\<rfloor>" by (rule floor_mono)
    then show ?thesis by simp
  qed
  have b: "2 \<le> \<lfloor>x\<rfloor>" using h by (simp add: le_floor_iff)
  from a b show ?thesis by linarith
qed

lemma small_ceil: "2 \<le> (x::real) \<Longrightarrow> \<lceil>1 / (x / 2)\<rceil> = 1 \<and> \<lceil>1 / x\<rceil> = 1"
  by (auto intro!: ceiling_unique simp: field_simps)

lemma double_floor:
  "0 < (x::real) \<Longrightarrow> x < 1 \<Longrightarrow> nat \<lfloor>2 * x\<rfloor> \<le> 1 \<and> nat \<lfloor>x\<rfloor> = 0"
proof -
  assume h: "0 < x" "x < 1"
  have "\<lfloor>2 * x\<rfloor> < 2" using h by (simp add: floor_less_iff)
  moreover have "\<lfloor>x\<rfloor> < 1" using h by (simp add: floor_less_iff)
  ultimately show ?thesis by linarith
qed

lemma half_ceil_less:
  "0 < (x::real) \<Longrightarrow> x < 1 \<Longrightarrow> nat \<lceil>1 / (2 * x)\<rceil> + 1 \<le> nat \<lceil>1 / x\<rceil>"
proof -
  assume h: "0 < x" "x < 1"
  define y where "y = 1 / x"
  have y1: "1 < y" using h by (simp add: y_def)
  have c2: "2 \<le> \<lceil>y\<rceil>" using y1 by (simp add: le_ceiling_iff)
  have "y / 2 \<le> of_int \<lceil>y\<rceil> / 2" by (simp add: le_of_int_ceiling)
  also have "\<dots> \<le> of_int (\<lceil>y\<rceil> - 1)" using c2 by simp
  finally have k: "\<lceil>y / 2\<rceil> \<le> \<lceil>y\<rceil> - 1" by (rule ceiling_le)
  have e1: "1 / (2 * x) = y / 2" and e2: "1 / x = y" by (simp_all add: y_def)
  from k c2 have "nat \<lceil>y / 2\<rceil> + 1 \<le> nat \<lceil>y\<rceil>" by linarith
  then show ?thesis unfolding e1 e2 .
qed

termination log2floor
proof (relation "measure (\<lambda>x. nat \<lfloor>x\<rfloor> + 2 * nat \<lceil>1 / x\<rceil>)", goal_cases)
  case 1
  show ?case by simp
next
  case (2 x)
  then show ?case using half_floor_less[of x] small_ceil[of x] by simp
next
  case (3 x)
  then have "0 < x" "x < 1" by simp_all
  from double_floor[OF this] half_ceil_less[OF this] show ?case
    unfolding in_measure by linarith
qed

declare log2floor.simps [simp del]

definition pow2 :: "int \<Rightarrow> real" where
  "pow2 k = (if 0 \<le> k then 2 ^ nat k else 1 / 2 ^ nat (- k))"

definition round_half_even :: "real \<Rightarrow> int" where
  "round_half_even m =
     (let n = \<lfloor>m\<rfloor>; r = m - of_int n
      in if r < 1 / 2 then n
         else if 1 / 2 < r then n + 1
         else if even n then n else n + 1)"

text \<open>Rounding to 53 significant bits: the binary64 value nearest to \<open>x\<close>.\<close>

definition fl :: "real \<Rightarrow> real" where
  "fl x =
     (if x = 0 then 0
      else let e = log2floor \<bar>x\<bar>
           in of_int (round_half_even (x * pow2 (52 - e))) * pow2 (e - 52))"

datatype jsnum = Num real | PosInfinity | NegInfinity | NaN

definition js_div :: "real \<Rightarrow> real \<Rightarrow> jsnum" where
  "js_div a b =
     (if b = 0 then (if 0 < a then PosInfinity else if a < 0 then NegInfinity else NaN)
      else Num (fl (a / b)))"

text \<open>The comparison \<open>x >= c\<close> of JavaScript: false whenever \<open>x\<close> is NaN.\<close>

fun js_ge :: "jsnum \<Rightarrow> real \<Rightarrow> bool" where
  "js_ge (Num x) c = (c \<le> x)"
| "js_ge PosInfinity c = True"
| "js_ge NegInfinity c = False"
| "js_ge NaN c = False"

section \<open>Risk scoring engine (services/riskCalculationService.js)\<close>

text \<open>
  The questionnaire as \<open>calculateAllRisks\<close> receives it from the submit handler, which
  has replaced every missing boolean by \<open>false\<close>.
\<close>

record assessment =
  age :: real
  gender :: string
  height :: real
  weight :: real
  hasDiabetes :: bool
  hasHighBloodPressure :: bool
  hasHeartDisease :: bool
  hadStroke :: bool
  hasHighCholesterol :: bool
  smokingStatus :: string
  exerciseFrequency :: string
  alcoholConsumption :: string
  familyHeartDisease :: bool
  familyStroke :: bool
  familyDiabetes :: bool
  chestPain :: bool
  shortnessOfBreath :: bool
  dizziness :: bool
  fatigue :: bool
  numbness :: bool

record prediction =
  risk :: string
  score :: int
  factors :: "string list"

definition calculateBMI :: "real \<Rightarrow> real \<Rightarrow> jsnum" where
  "calculateBMI weight' height' =
     (let heightInMeters = fl (height' / 100)
      in js_div weight' (fl (heightInMeters * heightInMeters)))"

text \<open>
  The pair of the running \<open>score\<close> and the \<open>factors\<close> array; \<open>add n msg\<close> is
  \<open>score += n; factors.push(msg)\<close>.
\<close>

definition add :: "int \<Rightarrow> string \<Rightarrow> int \<times> string list \<Rightarrow> int \<times> string list" where
  "add n msg st = (fst st + n, snd st @ [msg])"

text \<open>The sign U+2265 of two factor strings, as its UTF-8 bytes.\<close>

definition ge_sign :: string where
  "ge_sign = [CHR 0xE2, CHR 0x89, CHR 0xA5]"

definition calculateStrokeRisk :: "assessment \<Rightarrow> prediction" where
  "calculateStrokeRisk a =
     (let st = (0, []);
          st = (if age a \<ge> 75 then add 30 ''Age 75+ significantly increases stroke risk'' st
                else if age a \<ge> 65 then add 20 ''Age 65-74 increases stroke risk'' st
                else if age a \<ge> 55 then add 10 ''Age 55+ moderately increases stroke risk'' st
                else st);
          st = (if hasHighBloodPressure a
                then add 25 ''High blood pressure is a major stroke risk factor'' st else st);
          st = (if hasDiabetes a then add 15 ''Diabetes increases stroke risk'' st else st);
          st = (if hadStroke a
                then add 35 ''Previous stroke significantly increases risk of recurrence'' st
                else st);
          st = (if hasHeartDisease a then add 20 ''Heart disease increases stroke risk'' st
                else st);
          st = (if hasHighCholesterol a
                then add 10 ''High cholesterol contributes to stroke risk'' st else st);
          st = (if smokingStatus a = ''Current''
                then add 15 ''Current smoking doubles stroke risk'' st
                else if smokingStatus a = ''Former''
                then add 5 ''Former smoking slightly increases risk'' st
                else st);
          st = (if exerciseFrequency a = ''Never'' \<or> exerciseFrequency a = ''Rarely''
                then add 8 ''Lack of exercise increases stroke risk'' st else st);
          bmi = calculateBMI (weight a) (height a);
          st = (if js_ge bmi 30
                then add 12 (''Obesity (BMI '' @ ge_sign @ ''30) increases stroke risk'') st
                else if js_ge bmi 25
                then add 6 ''Overweight (BMI 25-30) moderately increases risk'' st
                else st);
          st = (if familyStroke a then add 10 ''Family history of stroke increases risk'' st
                else st);
          st = (if numbness a \<or> dizziness a
                then add 15 ''Current symptoms require immediate medical attention'' st
                else st);
          score' = min (fst st) 100;
          risk' = (if score' \<ge> 70 then ''Very High''
                   else if score' \<ge> 50 then ''High''
                   else if score' \<ge> 30 then ''Moderate''
                   else ''Low'');
          factors' = (if length (snd st) = 0
                      then snd st @ [''No major risk factors identified. Maintain healthy lifestyle.'']
                      else snd st)
      in \<lparr>risk = risk', score = score', factors = factors'\<rparr>)"

definition calculateHeartDiseaseRisk :: "assessment \<Rightarrow> prediction" where
  "calculateHeartDiseaseRisk a =
     (let st = (0, []);
          st = (if age a \<ge> 65
                then add 25 ''Age 65+ significantly increases heart disease risk'' st
                else if age a \<ge> 55 then add 15 ''Age 55+ increases heart disease risk'' st
                else if age a \<ge> 45 then add 8 ''Age 45+ moderately increases risk'' st
                else st);
          st = (if gender a = ''Male'' \<and> age a \<ge> 45
                then add 10 ''Men over 45 have higher heart disease risk'' st
                else if gender a = ''Female'' \<and> age a \<ge> 55
                then add 10 ''Women over 55 have increased heart disease risk'' st
                else st);
          st = (if hasHeartDisease a
                then add 40 ''Existing heart disease requires ongoing management'' st else st);
          st = (if hasHighBloodPressure a
                then add 20 ''High blood pressure damages arteries over time'' st else st);
          st = (if hasHighCholesterol a then add 18 ''High cholesterol clogs arteries'' st
                else st);
          st = (if hasDiabetes a
                then add 20 ''Diabetes significantly increases heart disease risk'' st else st);
          st = (if smokingStatus a = ''Current''
                then add 20 ''Smoking is a leading cause of heart disease'' st
                else if smokingStatus a = ''Former''
                then add 8 ''Former smoking still poses some risk'' st
                else st);
          st = (if exerciseFrequency a = ''Never'' \<or> exerciseFrequency a = ''Rarely''
                then add 10 ''Physical inactivity weakens the heart'' st else st);
          st = (if alcoholConsumption a = ''Heavily''
                then add 12 ''Heavy alcohol use damages the heart'' st else st);
          bmi = calculateBMI (weight a) (height a);
          st = (if js_ge bmi 30 then add 15 ''Obesity strains the cardiovascular system'' st
                else if js_ge bmi 25
                then add 8 ''Being overweight increases heart disease risk'' st
                else st);
          st = (if familyHeartDisease a
                then add 12 ''Family history of heart disease increases risk'' st else st);
          st = (if chestPain a
                then add 20 ''Chest pain requires immediate medical evaluation'' st else st);
          st = (if shortnessOfBreath a
                then add 12 ''Shortness of breath may indicate heart problems'' st else st);
          score' = min (fst st) 100;
          risk' = (if score' \<ge> 70 then ''Very High''
                   else if score' \<ge> 50 then ''High''
                   else if score' \<ge> 30 then ''Moderate''
                   else ''Low'');
          factors' = (if length (snd st) = 0
                      then snd st @ [''No major risk factors identified. Keep up healthy habits.'']
                      else snd st)
      in \<lparr>risk = risk', score = score', factors = factors'\<rparr>)"

definition calculateDiabetesRisk :: "assessment \<Rightarrow> prediction" where
  "calculateDiabetesRisk a =
     (if hasDiabetes a
      then \<lparr>risk = ''Very High'', score = 100,
            factors = [''Already diagnosed with diabetes. Continue treatment and monitoring.'']\<rparr>
      else
       (let st = (0, []);
            st = (if age a \<ge> 45 then add 15 ''Age 45+ increases diabetes risk'' st else st);
            bmi = calculateBMI (weight a) (height a);
            st = (if js_ge bmi 35
                  then add 30 (''Severe obesity (BMI '' @ ge_sign
                                 @ ''35) greatly increases diabetes risk'') st
                  else if js_ge bmi 30
                  then add 25 ''Obesity (BMI 30-35) significantly increases diabetes risk'' st
                  else if js_ge bmi 25
                  then add 15 ''Being overweight (BMI 25-30) increases diabetes risk'' st
                  else st);
            st = (if familyDiabetes a
                  then add 20 ''Family history of diabetes increases risk significantly'' st
                  else st);
            st = (if exerciseFrequency a = ''Never'' \<or> exerciseFrequency a = ''Rarely''
                  then add 12 ''Physical inactivity increases diabetes risk'' st else st);
            st = (if hasHighBloodPressure a
                  then add 10 ''High blood pressure often accompanies diabetes'' st else st);
            st = (if hasHighCholesterol a
                  then add 8 ''High cholesterol increases diabetes risk'' st else st);
            st = (if fatigue a
                  then add 10 ''Chronic fatigue may indicate blood sugar issues'' st else st);
            score' = min (fst st) 100;
            risk' = (if score' \<ge> 70 then ''Very High''
                     else if score' \<ge> 50 then ''High''
                     else if score' \<ge> 30 then ''Moderate''
                     else ''Low'');
            factors' = (if length (snd st) = 0
                        then snd st @ [''Low risk. Maintain healthy weight and active lifestyle.'']
                        else snd st)
        in \<lparr>risk = risk', score = score', factors = factors'\<rparr>))"

record predictions =
  stroke :: prediction
  heartDisease :: prediction
  diabetes :: prediction

definition calculateAllRisks :: "assessment \<Rightarrow> predictions" where
  "calculateAllRisks a =
     \<lparr>stroke = calculateStrokeRisk a,
      heartDisease = calculateHeartDiseaseRisk a,
      diabetes = calculateDiabetesRisk a\<rparr>"

text \<open>
  The thresholds of the specification (section 4.4, step 4), to compare with the
  classification each function computes.
\<close>

definition spec_risk_level :: "int \<Rightarrow> string" where
  "spec_risk_level s =
     (if 70 \<le> s then ''Very High''
      else if 50 \<le> s then ''High''
      else if 30 \<le> s then ''Moderate''
      else ''Low'')"

text \<open>The questionnaire of the end-to-end example of the specification (section 8).\<close>

definition example_assessment :: assessment where
  "example_assessment =
     \<lparr>age = 70, gender = ''Male'', height = 175, weight = 90,
      hasDiabetes = False, hasHighBloodPressure = True, hasHeartDisease = False,
      hadStroke = False, hasHighCholesterol = False,
      smokingStatus = ''Current'', exerciseFrequency = ''Never'',
      alcoholConsumption = ''Never'',
      familyHeartDisease = False, familyStroke = False, familyDiabetes = False,
      chestPain = False, shortnessOfBreath = False, dizziness = False,
      fatigue = False, numbness = False\<rparr>"

section \<open>Persisted state (models/*.js)\<close>

text \<open>
  An ObjectId is a natural number; \<open>nextId\<close> is the source of fresh ones. Timestamps
  (\<open>createdAt\<close>, \<open>updatedAt\<close>) are left out. A Date is the number it denotes. Path
  parameters and body identifiers are well-formed ObjectIds (a malformed one makes the
  query throw, which every handler answers with 500 and no write).
\<close>

type_synonym oid = nat

datatype role = Patient | Doctor | ReceptionAgent | Admin

datatype status = Pending | Accepted | Rejected

record user =
  u_id :: oid
  u_role :: role
  u_name :: string
  u_familyName :: string

text \<open>\<open>req.user\<close>: the decoded bearer token.\<close>

record req_user =
  userId :: oid
  role :: role

record doctorRequest =
  dr_id :: oid
  dr_doctor :: oid
  dr_patient :: oid
  dr_status :: status

record doctorReceptionAgent =
  ra_id :: oid
  ra_doctor :: oid
  ra_receptionAgent :: oid
  ra_status :: status

record appointmentInvitation =
  ai_id :: oid
  ai_patient :: oid
  ai_doctor :: oid
  ai_appointmentDate :: nat
  ai_reason :: string
  ai_status :: status

record appointment =
  ap_id :: oid
  ap_doctor :: oid
  ap_date :: nat
  ap_reason :: string
  ap_notes :: "string option"

record prescription =
  pr_id :: oid
  pr_doctor :: oid
  pr_medication :: string
  pr_dosage :: string
  pr_duration :: "string option"
  pr_instructions :: "string option"

record disease =
  ds_id :: oid
  ds_doctor :: oid
  ds_name :: string
  ds_diagnosedDate :: nat
  ds_status :: string
  ds_notes :: "string option"

record comment =
  cm_id :: oid
  cm_doctor :: oid
  cm_text :: string

record diagnostic =
  dg_id :: oid
  dg_doctor :: oid
  dg_testName :: string
  dg_testDate :: nat
  dg_results :: string
  dg_notes :: "string option"

record medicalRecord =
  mr_id :: oid
  mr_patient :: oid
  appointments :: "appointment list"
  prescriptions :: "prescription list"
  diseases :: "disease list"
  comments :: "comment list"
  diagnostics :: "diagnostic list"

text \<open>Of a notification the recipient, the sender, the type tag and the title are kept.\<close>

record notification =
  n_recipient :: oid
  n_sender :: oid
  n_type :: string
  n_title :: string

record db =
  users :: "user list"
  doctorRequests :: "doctorRequest list"
  doctorReceptionAgents :: "doctorReceptionAgent list"
  appointmentInvitations :: "appointmentInvitation list"
  medicalRecords :: "medicalRecord list"
  notifications :: "notification list"
  nextId :: oid

text \<open>
  What a handler sends: \<open>res.status(c).json({message: m, ...})\<close>, or the medical record
  itself (\<open>res.json(medicalRecord)\<close>, status 200). Other fields of a body are left out.
\<close>

datatype response = Reply nat string | ReplyRecord medicalRecord

fun http_status :: "response \<Rightarrow> nat" where
  "http_status (Reply c m) = c"
| "http_status (ReplyRecord m) = 200"

subsection \<open>Queries and writes\<close>

text \<open>\<open>doc.save()\<close> of a stored document and of a subdocument: the first one that
  matches is replaced.\<close>

fun update_first :: "('a \<Rightarrow> bool) \<Rightarrow> ('a \<Rightarrow> 'a) \<Rightarrow> 'a list \<Rightarrow> 'a list" where
  "update_first P f [] = []"
| "update_first P f (x # xs) = (if P x then f x # xs else x # update_first P f xs)"

text \<open>\<open>findOneAndDelete\<close>: the first document that matches is removed.\<close>

fun remove_first :: "('a \<Rightarrow> bool) \<Rightarrow> 'a list \<Rightarrow> 'a list" where
  "remove_first P [] = []"
| "remove_first P (x # xs) = (if P x then xs else x # remove_first P xs)"

definition User_findById :: "oid \<Rightarrow> db \<Rightarrow> user option" where
  "User_findById i s = find (\<lambda>x. u_id x = i) (users s)"

text \<open>\<open>DoctorRequest.findOne({doctor, patient, status: 'accepted'})\<close>\<close>

definition acceptedRequest :: "oid \<Rightarrow> oid \<Rightarrow> db \<Rightarrow> doctorRequest option" where
  "acceptedRequest doctorId patientId s =
     find (\<lambda>r. dr_doctor r = doctorId \<and> dr_patient r = patientId \<and> dr_status r = Accepted)
       (doctorRequests s)"

text \<open>\<open>DoctorReceptionAgent.findOne({receptionAgent, doctor, status: 'accepted'})\<close>\<close>

definition acceptedInvitation :: "oid \<Rightarrow> oid \<Rightarrow> db \<Rightarrow> doctorReceptionAgent option" where
  "acceptedInvitation agentId doctorId s =
     find (\<lambda>i. ra_receptionAgent i = agentId \<and> ra_doctor i = doctorId \<and> ra_status i = Accepted)
       (doctorReceptionAgents s)"

text \<open>\<open>MedicalRecord.findOne({patient})\<close>\<close>

definition MedicalRecord_findOne :: "oid \<Rightarrow> db \<Rightarrow> medicalRecord option" where
  "MedicalRecord_findOne patientId s = find (\<lambda>m. mr_patient m = patientId) (medicalRecords s)"

text \<open>\<open>new MedicalRecord({patient})\<close>: every array starts empty.\<close>

definition MedicalRecord_new :: "oid \<Rightarrow> oid \<Rightarrow> medicalRecord" where
  "MedicalRecord_new i patientId =
     \<lparr>mr_id = i, mr_patient = patientId, appointments = [], prescriptions = [], diseases = [],
      comments = [], diagnostics = []\<rparr>"

text \<open>
  \<open>medicalRecord.save()\<close>: a new document is inserted, a stored one is replaced.
\<close>

definition MedicalRecord_save :: "bool \<Rightarrow> medicalRecord \<Rightarrow> db \<Rightarrow> db" where
  "MedicalRecord_save isNew m s =
     (if isNew then s\<lparr>medicalRecords := medicalRecords s @ [m]\<rparr>
      else s\<lparr>medicalRecords :=
                update_first (\<lambda>x. mr_id x = mr_id m) (\<lambda>_. m) (medicalRecords s)\<rparr>)"

text \<open>The identifiers \<open>nextId s, ..., nextId s + n - 1\<close> have been given to stored documents.\<close>

definition takeIds :: "nat \<Rightarrow> db \<Rightarrow> db" where
  "takeIds n s = s\<lparr>nextId := nextId s + n\<rparr>"

text \<open>
  Modelled from the spec: the Notification model is not among the sources; a notification
  is "created as a side effect" and stored. \<open>createNotification\<close> itself is in
  services/notificationService.js: it saves the notification and swallows any error.
\<close>

definition createNotification :: "notification \<Rightarrow> db \<Rightarrow> db" where
  "createNotification n s = s\<lparr>notifications := notifications s @ [n]\<rparr>"

definition notifyDoctorRequest :: "oid \<Rightarrow> oid \<Rightarrow> db \<Rightarrow> db" where
  "notifyDoctorRequest doctorId patientId s =
     createNotification \<lparr>n_recipient = patientId, n_sender = doctorId,
       n_type = ''doctor_request'', n_title = ''New Doctor Access Request''\<rparr> s"

definition notifyRequestAccepted :: "oid \<Rightarrow> oid \<Rightarrow> db \<Rightarrow> db" where
  "notifyRequestAccepted patientId doctorId s =
     createNotification \<lparr>n_recipient = doctorId, n_sender = patientId,
       n_type = ''request_accepted'', n_title = ''Access Request Accepted''\<rparr> s"

definition notifyRequestRejected :: "oid \<Rightarrow> oid \<Rightarrow> db \<Rightarrow> db" where
  "notifyRequestRejected patientId doctorId s =
     createNotification \<lparr>n_recipient = doctorId, n_sender = patientId,
       n_type = ''request_rejected'', n_title = ''Access Request Rejected''\<rparr> s"

definition notifyMedicalRecordUpdate :: "oid \<Rightarrow> oid \<Rightarrow> string \<Rightarrow> db \<Rightarrow> db" where
  "notifyMedicalRecordUpdate doctorId patientId type' s =
     createNotification \<lparr>n_recipient = patientId, n_sender = doctorId,
       n_type = type' @ ''_added'', n_title = ''Medical Record Updated''\<rparr> s"

text \<open>
  The end of every medical-record mutation, after the save:
  \<open>const doctor = await User.findById(doctorId)\<close>, then the notification, whose message
  reads \<open>doctor.name\<close>, then the reply. When the user document is gone, reading
  \<open>doctor.name\<close> throws and the handler answers 500; the save before it stays.
\<close>

definition notifyAndReply :: "oid \<Rightarrow> oid \<Rightarrow> string \<Rightarrow> nat \<Rightarrow> string \<Rightarrow> db \<Rightarrow> response \<times> db" where
  "notifyAndReply doctorId patientId type' c msg s =
     (case User_findById doctorId s of
        None \<Rightarrow> (Reply 500 ''Server error'', s)
      | Some doctor \<Rightarrow> (Reply c msg, notifyMedicalRecordUpdate doctorId patientId type' s))"

text \<open>
  A body field that holds a string is \<open>None\<close> when it is undefined. \<open>truthy\<close> is the
  test \<open>if (field)\<close>: it fails on undefined and on the empty string, which is also what
  the schema's \<open>required\<close> rejects.
\<close>

fun truthy :: "string option \<Rightarrow> string option" where
  "truthy None = None"
| "truthy (Some v) = (if v = [] then None else Some v)"

section \<open>Medical records (routes/medicalRecords.js)\<close>

text \<open>
  Every handler takes \<open>req.user\<close>, the path parameters, the body fields it reads and the
  state before, and returns the reply with the state after. An exception is caught by the
  handler's \<open>catch\<close> and answered with 500. A save validates the document first and
  throws, writing nothing, when a required path is missing or empty or an enumerated path
  holds another value; the documents already stored are valid.
\<close>

definition getMedicalRecord :: "req_user \<Rightarrow> oid \<Rightarrow> db \<Rightarrow> response \<times> db" where
  "getMedicalRecord u patientId s =
     (case (case role u of
              Patient \<Rightarrow>
                if patientId \<noteq> userId u then Some (Reply 403 ''Access denied'') else None
            | Doctor \<Rightarrow>
                if acceptedRequest (userId u) patientId s = None
                then Some (Reply 403 ''Access denied. Patient has not accepted your request.'')
                else None
            | ReceptionAgent \<Rightarrow>
                let acceptedInvitations =
                      filter (\<lambda>i. ra_receptionAgent i = userId u \<and> ra_status i = Accepted)
                        (doctorReceptionAgents s);
                    doctorIds = map ra_doctor acceptedInvitations;
                    patientDoctorAccess =
                      find (\<lambda>r. dr_doctor r \<in> set doctorIds \<and> dr_patient r = patientId \<and>
                                 dr_status r = Accepted) (doctorRequests s)
                in if patientDoctorAccess = None
                   then Some (Reply 403
                          ''Access denied. This patient is not under any of your doctors.'')
                   else None
            | Admin \<Rightarrow> Some (Reply 403 ''Access denied'')) of
        Some denied \<Rightarrow> (denied, s)
      | None \<Rightarrow>
          (case MedicalRecord_findOne patientId s of
             Some medicalRecord \<Rightarrow> (ReplyRecord medicalRecord, s)
           | None \<Rightarrow>
               let medicalRecord = MedicalRecord_new (nextId s) patientId
               in (ReplyRecord medicalRecord,
                   takeIds 1 (MedicalRecord_save True medicalRecord s))))"

subsection \<open>Appointments\<close>

definition postAppointment ::
  "req_user \<Rightarrow> oid \<Rightarrow> nat option \<Rightarrow> string option \<Rightarrow> string option \<Rightarrow> oid option \<Rightarrow> db
   \<Rightarrow> response \<times> db" where
  "postAppointment u patientId date reason notes doctorId s =
     (if role u \<noteq> Doctor \<and> role u \<noteq> ReceptionAgent
      then (Reply 403 ''Only doctors and reception agents can add appointments'', s)
      else
        case (if role u = ReceptionAgent
              then (case doctorId of
                      None \<Rightarrow> Inl (Reply 400 ''Doctor ID is required for reception agents'')
                    | Some d \<Rightarrow>
                        if acceptedInvitation (userId u) d s = None
                        then Inl (Reply 403 ''You do not have access through this doctor'')
                        else if acceptedRequest d patientId s = None
                        then Inl (Reply 403 ''This doctor does not have access to this patient'')
                        else Inr d)
              else if acceptedRequest (userId u) patientId s = None
                   then Inl (Reply 403 ''Access denied'')
                   else Inr (userId u)) of
          Inl denied \<Rightarrow> (denied, s)
        | Inr assignedDoctorId \<Rightarrow>
            let found = MedicalRecord_findOne patientId s;
                medicalRecord =
                  (case found of None \<Rightarrow> MedicalRecord_new (nextId s) patientId
                   | Some m \<Rightarrow> m)
            in (case (date, truthy reason) of
                  (Some d, Some r) \<Rightarrow>
                    let medicalRecord = medicalRecord
                          \<lparr>appointments := appointments medicalRecord @
                             [\<lparr>ap_id = nextId s + 1, ap_doctor = assignedDoctorId, ap_date = d,
                               ap_reason = r, ap_notes = notes\<rparr>]\<rparr>;
                        s = takeIds 2 (MedicalRecord_save (found = None) medicalRecord s)
                    in notifyAndReply assignedDoctorId patientId ''appointment'' 201
                         ''Appointment added successfully'' s
                | _ \<Rightarrow> (Reply 500 ''Server error'', s)))"

definition putAppointment ::
  "req_user \<Rightarrow> oid \<Rightarrow> oid \<Rightarrow> nat option \<Rightarrow> string option \<Rightarrow> string option \<Rightarrow> db
   \<Rightarrow> response \<times> db" where
  "putAppointment u patientId appointmentId date reason notes s =
     (if role u \<noteq> Doctor \<and> role u \<noteq> ReceptionAgent
      then (Reply 403 ''Only doctors and reception agents can update appointments'', s)
      else
        case MedicalRecord_findOne patientId s of
          None \<Rightarrow> (Reply 404 ''Medical record not found'', s)
        | Some medicalRecord \<Rightarrow>
            (case find (\<lambda>a. ap_id a = appointmentId) (appointments medicalRecord) of
               None \<Rightarrow> (Reply 404 ''Appointment not found'', s)
             | Some appointment \<Rightarrow>
                 if role u = Doctor \<and> ap_doctor appointment \<noteq> userId u
                 then (Reply 403 ''You can only modify your own appointments'', s)
                 else if role u = ReceptionAgent \<and>
                         acceptedInvitation (userId u) (ap_doctor appointment) s = None
                 then (Reply 403 ''You can only modify appointments for your assigned doctors'', s)
                 else
                   let appointment =
                         (case date of Some d \<Rightarrow> appointment\<lparr>ap_date := d\<rparr>
                          | None \<Rightarrow> appointment);
                       appointment =
                         (case truthy reason of Some r \<Rightarrow> appointment\<lparr>ap_reason := r\<rparr>
                          | None \<Rightarrow> appointment);
                       appointment =
                         (case notes of Some n \<Rightarrow> appointment\<lparr>ap_notes := Some n\<rparr>
                          | None \<Rightarrow> appointment);
                       medicalRecord = medicalRecord
                         \<lparr>appointments :=
                            update_first (\<lambda>a. ap_id a = appointmentId) (\<lambda>_. appointment)
                              (appointments medicalRecord)\<rparr>;
                       s = MedicalRecord_save False medicalRecord s
                   in notifyAndReply (ap_doctor appointment) patientId ''appointment'' 200
                        ''Appointment updated successfully'' s))"

definition deleteAppointment :: "req_user \<Rightarrow> oid \<Rightarrow> oid \<Rightarrow> db \<Rightarrow> response \<times> db" where
  "deleteAppointment u patientId appointmentId s =
     (if role u \<noteq> Doctor \<and> role u \<noteq> ReceptionAgent
      then (Reply 403 ''Only doctors and reception agents can delete appointments'', s)
      else
        case MedicalRecord_findOne patientId s of
          None \<Rightarrow> (Reply 404 ''Medical record not found'', s)
        | Some medicalRecord \<Rightarrow>
            (case find (\<lambda>a. ap_id a = appointmentId) (appointments medicalRecord) of
               None \<Rightarrow> (Reply 404 ''Appointment not found'', s)
             | Some appointment \<Rightarrow>
                 if role u = Doctor \<and> ap_doctor appointment \<noteq> userId u
                 then (Reply 403 ''You can only delete your own appointments'', s)
                 else if role u = ReceptionAgent \<and>
                         acceptedInvitation (userId u) (ap_doctor appointment) s = None
                 then (Reply 403 ''You can only delete appointments for your assigned doctors'', s)
                 else
                   let doctorId = ap_doctor appointment;
                       medicalRecord = medicalRecord
                         \<lparr>appointments :=
                            filter (\<lambda>a. ap_id a \<noteq> appointmentId)
                              (appointments medicalRecord)\<rparr>;
                       s = MedicalRecord_save False medicalRecord s
                   in notifyAndReply doctorId patientId ''appointment'' 200
                        ''Appointment deleted successfully'' s))"

subsection \<open>Prescriptions\<close>

definition postPrescription ::
  "req_user \<Rightarrow> oid \<Rightarrow> string option \<Rightarrow> string option \<Rightarrow> string option \<Rightarrow> string option \<Rightarrow> db
   \<Rightarrow> response \<times> db" where
  "postPrescription u patientId medication dosage duration instructions s =
     (if role u \<noteq> Doctor then (Reply 403 ''Only doctors can add prescriptions'', s)
      else if acceptedRequest (userId u) patientId s = None
      then (Reply 403 ''Access denied'', s)
      else
        let found = MedicalRecord_findOne patientId s;
            medicalRecord =
              (case found of None \<Rightarrow> MedicalRecord_new (nextId s) patientId | Some m \<Rightarrow> m)
        in (case (truthy medication, truthy dosage) of
              (Some m, Some d) \<Rightarrow>
                let medicalRecord = medicalRecord
                      \<lparr>prescriptions := prescriptions medicalRecord @
                         [\<lparr>pr_id = nextId s + 1, pr_doctor = userId u, pr_medication = m,
                           pr_dosage = d, pr_duration = duration,
                           pr_instructions = instructions\<rparr>]\<rparr>;
                    s = takeIds 2 (MedicalRecord_save (found = None) medicalRecord s)
                in notifyAndReply (userId u) patientId ''prescription'' 201
                     ''Prescription added successfully'' s
            | _ \<Rightarrow> (Reply 500 ''Server error'', s)))"

definition putPrescription ::
  "req_user \<Rightarrow> oid \<Rightarrow> oid \<Rightarrow> string option \<Rightarrow> string option \<Rightarrow> string option \<Rightarrow> string option
   \<Rightarrow> db \<Rightarrow> response \<times> db" where
  "putPrescription u patientId prescriptionId medication dosage duration instructions s =
     (if role u \<noteq> Doctor then (Reply 403 ''Only doctors can update prescriptions'', s)
      else
        case MedicalRecord_findOne patientId s of
          None \<Rightarrow> (Reply 404 ''Medical record not found'', s)
        | Some medicalRecord \<Rightarrow>
            (case find (\<lambda>p. pr_id p = prescriptionId) (prescriptions medicalRecord) of
               None \<Rightarrow> (Reply 404 ''Prescription not found'', s)
             | Some prescription \<Rightarrow>
                 if pr_doctor prescription \<noteq> userId u
                 then (Reply 403 ''You can only modify your own prescriptions'', s)
                 else
                   let prescription =
                         (case truthy medication of
                            Some m \<Rightarrow> prescription\<lparr>pr_medication := m\<rparr>
                          | None \<Rightarrow> prescription);
                       prescription =
                         (case truthy dosage of Some d \<Rightarrow> prescription\<lparr>pr_dosage := d\<rparr>
                          | None \<Rightarrow> prescription);
                       prescription =
                         (case duration of Some d \<Rightarrow> prescription\<lparr>pr_duration := Some d\<rparr>
                          | None \<Rightarrow> prescription);
                       prescription =
                         (case instructions of
                            Some i \<Rightarrow> prescription\<lparr>pr_instructions := Some i\<rparr>
                          | None \<Rightarrow> prescription);
                       medicalRecord = medicalRecord
                         \<lparr>prescriptions :=
                            update_first (\<lambda>p. pr_id p = prescriptionId) (\<lambda>_. prescription)
                              (prescriptions medicalRecord)\<rparr>;
                       s = MedicalRecord_save False medicalRecord s
                   in notifyAndReply (userId u) patientId ''prescription'' 200
                        ''Prescription updated successfully'' s))"

definition deletePrescription :: "req_user \<Rightarrow> oid \<Rightarrow> oid \<Rightarrow> db \<Rightarrow> response \<times> db" where
  "deletePrescription u patientId prescriptionId s =
     (if role u \<noteq> Doctor then (Reply 403 ''Only doctors can delete prescriptions'', s)
      else
        case MedicalRecord_findOne patientId s of
          None \<Rightarrow> (Reply 404 ''Medical record not found'', s)
        | Some medicalRecord \<Rightarrow>
            (case find (\<lambda>p. pr_id p = prescriptionId) (prescriptions medicalRecord) of
               None \<Rightarrow> (Reply 404 ''Prescription not found'', s)
             | Some prescription \<Rightarrow>
                 if pr_doctor prescription \<noteq> userId u
                 then (Reply 403 ''You can only delete your own prescriptions'', s)
                 else
                   let medicalRecord = medicalRecord
                         \<lparr>prescriptions :=
                            filter (\<lambda>p. pr_id p \<noteq> prescriptionId)
                              (prescriptions medicalRecord)\<rparr>;
                       s = MedicalRecord_save False medicalRecord s
                   in notifyAndReply (userId u) patientId ''prescription'' 200
                        ''Prescription deleted successfully'' s))"

subsection \<open>Diseases\<close>

text \<open>
  The schema's \<open>status\<close> of a disease is one of three strings, \<open>'active'\<close> when
  undefined; validation rejects any other value.
\<close>

definition diseaseStatusValid :: "string \<Rightarrow> bool" where
  "diseaseStatusValid v = (v = ''active'' \<or> v = ''resolved'' \<or> v = ''chronic'')"

fun diseaseStatus :: "string option \<Rightarrow> string option" where
  "diseaseStatus None = Some ''active''"
| "diseaseStatus (Some v) = (if diseaseStatusValid v then Some v else None)"

definition postDisease ::
  "req_user \<Rightarrow> oid \<Rightarrow> string option \<Rightarrow> nat option \<Rightarrow> string option \<Rightarrow> string option \<Rightarrow> db
   \<Rightarrow> response \<times> db" where
  "postDisease u patientId name' diagnosedDate status' notes s =
     (if role u \<noteq> Doctor then (Reply 403 ''Only doctors can add diseases'', s)
      else if acceptedRequest (userId u) patientId s = None
      then (Reply 403 ''Access denied'', s)
      else
        let found = MedicalRecord_findOne patientId s;
            medicalRecord =
              (case found of None \<Rightarrow> MedicalRecord_new (nextId s) patientId | Some m \<Rightarrow> m)
        in (case (truthy name', diagnosedDate, diseaseStatus status') of
              (Some n, Some d, Some st) \<Rightarrow>
                let medicalRecord = medicalRecord
                      \<lparr>diseases := diseases medicalRecord @
                         [\<lparr>ds_id = nextId s + 1, ds_doctor = userId u, ds_name = n,
                           ds_diagnosedDate = d, ds_status = st, ds_notes = notes\<rparr>]\<rparr>;
                    s = takeIds 2 (MedicalRecord_save (found = None) medicalRecord s)
                in notifyAndReply (userId u) patientId ''disease'' 201
                     ''Disease added successfully'' s
            | _ \<Rightarrow> (Reply 500 ''Server error'', s)))"

definition putDisease ::
  "req_user \<Rightarrow> oid \<Rightarrow> oid \<Rightarrow> string option \<Rightarrow> nat option \<Rightarrow> string option \<Rightarrow> string option
   \<Rightarrow> db \<Rightarrow> response \<times> db" where
  "putDisease u patientId diseaseId name' diagnosedDate status' notes s =
     (if role u \<noteq> Doctor then (Reply 403 ''Only doctors can update diseases'', s)
      else
        case MedicalRecord_findOne patientId s of
          None \<Rightarrow> (Reply 404 ''Medical record not found'', s)
        | Some medicalRecord \<Rightarrow>
            (case find (\<lambda>d. ds_id d = diseaseId) (diseases medicalRecord) of
               None \<Rightarrow> (Reply 404 ''Disease not found'', s)
             | Some disease \<Rightarrow>
                 if ds_doctor disease \<noteq> userId u
                 then (Reply 403 ''You can only modify your own disease entries'', s)
                 else
                   let disease =
                         (case truthy name' of Some n \<Rightarrow> disease\<lparr>ds_name := n\<rparr>
                          | None \<Rightarrow> disease);
                       disease =
                         (case diagnosedDate of Some d \<Rightarrow> disease\<lparr>ds_diagnosedDate := d\<rparr>
                          | None \<Rightarrow> disease);
                       disease =
                         (case truthy status' of Some st \<Rightarrow> disease\<lparr>ds_status := st\<rparr>
                          | None \<Rightarrow> disease);
                       disease =
                         (case notes of Some n \<Rightarrow> disease\<lparr>ds_notes := Some n\<rparr>
                          | None \<Rightarrow> disease)
                   in if (case truthy status' of Some st \<Rightarrow> \<not> diseaseStatusValid st
                          | None \<Rightarrow> False)
                      then (Reply 500 ''Server error'', s)
                      else
                        let medicalRecord = medicalRecord
                              \<lparr>diseases :=
                                 update_first (\<lambda>d. ds_id d = diseaseId) (\<lambda>_. disease)
                                   (diseases medicalRecord)\<rparr>;
                            s = MedicalRecord_save False medicalRecord s
                        in notifyAndReply (userId u) patientId ''disease'' 200
                             ''Disease updated successfully'' s))"

definition deleteDisease :: "req_user \<Rightarrow> oid \<Rightarrow> oid \<Rightarrow> db \<Rightarrow> response \<times> db" where
  "deleteDisease u patientId diseaseId s =
     (if role u \<noteq> Doctor then (Reply 403 ''Only doctors can delete diseases'', s)
      else
        case MedicalRecord_findOne patientId s of
          None \<Rightarrow> (Reply 404 ''Medical record not found'', s)
        | Some medicalRecord \<Rightarrow>
            (case find (\<lambda>d. ds_id d = diseaseId) (diseases medicalRecord) of
               None \<Rightarrow> (Reply 404 ''Disease not found'', s)
             | Some disease \<Rightarrow>
                 if ds_doctor disease \<noteq> userId u
                 then (Reply 403 ''You can only delete your own disease entries'', s)
                 else
                   let medicalRecord = medicalRecord
                         \<lparr>diseases :=
                            filter (\<lambda>d. ds_id d \<noteq> diseaseId) (diseases medicalRecord)\<rparr>;
                       s = MedicalRecord_save False medicalRecord s
                   in notifyAndReply (userId u) patientId ''disease'' 200
                        ''Disease deleted successfully'' s))"

subsection \<open>Comments\<close>

definition postComment ::
  "req_user \<Rightarrow> oid \<Rightarrow> string option \<Rightarrow> db \<Rightarrow> response \<times> db" where
  "postComment u patientId text' s =
     (if role u \<noteq> Doctor then (Reply 403 ''Only doctors can add comments'', s)
      else if acceptedRequest (userId u) patientId s = None
      then (Reply 403 ''Access denied'', s)
      else
        let found = MedicalRecord_findOne patientId s;
            medicalRecord =
              (case found of None \<Rightarrow> MedicalRecord_new (nextId s) patientId | Some m \<Rightarrow> m)
        in (case truthy text' of
              Some t \<Rightarrow>
                let medicalRecord = medicalRecord
                      \<lparr>comments := comments medicalRecord @
                         [\<lparr>cm_id = nextId s + 1, cm_doctor = userId u, cm_text = t\<rparr>]\<rparr>;
                    s = takeIds 2 (MedicalRecord_save (found = None) medicalRecord s)
                in notifyAndReply (userId u) patientId ''comment'' 201
                     ''Comment added successfully'' s
            | None \<Rightarrow> (Reply 500 ''Server error'', s)))"

definition putComment ::
  "req_user \<Rightarrow> oid \<Rightarrow> oid \<Rightarrow> string option \<Rightarrow> db \<Rightarrow> response \<times> db" where
  "putComment u patientId commentId text' s =
     (if role u \<noteq> Doctor then (Reply 403 ''Only doctors can update comments'', s)
      else
        case MedicalRecord_findOne patientId s of
          None \<Rightarrow> (Reply 404 ''Medical record not found'', s)
        | Some medicalRecord \<Rightarrow>
            (case find (\<lambda>c. cm_id c = commentId) (comments medicalRecord) of
               None \<Rightarrow> (Reply 404 ''Comment not found'', s)
             | Some comment \<Rightarrow>
                 if cm_doctor comment \<noteq> userId u
                 then (Reply 403 ''You can only modify your own comments'', s)
                 else
                   let comment =
                         (case truthy text' of Some t \<Rightarrow> comment\<lparr>cm_text := t\<rparr>
                          | None \<Rightarrow> comment);
                       medicalRecord = medicalRecord
                         \<lparr>comments :=
                            update_first (\<lambda>c. cm_id c = commentId) (\<lambda>_. comment)
                              (comments medicalRecord)\<rparr>;
                       s = MedicalRecord_save False medicalRecord s
                   in notifyAndReply (userId u) patientId ''comment'' 200
                        ''Comment updated successfully'' s))"

definition deleteComment :: "req_user \<Rightarrow> oid \<Rightarrow> oid \<Rightarrow> db \<Rightarrow> response \<times> db" where
  "deleteComment u patientId commentId s =
     (if role u \<noteq> Doctor then (Reply 403 ''Only doctors can delete comments'', s)
      else
        case MedicalRecord_findOne patientId s of
          None \<Rightarrow> (Reply 404 ''Medical record not found'', s)
        | Some medicalRecord \<Rightarrow>
            (case find (\<lambda>c. cm_id c = commentId) (comments medicalRecord) of
               None \<Rightarrow> (Reply 404 ''Comment not found'', s)
             | Some comment \<Rightarrow>
                 if cm_doctor comment \<noteq> userId u
                 then (Reply 403 ''You can only delete your own comments'', s)
                 else
                   let medicalRecord = medicalRecord
                         \<lparr>comments :=
                            filter (\<lambda>c. cm_id c \<noteq> commentId) (comments medicalRecord)\<rparr>;
                       s = MedicalRecord_save False medicalRecord s
                   in notifyAndReply (userId u) patientId ''comment'' 200
                        ''Comment deleted successfully'' s))"

subsection \<open>Diagnostics\<close>

definition postDiagnostic ::
  "req_user \<Rightarrow> oid \<Rightarrow> string option \<Rightarrow> nat option \<Rightarrow> string option \<Rightarrow> string option \<Rightarrow> db
   \<Rightarrow> response \<times> db" where
  "postDiagnostic u patientId testName testDate results notes s =
     (if role u \<noteq> Doctor then (Reply 403 ''Only doctors can add diagnostics'', s)
      else if acceptedRequest (userId u) patientId s = None
      then (Reply 403 ''Access denied'', s)
      else
        let found = MedicalRecord_findOne patientId s;
            medicalRecord =
              (case found of None \<Rightarrow> MedicalRecord_new (nextId s) patientId | Some m \<Rightarrow> m)
        in (case (truthy testName, testDate, truthy results) of
              (Some n, Some d, Some r) \<Rightarrow>
                let medicalRecord = medicalRecord
                      \<lparr>diagnostics := diagnostics medicalRecord @
                         [\<lparr>dg_id = nextId s + 1, dg_doctor = userId u, dg_testName = n,
                           dg_testDate = d, dg_results = r, dg_notes = notes\<rparr>]\<rparr>;
                    s = takeIds 2 (MedicalRecord_save (found = None) medicalRecord s)
                in notifyAndReply (userId u) patientId ''diagnostic'' 201
                     ''Diagnostic added successfully'' s
            | _ \<Rightarrow> (Reply 500 ''Server error'', s)))"

definition putDiagnostic ::
  "req_user \<Rightarrow> oid \<Rightarrow> oid \<Rightarrow> string option \<Rightarrow> nat option \<Rightarrow> string option \<Rightarrow> string option
   \<Rightarrow> db \<Rightarrow> response \<times> db" where
  "putDiagnostic u patientId diagnosticId testName testDate results notes s =
     (if role u \<noteq> Doctor then (Reply 403 ''Only doctors can update diagnostics'', s)
      else
        case MedicalRecord_findOne patientId s of
          None \<Rightarrow> (Reply 404 ''Medical record not found'', s)
        | Some medicalRecord \<Rightarrow>
            (case find (\<lambda>d. dg_id d = diagnosticId) (diagnostics medicalRecord) of
               None \<Rightarrow> (Reply 404 ''Diagnostic not found'', s)
             | Some diagnostic \<Rightarrow>
                 if dg_doctor diagnostic \<noteq> userId u
                 then (Reply 403 ''You can only modify your own diagnostic entries'', s)
                 else
                   let diagnostic =
                         (case truthy testName of Some n \<Rightarrow> diagnostic\<lparr>dg_testName := n\<rparr>
                          | None \<Rightarrow> diagnostic);
                       diagnostic =
                         (case testDate of Some d \<Rightarrow> diagnostic\<lparr>dg_testDate := d\<rparr>
                          | None \<Rightarrow> diagnostic);
                       diagnostic =
                         (case truthy results of Some r \<Rightarrow> diagnostic\<lparr>dg_results := r\<rparr>
                          | None \<Rightarrow> diagnostic);
                       diagnostic =
                         (case notes of Some n \<Rightarrow> diagnostic\<lparr>dg_notes := Some n\<rparr>
                          | None \<Rightarrow> diagnostic);
                       medicalRecord = medicalRecord
                         \<lparr>diagnostics :=
                            update_first (\<lambda>d. dg_id d = diagnosticId) (\<lambda>_. diagnostic)
                              (diagnostics medicalRecord)\<rparr>;
                       s = MedicalRecord_save False medicalRecord s
                   in notifyAndReply (userId u) patientId ''diagnostic'' 200
                        ''Diagnostic updated successfully'' s))"

definition deleteDiagnostic :: "req_user \<Rightarrow> oid \<Rightarrow> oid \<Rightarrow> db \<Rightarrow> response \<times> db" where
  "deleteDiagnostic u patientId diagnosticId s =
     (if role u \<noteq> Doctor then (Reply 403 ''Only doctors can delete diagnostics'', s)
      else
        case MedicalRecord_findOne patientId s of
          None \<Rightarrow> (Reply 404 ''Medical record not found'', s)
        | Some medicalRecord \<Rightarrow>
            (case find (\<lambda>d. dg_id d = diagnosticId) (diagnostics medicalRecord) of
               None \<Rightarrow> (Reply 404 ''Diagnostic not found'', s)
             | Some diagnostic \<Rightarrow>
                 if dg_doctor diagnostic \<noteq> userId u
                 then (Reply 403 ''You can only delete your own diagnostic entries'', s)
                 else
                   let medicalRecord = medicalRecord
                         \<lparr>diagnostics :=
                            filter (\<lambda>d. dg_id d \<noteq> diagnosticId)
                              (diagnostics medicalRecord)\<rparr>;
                       s = MedicalRecord_save False medicalRecord s
                   in notifyAndReply (userId u) patientId ''diagnostic'' 200
                        ''Diagnostic deleted successfully'' s))"

section \<open>Relationship requests\<close>

fun statusString :: "status \<Rightarrow> string" where
  "statusString Pending = ''pending''"
| "statusString Accepted = ''accepted''"
| "statusString Rejected = ''rejected''"

text \<open>
  The \<open>status\<close> of a response body, after the test
  \<open>['accepted', 'rejected'].includes(status)\<close>; \<open>None\<close> when the test fails.
\<close>

definition decision :: "string \<Rightarrow> status option" where
  "decision v =
     (if v = ''accepted'' then Some Accepted
      else if v = ''rejected'' then Some Rejected
      else None)"

text \<open>\<open>doc.save()\<close> of a stored relationship document.\<close>

definition DoctorRequest_save :: "doctorRequest \<Rightarrow> db \<Rightarrow> db" where
  "DoctorRequest_save r s =
     s\<lparr>doctorRequests := update_first (\<lambda>x. dr_id x = dr_id r) (\<lambda>_. r) (doctorRequests s)\<rparr>"

definition DoctorReceptionAgent_save :: "doctorReceptionAgent \<Rightarrow> db \<Rightarrow> db" where
  "DoctorReceptionAgent_save i s =
     s\<lparr>doctorReceptionAgents :=
         update_first (\<lambda>x. ra_id x = ra_id i) (\<lambda>_. i) (doctorReceptionAgents s)\<rparr>"

definition AppointmentInvitation_save :: "appointmentInvitation \<Rightarrow> db \<Rightarrow> db" where
  "AppointmentInvitation_save i s =
     s\<lparr>appointmentInvitations :=
         update_first (\<lambda>x. ai_id x = ai_id i) (\<lambda>_. i) (appointmentInvitations s)\<rparr>"

subsection \<open>Doctor to patient (routes/doctor.js)\<close>

text \<open>POST /request/send\<close>

definition sendRequest :: "req_user \<Rightarrow> oid option \<Rightarrow> db \<Rightarrow> response \<times> db" where
  "sendRequest u patientId s =
     (if role u \<noteq> Doctor then (Reply 403 ''Access denied. Doctor role required.'', s)
      else
        case patientId of
          None \<Rightarrow> (Reply 400 ''Patient ID is required'', s)
        | Some p \<Rightarrow>
            (case find (\<lambda>x. u_id x = p \<and> u_role x = Patient) (users s) of
               None \<Rightarrow> (Reply 404 ''Patient not found'', s)
             | Some patient \<Rightarrow>
                 (case find (\<lambda>r. dr_doctor r = userId u \<and> dr_patient r = p)
                         (doctorRequests s) of
                    Some existingRequest \<Rightarrow>
                      if dr_status existingRequest = Rejected
                      then
                        let existingRequest = existingRequest\<lparr>dr_status := Pending\<rparr>;
                            s = DoctorRequest_save existingRequest s
                        in (case User_findById (userId u) s of
                              None \<Rightarrow> (Reply 500 ''Server error'', s)
                            | Some doctor \<Rightarrow>
                                (Reply 200 ''Request resent successfully'',
                                 notifyDoctorRequest (userId u) p s))
                      else (Reply 400
                              (''Request already '' @ statusString (dr_status existingRequest)), s)
                  | None \<Rightarrow>
                      let doctorRequest =
                            \<lparr>dr_id = nextId s, dr_doctor = userId u, dr_patient = p,
                             dr_status = Pending\<rparr>;
                          s = takeIds 1 (s\<lparr>doctorRequests := doctorRequests s @ [doctorRequest]\<rparr>)
                      in (case User_findById (userId u) s of
                            None \<Rightarrow> (Reply 500 ''Server error'', s)
                          | Some doctor \<Rightarrow>
                              (Reply 201 ''Request sent successfully'',
                               notifyDoctorRequest (userId u) p s)))))"

text \<open>PUT /request/:requestId\<close>

definition respondRequest :: "req_user \<Rightarrow> oid \<Rightarrow> string \<Rightarrow> db \<Rightarrow> response \<times> db" where
  "respondRequest u requestId status' s =
     (if role u \<noteq> Patient then (Reply 403 ''Only patients can respond to requests'', s)
      else
        case decision status' of
          None \<Rightarrow> (Reply 400 ''Invalid status'', s)
        | Some st \<Rightarrow>
            (case find (\<lambda>r. dr_id r = requestId \<and> dr_patient r = userId u \<and>
                            dr_status r = Pending) (doctorRequests s) of
               None \<Rightarrow> (Reply 404 ''Request not found or already processed'', s)
             | Some doctorRequest \<Rightarrow>
                 let doctorRequest = doctorRequest\<lparr>dr_status := st\<rparr>;
                     s = DoctorRequest_save doctorRequest s
                 in (case User_findById (userId u) s of
                       None \<Rightarrow> (Reply 500 ''Server error'', s)
                     | Some patient \<Rightarrow>
                         if st = Accepted
                         then
                           let s = notifyRequestAccepted (userId u) (dr_doctor doctorRequest) s;
                               s = (case MedicalRecord_findOne (userId u) s of
                                      Some medicalRecord \<Rightarrow> s
                                    | None \<Rightarrow>
                                        takeIds 1
                                          (MedicalRecord_save True
                                             (MedicalRecord_new (nextId s) (userId u)) s))
                           in (Reply 200 (''Request '' @ status' @ '' successfully''), s)
                         else
                           (Reply 200 (''Request '' @ status' @ '' successfully''),
                            notifyRequestRejected (userId u) (dr_doctor doctorRequest) s))))"

subsection \<open>Doctor to reception agent (routes/receptionAgents.js)\<close>

text \<open>POST /invite\<close>

definition inviteAgent :: "req_user \<Rightarrow> oid option \<Rightarrow> db \<Rightarrow> response \<times> db" where
  "inviteAgent u receptionAgentId s =
     (if role u \<noteq> Doctor then (Reply 403 ''Access denied. Doctor role required.'', s)
      else
        case receptionAgentId of
          None \<Rightarrow> (Reply 400 ''Reception Agent ID is required'', s)
        | Some a \<Rightarrow>
            (case find (\<lambda>x. u_id x = a \<and> u_role x = ReceptionAgent) (users s) of
               None \<Rightarrow> (Reply 404 ''Reception Agent not found'', s)
             | Some receptionAgent \<Rightarrow>
                 (case find (\<lambda>i. ra_doctor i = userId u \<and> ra_receptionAgent i = a)
                         (doctorReceptionAgents s) of
                    Some existingInvitation \<Rightarrow>
                      if ra_status existingInvitation = Rejected
                      then
                        let existingInvitation = existingInvitation\<lparr>ra_status := Pending\<rparr>;
                            s = DoctorReceptionAgent_save existingInvitation s
                        in (case User_findById (userId u) s of
                              None \<Rightarrow> (Reply 500 ''Server error'', s)
                            | Some doctor \<Rightarrow>
                                (Reply 200 ''Invitation resent successfully'',
                                 createNotification
                                   \<lparr>n_recipient = a, n_sender = userId u,
                                    n_type = ''doctor_request'',
                                    n_title = ''New Doctor Invitation''\<rparr> s))
                      else (Reply 400
                              (''Invitation already '' @
                                 statusString (ra_status existingInvitation)), s)
                  | None \<Rightarrow>
                      let invitation =
                            \<lparr>ra_id = nextId s, ra_doctor = userId u, ra_receptionAgent = a,
                             ra_status = Pending\<rparr>;
                          s = takeIds 1
                                (s\<lparr>doctorReceptionAgents :=
                                     doctorReceptionAgents s @ [invitation]\<rparr>)
                      in (case User_findById (userId u) s of
                            None \<Rightarrow> (Reply 500 ''Server error'', s)
                          | Some doctor \<Rightarrow>
                              (Reply 201 ''Invitation sent successfully'',
                               createNotification
                                 \<lparr>n_recipient = a, n_sender = userId u,
                                  n_type = ''doctor_request'',
                                  n_title = ''New Doctor Invitation''\<rparr> s)))))"

text \<open>PUT /invitation/:invitationId\<close>

definition respondAgentInvitation ::
  "req_user \<Rightarrow> oid \<Rightarrow> string \<Rightarrow> db \<Rightarrow> response \<times> db" where
  "respondAgentInvitation u invitationId status' s =
     (if role u \<noteq> ReceptionAgent
      then (Reply 403 ''Access denied. Reception Agent role required.'', s)
      else
        case decision status' of
          None \<Rightarrow> (Reply 400 ''Invalid status'', s)
        | Some st \<Rightarrow>
            (case find (\<lambda>i. ra_id i = invitationId \<and> ra_receptionAgent i = userId u \<and>
                            ra_status i = Pending) (doctorReceptionAgents s) of
               None \<Rightarrow> (Reply 404 ''Invitation not found or already processed'', s)
             | Some invitation \<Rightarrow>
                 let invitation = invitation\<lparr>ra_status := st\<rparr>;
                     s = DoctorReceptionAgent_save invitation s
                 in (case User_findById (userId u) s of
                       None \<Rightarrow> (Reply 500 ''Server error'', s)
                     | Some receptionAgent \<Rightarrow>
                         (Reply 200 (''Invitation '' @ status' @ '' successfully''),
                          createNotification
                            \<lparr>n_recipient = ra_doctor invitation, n_sender = userId u,
                             n_type = (if st = Accepted then ''request_accepted''
                                       else ''request_rejected''),
                             n_title = (if st = Accepted then ''Invitation Accepted''
                                        else ''Invitation Rejected'')\<rparr> s))))"

text \<open>DELETE /:receptionAgentId\<close>

definition removeAgent :: "req_user \<Rightarrow> oid \<Rightarrow> db \<Rightarrow> response \<times> db" where
  "removeAgent u receptionAgentId s =
     (if role u \<noteq> Doctor then (Reply 403 ''Access denied. Doctor role required.'', s)
      else
        case find (\<lambda>i. ra_doctor i = userId u \<and> ra_receptionAgent i = receptionAgentId)
               (doctorReceptionAgents s) of
          None \<Rightarrow> (Reply 404 ''Reception agent relationship not found'', s)
        | Some invitation \<Rightarrow>
            (Reply 200 ''Reception agent removed successfully'',
             s\<lparr>doctorReceptionAgents :=
                 remove_first
                   (\<lambda>i. ra_doctor i = userId u \<and> ra_receptionAgent i = receptionAgentId)
                   (doctorReceptionAgents s)\<rparr>))"

subsection \<open>Patient to doctor (routes/appointmentInvitations.js)\<close>

text \<open>POST /send\<close>

definition sendInvitation ::
  "req_user \<Rightarrow> oid option \<Rightarrow> nat option \<Rightarrow> string option \<Rightarrow> db \<Rightarrow> response \<times> db" where
  "sendInvitation u doctorId appointmentDate reason s =
     (if role u \<noteq> Patient then (Reply 403 ''Access denied. Patient role required.'', s)
      else
        case (doctorId, appointmentDate, truthy reason) of
          (Some d, Some date, Some r) \<Rightarrow>
            (case find (\<lambda>x. u_id x = d \<and> u_role x = Doctor) (users s) of
               None \<Rightarrow> (Reply 404 ''Doctor not found'', s)
             | Some doctor \<Rightarrow>
                 let invitation =
                       \<lparr>ai_id = nextId s, ai_patient = userId u, ai_doctor = d,
                        ai_appointmentDate = date, ai_reason = r, ai_status = Pending\<rparr>;
                     s = takeIds 1
                           (s\<lparr>appointmentInvitations :=
                                appointmentInvitations s @ [invitation]\<rparr>)
                 in (case User_findById (userId u) s of
                       None \<Rightarrow> (Reply 500 ''Server error'', s)
                     | Some patient \<Rightarrow>
                         (Reply 201 ''Appointment invitation sent successfully'',
                          createNotification
                            \<lparr>n_recipient = d, n_sender = userId u,
                             n_type = ''appointment_invitation'',
                             n_title = ''New Appointment Invitation''\<rparr> s)))
        | _ \<Rightarrow> (Reply 400 ''Doctor ID, appointment date, and reason are required'', s))"

text \<open>PUT /:invitationId\<close>

definition respondInvitation :: "req_user \<Rightarrow> oid \<Rightarrow> string \<Rightarrow> db \<Rightarrow> response \<times> db" where
  "respondInvitation u invitationId status' s =
     (if role u \<noteq> Doctor then (Reply 403 ''Access denied. Doctor role required.'', s)
      else
        case decision status' of
          None \<Rightarrow> (Reply 400 ''Invalid status'', s)
        | Some st \<Rightarrow>
            (case find (\<lambda>i. ai_id i = invitationId \<and> ai_doctor i = userId u)
                    (appointmentInvitations s) of
               None \<Rightarrow> (Reply 404 ''Invitation not found'', s)
             | Some invitation \<Rightarrow>
                 if ai_status invitation \<noteq> Pending
                 then (Reply 400 ''Invitation already processed'', s)
                 else
                   let invitation = invitation\<lparr>ai_status := st\<rparr>;
                       s = AppointmentInvitation_save invitation s;
                       doctor = User_findById (userId u) s
                   in if st = Accepted
                      then
                        let s = (case find (\<lambda>r. dr_doctor r = userId u \<and>
                                                 dr_patient r = ai_patient invitation)
                                        (doctorRequests s) of
                                   None \<Rightarrow>
                                     takeIds 1
                                       (s\<lparr>doctorRequests := doctorRequests s @
                                            [\<lparr>dr_id = nextId s, dr_doctor = userId u,
                                              dr_patient = ai_patient invitation,
                                              dr_status = Accepted\<rparr>]\<rparr>)
                                 | Some doctorRequest \<Rightarrow>
                                     if dr_status doctorRequest \<noteq> Accepted
                                     then DoctorRequest_save
                                            (doctorRequest\<lparr>dr_status := Accepted\<rparr>) s
                                     else s);
                            found = MedicalRecord_findOne (ai_patient invitation) s;
                            medicalRecord =
                              (case found of
                                 None \<Rightarrow> MedicalRecord_new (nextId s) (ai_patient invitation)
                               | Some m \<Rightarrow> m);
                            s = (if found = None
                                 then takeIds 1 (MedicalRecord_save True medicalRecord s)
                                 else s);
                            medicalRecord = medicalRecord
                              \<lparr>appointments := appointments medicalRecord @
                                 [\<lparr>ap_id = nextId s, ap_doctor = userId u,
                                   ap_date = ai_appointmentDate invitation,
                                   ap_reason = ai_reason invitation, ap_notes = None\<rparr>]\<rparr>;
                            s = takeIds 1 (MedicalRecord_save False medicalRecord s)
                        in (case doctor of
                              None \<Rightarrow> (Reply 500 ''Server error'', s)
                            | Some d \<Rightarrow>
                                (Reply 200 (''Invitation '' @ status'),
                                 createNotification
                                   \<lparr>n_recipient = ai_patient invitation, n_sender = userId u,
                                    n_type = ''appointment_accepted'',
                                    n_title = ''Appointment Invitation Accepted''\<rparr> s))
                      else
                        (case doctor of
                           None \<Rightarrow> (Reply 500 ''Server error'', s)
                         | Some d \<Rightarrow>
                             (Reply 200 (''Invitation '' @ status'),
                              createNotification
                                \<lparr>n_recipient = ai_patient invitation, n_sender = userId u,
                                 n_type = ''appointment_rejected'',
                                 n_title = ''Appointment Invitation Declined''\<rparr> s))))"

section \<open>The interface as a whole\<close>

text \<open>
  The requests that read or write a relationship or a medical record. The remaining
  routes (authentication, administration, the notification inbox, the statistics and the
  lists) write neither collection.
\<close>

datatype request =
    GetMedicalRecord oid
  | PostAppointment oid "nat option" "string option" "string option" "oid option"
  | PutAppointment oid oid "nat option" "string option" "string option"
  | DeleteAppointment oid oid
  | PostPrescription oid "string option" "string option" "string option" "string option"
  | PutPrescription oid oid "string option" "string option" "string option" "string option"
  | DeletePrescription oid oid
  | PostDisease oid "string option" "nat option" "string option" "string option"
  | PutDisease oid oid "string option" "nat option" "string option" "string option"
  | DeleteDisease oid oid
  | PostComment oid "string option"
  | PutComment oid oid "string option"
  | DeleteComment oid oid
  | PostDiagnostic oid "string option" "nat option" "string option" "string option"
  | PutDiagnostic oid oid "string option" "nat option" "string option" "string option"
  | DeleteDiagnostic oid oid
  | SendRequest "oid option"
  | RespondRequest oid string
  | InviteAgent "oid option"
  | RespondAgentInvitation oid string
  | RemoveAgent oid
  | SendInvitation "oid option" "nat option" "string option"
  | RespondInvitation oid string

fun handle :: "req_user \<Rightarrow> request \<Rightarrow> db \<Rightarrow> response \<times> db" where
  "handle u (GetMedicalRecord p) s = getMedicalRecord u p s"
| "handle u (PostAppointment p date reason notes doctorId) s =
     postAppointment u p date reason notes doctorId s"
| "handle u (PutAppointment p e date reason notes) s = putAppointment u p e date reason notes s"
| "handle u (DeleteAppointment p e) s = deleteAppointment u p e s"
| "handle u (PostPrescription p medication dosage duration instructions) s =
     postPrescription u p medication dosage duration instructions s"
| "handle u (PutPrescription p e medication dosage duration instructions) s =
     putPrescription u p e medication dosage duration instructions s"
| "handle u (DeletePrescription p e) s = deletePrescription u p e s"
| "handle u (PostDisease p name' diagnosedDate status' notes) s =
     postDisease u p name' diagnosedDate status' notes s"
| "handle u (PutDisease p e name' diagnosedDate status' notes) s =
     putDisease u p e name' diagnosedDate status' notes s"
| "handle u (DeleteDisease p e) s = deleteDisease u p e s"
| "handle u (PostComment p text') s = postComment u p text' s"
| "handle u (PutComment p e text') s = putComment u p e text' s"
| "handle u (DeleteComment p e) s = deleteComment u p e s"
| "handle u (PostDiagnostic p testName testDate results notes) s =
     postDiagnostic u p testName testDate results notes s"
| "handle u (PutDiagnostic p e testName testDate results notes) s =
     putDiagnostic u p e testName testDate results notes s"
| "handle u (DeleteDiagnostic p e) s = deleteDiagnostic u p e s"
| "handle u (SendRequest patientId) s = sendRequest u patientId s"
| "handle u (RespondRequest requestId status') s = respondRequest u requestId status' s"
| "handle u (InviteAgent receptionAgentId) s = inviteAgent u receptionAgentId s"
| "handle u (RespondAgentInvitation invitationId status') s =
     respondAgentInvitation u invitationId status' s"
| "handle u (RemoveAgent receptionAgentId) s = removeAgent u receptionAgentId s"
| "handle u (SendInvitation doctorId appointmentDate reason) s =
     sendInvitation u doctorId appointmentDate reason s"
| "handle u (RespondInvitation invitationId status') s =
     respondInvitation u invitationId status' s"

section \<open>Example states\<close>

definition patient1 :: req_user where
  "patient1 = \<lparr>userId = 1, role = Patient\<rparr>"

definition doctor2 :: req_user where
  "doctor2 = \<lparr>userId = 2, role = Doctor\<rparr>"

definition doctor3 :: req_user where
  "doctor3 = \<lparr>userId = 3, role = Doctor\<rparr>"

definition agent4 :: req_user where
  "agent4 = \<lparr>userId = 4, role = ReceptionAgent\<rparr>"

definition some_users :: "user list" where
  "some_users =
     [\<lparr>u_id = 1, u_role = Patient, u_name = ''Ana'', u_familyName = ''Diaz''\<rparr>,
      \<lparr>u_id = 2, u_role = Doctor, u_name = ''Bo'', u_familyName = ''Chen''\<rparr>,
      \<lparr>u_id = 3, u_role = Doctor, u_name = ''Cy'', u_familyName = ''Dunn''\<rparr>,
      \<lparr>u_id = 4, u_role = ReceptionAgent, u_name = ''Di'', u_familyName = ''Eck''\<rparr>]"

text \<open>Nothing stored but the users.\<close>

definition db_empty :: db where
  "db_empty =
     \<lparr>users = some_users, doctorRequests = [], doctorReceptionAgents = [],
      appointmentInvitations = [], medicalRecords = [], notifications = [], nextId = 0\<rparr>"

text \<open>Doctor 2 has asked patient 1 for access; the patient has not answered.\<close>

definition db_pending :: db where
  "db_pending =
     \<lparr>users = some_users,
      doctorRequests = [\<lparr>dr_id = 10, dr_doctor = 2, dr_patient = 1, dr_status = Pending\<rparr>],
      doctorReceptionAgents = [], appointmentInvitations = [], medicalRecords = [],
      notifications = [], nextId = 11\<rparr>"

text \<open>
  Patient 1 has granted access to doctors 2 and 3, reception agent 4 works for doctor 2,
  and doctor 2 has written an appointment and a prescription into the patient's record.
\<close>

definition db_treated :: db where
  "db_treated =
     \<lparr>users = some_users,
      doctorRequests =
        [\<lparr>dr_id = 10, dr_doctor = 2, dr_patient = 1, dr_status = Accepted\<rparr>,
         \<lparr>dr_id = 11, dr_doctor = 3, dr_patient = 1, dr_status = Accepted\<rparr>],
      doctorReceptionAgents =
        [\<lparr>ra_id = 12, ra_doctor = 2, ra_receptionAgent = 4, ra_status = Accepted\<rparr>],
      appointmentInvitations = [],
      medicalRecords =
        [\<lparr>mr_id = 20, mr_patient = 1,
          appointments =
            [\<lparr>ap_id = 21, ap_doctor = 2, ap_date = 1000, ap_reason = ''checkup'',
              ap_notes = None\<rparr>],
          prescriptions =
            [\<lparr>pr_id = 22, pr_doctor = 2, pr_medication = ''aspirin'', pr_dosage = ''100 mg'',
              pr_duration = None, pr_instructions = None\<rparr>],
          diseases = [], comments = [], diagnostics = []\<rparr>],
      notifications = [], nextId = 30\<rparr>"

text \<open>
  Patient 1 has invited doctor 2 to an appointment; an earlier request of the doctor was
  rejected by the patient, who has no medical record yet.
\<close>

definition db_invited :: db where
  "db_invited =
     \<lparr>users = some_users,
      doctorRequests = [\<lparr>dr_id = 6, dr_doctor = 2, dr_patient = 1, dr_status = Rejected\<rparr>],
      doctorReceptionAgents = [],
      appointmentInvitations =
        [\<lparr>ai_id = 5, ai_patient = 1, ai_doctor = 2, ai_appointmentDate = 2000,
          ai_reason = ''fever'', ai_status = Pending\<rparr>],
      medicalRecords = [], notifications = [], nextId = 7\<rparr>"

section \<open>Invariants of the stored state\<close>

text \<open>
  What the store itself guarantees: the \<open>_id\<close> of a document is unique in its
  collection (here also below \<open>nextId\<close>, so that a fresh one is new).
\<close>

definition ids_ok :: "db \<Rightarrow> bool" where
  "ids_ok s =
     (distinct (map dr_id (doctorRequests s)) \<and>
      list_all (\<lambda>r. dr_id r < nextId s) (doctorRequests s) \<and>
      distinct (map ra_id (doctorReceptionAgents s)) \<and>
      list_all (\<lambda>i. ra_id i < nextId s) (doctorReceptionAgents s) \<and>
      distinct (map mr_id (medicalRecords s)) \<and>
      list_all (\<lambda>m. mr_id m < nextId s) (medicalRecords s))"

definition dr_pair :: "doctorRequest \<Rightarrow> oid \<times> oid" where
  "dr_pair r = (dr_doctor r, dr_patient r)"

definition ra_pair :: "doctorReceptionAgent \<Rightarrow> oid \<times> oid" where
  "ra_pair i = (ra_doctor i, ra_receptionAgent i)"

text \<open>At most one relationship document for a pair, of either constrained kind.\<close>

definition pairs_ok :: "db \<Rightarrow> bool" where
  "pairs_ok s =
     (distinct (map dr_pair (doctorRequests s)) \<and>
      distinct (map ra_pair (doctorReceptionAgents s)))"

text \<open>Every entry of a record was written by a doctor who has accepted access to the
  record's patient.\<close>

definition entries_ok :: "db \<Rightarrow> medicalRecord \<Rightarrow> bool" where
  "entries_ok s m =
     (list_all (\<lambda>a. acceptedRequest (ap_doctor a) (mr_patient m) s \<noteq> None) (appointments m) \<and>
      list_all (\<lambda>x. acceptedRequest (pr_doctor x) (mr_patient m) s \<noteq> None) (prescriptions m) \<and>
      list_all (\<lambda>x. acceptedRequest (ds_doctor x) (mr_patient m) s \<noteq> None) (diseases m) \<and>
      list_all (\<lambda>x. acceptedRequest (cm_doctor x) (mr_patient m) s \<noteq> None) (comments m) \<and>
      list_all (\<lambda>x. acceptedRequest (dg_doctor x) (mr_patient m) s \<noteq> None) (diagnostics m))"

definition authors_ok :: "db \<Rightarrow> bool" where
  "authors_ok s = list_all (entries_ok s) (medicalRecords s)"

definition wf :: "db \<Rightarrow> bool" where
  "wf s = (ids_ok s \<and> pairs_ok s \<and> authors_ok s)"

text \<open>
  The elementary writes the handlers are composed of: \<open>writes s t\<close> when \<open>t\<close> comes from
  \<open>s\<close> by a sequence of them.
\<close>

inductive writes :: "db \<Rightarrow> db \<Rightarrow> bool" for s :: db where
  w_refl: "writes s s"
| w_notify: "writes s t \<Longrightarrow> writes s (createNotification n t)"
| w_ids: "writes s t \<Longrightarrow> writes s (takeIds k t)"
| w_dr_insert:
    "writes s t \<Longrightarrow> dr_id r = nextId t \<Longrightarrow>
     find (\<lambda>x. dr_doctor x = dr_doctor r \<and> dr_patient x = dr_patient r) (doctorRequests t) = None \<Longrightarrow>
     0 < k \<Longrightarrow> writes s (takeIds k (t\<lparr>doctorRequests := doctorRequests t @ [r]\<rparr>))"
| w_dr_status:
    "writes s t \<Longrightarrow> r \<in> set (doctorRequests t) \<Longrightarrow> dr_status r \<noteq> Accepted \<Longrightarrow>
     writes s (DoctorRequest_save (r\<lparr>dr_status := st\<rparr>) t)"
| w_ra_insert:
    "writes s t \<Longrightarrow> ra_id i = nextId t \<Longrightarrow>
     find (\<lambda>x. ra_doctor x = ra_doctor i \<and> ra_receptionAgent x = ra_receptionAgent i)
       (doctorReceptionAgents t) = None \<Longrightarrow>
     0 < k \<Longrightarrow>
     writes s (takeIds k (t\<lparr>doctorReceptionAgents := doctorReceptionAgents t @ [i]\<rparr>))"
| w_ra_status:
    "writes s t \<Longrightarrow> i \<in> set (doctorReceptionAgents t) \<Longrightarrow>
     writes s (DoctorReceptionAgent_save (i\<lparr>ra_status := st\<rparr>) t)"
| w_ra_remove:
    "writes s t \<Longrightarrow>
     writes s (t\<lparr>doctorReceptionAgents := remove_first P (doctorReceptionAgents t)\<rparr>)"
| w_ai: "writes s t \<Longrightarrow> writes s (t\<lparr>appointmentInvitations := xs\<rparr>)"
| w_mr_insert:
    "writes s t \<Longrightarrow> mr_id m = nextId t \<Longrightarrow> entries_ok t m \<Longrightarrow> 0 < k \<Longrightarrow>
     writes s (takeIds k (MedicalRecord_save True m t))"
| w_mr_update:
    "writes s t \<Longrightarrow> m \<in> set (medicalRecords t) \<Longrightarrow> mr_id m' = mr_id m \<Longrightarrow>
     mr_patient m' = mr_patient m \<Longrightarrow> entries_ok t m \<longrightarrow> entries_ok t m' \<Longrightarrow>
     writes s (MedicalRecord_save False m' t)"

text \<open>
  The states the interface can reach from an empty store. The routes that are not
  modelled change the users and the notifications only.
\<close>

inductive reachable :: "db \<Rightarrow> bool" where
  r_init:
    "reachable \<lparr>users = us, doctorRequests = [], doctorReceptionAgents = [],
       appointmentInvitations = [], medicalRecords = [], notifications = [], nextId = n\<rparr>"
| r_handle: "reachable s \<Longrightarrow> reachable (snd (handle u q s))"
| r_other: "reachable s \<Longrightarrow> reachable (s\<lparr>users := us, notifications := ns\<rparr>)"

text \<open>
  The specification's uniqueness property (section 8): no pair has two relationship
  documents that are both not rejected.
\<close>

definition one_open_request :: "db \<Rightarrow> bool" where
  "one_open_request s =
     (distinct (map dr_pair (filter (\<lambda>r. dr_status r \<noteq> Rejected) (doctorRequests s))) \<and>
      distinct (map ra_pair
        (filter (\<lambda>i. ra_status i \<noteq> Rejected) (doctorReceptionAgents s))))"

text \<open>
  The requests that can bring the record of patient \<open>p\<close> into existence: the GET of the
  record, an append to it, the patient's acceptance of a doctor's request, and a doctor's
  acceptance of an appointment invitation of the patient.
\<close>

fun creates :: "req_user \<Rightarrow> request \<Rightarrow> db \<Rightarrow> oid \<Rightarrow> bool" where
  "creates u (GetMedicalRecord p') s p = (p' = p)"
| "creates u (PostAppointment p' date reason notes doctorId) s p = (p' = p)"
| "creates u (PostPrescription p' medication dosage duration instructions) s p = (p' = p)"
| "creates u (PostDisease p' name' diagnosedDate status' notes) s p = (p' = p)"
| "creates u (PostComment p' text') s p = (p' = p)"
| "creates u (PostDiagnostic p' testName testDate results notes) s p = (p' = p)"
| "creates u (RespondRequest requestId status') s p =
     (userId u = p \<and> decision status' = Some Accepted)"
| "creates u (RespondInvitation invitationId status') s p =
     (decision status' = Some Accepted \<and>
      (case find (\<lambda>i. ai_id i = invitationId \<and> ai_doctor i = userId u)
              (appointmentInvitations s) of
         Some iv \<Rightarrow> ai_patient iv = p
       | None \<Rightarrow> False))"
| "creates u q s p = False"

section \<open>The access resolver of the specification\<close>

text \<open>
  Section 4.2 of the specification, in its words: a patient reads the own record and
  writes nothing; a doctor reads and writes iff an accepted request of the doctor for the
  patient exists; a reception agent reads and writes appointments iff some doctor who has
  an accepted delegation to the agent has an accepted request for the patient, and writes
  nothing else; an administrator has no access. The handlers have no such function: each
  one makes its own queries.
\<close>

datatype mode = Read | WriteAppointment | WriteOther

definition canAccess :: "db \<Rightarrow> req_user \<Rightarrow> oid \<Rightarrow> mode \<Rightarrow> bool" where
  "canAccess s u patientId m =
     (case role u of
        Patient \<Rightarrow> m = Read \<and> userId u = patientId
      | Doctor \<Rightarrow> acceptedRequest (userId u) patientId s \<noteq> None
      | ReceptionAgent \<Rightarrow>
          m \<noteq> WriteOther \<and>
          list_ex (\<lambda>i. ra_receptionAgent i = userId u \<and> ra_status i = Accepted \<and>
                       acceptedRequest (ra_doctor i) patientId s \<noteq> None)
            (doctorReceptionAgents s)
      | Admin \<Rightarrow> False)"

text \<open>The patient and the mode of a request that appends an entry.\<close>

fun appendOf :: "request \<Rightarrow> (oid \<times> mode) option" where
  "appendOf (PostAppointment p date reason notes doctorId) = Some (p, WriteAppointment)"
| "appendOf (PostPrescription p medication dosage duration instructions) = Some (p, WriteOther)"
| "appendOf (PostDisease p name' diagnosedDate status' notes) = Some (p, WriteOther)"
| "appendOf (PostComment p text') = Some (p, WriteOther)"
| "appendOf (PostDiagnostic p testName testDate results notes) = Some (p, WriteOther)"
| "appendOf q = None"

text \<open>The patient and the mode of a request that updates or deletes an entry.\<close>

fun changeOf :: "request \<Rightarrow> (oid \<times> mode) option" where
  "changeOf (PutAppointment p e date reason notes) = Some (p, WriteAppointment)"
| "changeOf (DeleteAppointment p e) = Some (p, WriteAppointment)"
| "changeOf (PutPrescription p e medication dosage duration instructions) = Some (p, WriteOther)"
| "changeOf (DeletePrescription p e) = Some (p, WriteOther)"
| "changeOf (PutDisease p e name' diagnosedDate status' notes) = Some (p, WriteOther)"
| "changeOf (DeleteDisease p e) = Some (p, WriteOther)"
| "changeOf (PutComment p e text') = Some (p, WriteOther)"
| "changeOf (DeleteComment p e) = Some (p, WriteOther)"
| "changeOf (PutDiagnostic p e testName testDate results notes) = Some (p, WriteOther)"
| "changeOf (DeleteDiagnostic p e) = Some (p, WriteOther)"
| "changeOf q = None"

text \<open>
  The doctor of the entry such a request names: of the first entry with that identifier
  in the record of the patient; \<open>None\<close> when the record or the entry is missing.
\<close>

definition authorIn ::
  "oid \<Rightarrow> db \<Rightarrow> (medicalRecord \<Rightarrow> 'a list) \<Rightarrow> ('a \<Rightarrow> oid) \<Rightarrow> ('a \<Rightarrow> oid) \<Rightarrow> oid \<Rightarrow> oid option" where
  "authorIn p s entries ident doctor e =
     (case MedicalRecord_findOne p s of
        None \<Rightarrow> None
      | Some m \<Rightarrow> map_option doctor (find (\<lambda>x. ident x = e) (entries m)))"

fun targetAuthor :: "db \<Rightarrow> request \<Rightarrow> oid option" where
  "targetAuthor s (PutAppointment p e date reason notes) =
     authorIn p s appointments ap_id ap_doctor e"
| "targetAuthor s (DeleteAppointment p e) = authorIn p s appointments ap_id ap_doctor e"
| "targetAuthor s (PutPrescription p e medication dosage duration instructions) =
     authorIn p s prescriptions pr_id pr_doctor e"
| "targetAuthor s (DeletePrescription p e) = authorIn p s prescriptions pr_id pr_doctor e"
| "targetAuthor s (PutDisease p e name' diagnosedDate status' notes) =
     authorIn p s diseases ds_id ds_doctor e"
| "targetAuthor s (DeleteDisease p e) = authorIn p s diseases ds_id ds_doctor e"
| "targetAuthor s (PutComment p e text') = authorIn p s comments cm_id cm_doctor e"
| "targetAuthor s (DeleteComment p e) = authorIn p s comments cm_id cm_doctor e"
| "targetAuthor s (PutDiagnostic p e testName testDate results notes) =
     authorIn p s diagnostics dg_id dg_doctor e"
| "targetAuthor s (DeleteDiagnostic p e) = authorIn p s diagnostics dg_id dg_doctor e"
| "targetAuthor s q = None"

text \<open>The role check that opens an update or delete handler.\<close>

definition roleAllowed :: "req_user \<Rightarrow> mode \<Rightarrow> bool" where
  "roleAllowed u m = (role u = Doctor \<or> (role u = ReceptionAgent \<and> m = WriteAppointment))"

text \<open>
  The permission check of an update or delete handler, on the doctor \<open>a\<close> of the entry:
  the acting doctor is \<open>a\<close>, or (appointments) the acting reception agent has an accepted
  delegation of \<open>a\<close>.
\<close>

definition mayChange :: "db \<Rightarrow> req_user \<Rightarrow> mode \<Rightarrow> oid \<Rightarrow> bool" where
  "mayChange s u m a =
     ((role u = Doctor \<and> userId u = a) \<or>
      (role u = ReceptionAgent \<and> m = WriteAppointment \<and>
       acceptedInvitation (userId u) a s \<noteq> None))"

text \<open>
  From the empty store: doctor 2 asks patient 1 for access, the patient accepts, and the
  doctor adds a prescription.
\<close>

definition db_trace :: db where
  "db_trace =
     snd (handle doctor2 (PostPrescription 1 (Some ''aspirin'') (Some ''100 mg'') None None)
       (snd (handle patient1 (RespondRequest 0 ''accepted'')
         (snd (handle doctor2 (SendRequest (Some 1)) db_empty)))))"

text \<open>
  The validation that comes before the gate of an append: a reception agent who adds an
  appointment has to name the doctor it is for.
\<close>

fun doctorIdMissing :: "req_user \<Rightarrow> request \<Rightarrow> bool" where
  "doctorIdMissing u (PostAppointment p date reason notes doctorId) =
     (role u = ReceptionAgent \<and> doctorId = None)"
| "doctorIdMissing u q = False"

text \<open>
  After \<open>db_trace\<close>: doctor 2 invites reception agent 4, the agent accepts, and books an
  appointment of patient 1 with the doctor.
\<close>

definition db_desk :: db where
  "db_desk =
     snd (handle agent4 (PostAppointment 1 (Some 1000) (Some ''checkup'') None (Some 2))
       (snd (handle agent4 (RespondAgentInvitation 4 ''accepted'')
         (snd (handle doctor2 (InviteAgent (Some 4)) db_trace)))))"

section \<open>Properties of the risk engine\<close>

lemma let_inv: "P s \<Longrightarrow> (\<And>x. P x \<Longrightarrow> Q (f x)) \<Longrightarrow> Q (Let s f)"
  by simp

lemma add_nonneg: "0 \<le> n \<Longrightarrow> 0 \<le> fst st \<Longrightarrow> 0 \<le> fst (add n msg st)"
  by (simp add: add_def)

definition graded :: "prediction \<Rightarrow> bool" where
  "graded p = (0 \<le> score p \<and> score p \<le> 100 \<and> risk p = spec_risk_level (score p))"

lemma graded_finish:
  "0 \<le> fst st \<Longrightarrow>
   graded
     (let score' = min (fst st) 100;
          risk' = (if score' \<ge> 70 then ''Very High''
                   else if score' \<ge> 50 then ''High''
                   else if score' \<ge> 30 then ''Moderate''
                   else ''Low'');
          factors' = (if length (snd st) = 0 then snd st @ [msg] else snd st)
      in \<lparr>risk = risk', score = score', factors = factors'\<rparr>)"
  by (simp add: graded_def spec_risk_level_def Let_def)

lemma graded_stroke: "graded (calculateStrokeRisk a)"
  unfolding calculateStrokeRisk_def
  apply (rule let_inv[where P = "\<lambda>st. 0 \<le> fst st" and Q = graded], simp add: add_nonneg)+
  apply (rule let_inv[where P = "\<lambda>b. True" and Q = graded], simp)
  apply (rule let_inv[where P = "\<lambda>st. 0 \<le> fst st" and Q = graded], simp add: add_nonneg)+
  by (rule graded_finish)

lemma graded_heart: "graded (calculateHeartDiseaseRisk a)"
  unfolding calculateHeartDiseaseRisk_def
  apply (rule let_inv[where P = "\<lambda>st. 0 \<le> fst st" and Q = graded], simp add: add_nonneg)+
  apply (rule let_inv[where P = "\<lambda>b. True" and Q = graded], simp)
  apply (rule let_inv[where P = "\<lambda>st. 0 \<le> fst st" and Q = graded], simp add: add_nonneg)+
  by (rule graded_finish)

lemma graded_diabetes: "graded (calculateDiabetesRisk a)"
proof (cases "hasDiabetes a")
  case True
  then show ?thesis
    by (simp add: calculateDiabetesRisk_def graded_def spec_risk_level_def)
next
  case False
  then have "calculateDiabetesRisk a = (if False then undefined else calculateDiabetesRisk a)"
    by simp
  show ?thesis
    unfolding calculateDiabetesRisk_def using False
    apply (simp only: if_False)
    apply (rule let_inv[where P = "\<lambda>st. 0 \<le> fst st" and Q = graded], simp add: add_nonneg)+
    apply (rule let_inv[where P = "\<lambda>b. True" and Q = graded], simp)
    apply (rule let_inv[where P = "\<lambda>st. 0 \<le> fst st" and Q = graded], simp add: add_nonneg)+
    by (rule graded_finish)
qed

lemma fl_7_4: "fl (7 / 4) = 7 / 4"
  by (simp add: fl_def log2floor.simps pow2_def round_half_even_def Let_def)

lemma fl_49_16: "fl (49 / 16) = 49 / 16"
  by (simp add: fl_def log2floor.simps pow2_def round_half_even_def Let_def)

lemma fl_bmi: "fl (1440 / 49) = 8271917682925401 / 281474976710656"
  by (simp add: fl_def log2floor.simps pow2_def round_half_even_def Let_def)

lemma example_bmi: "calculateBMI 90 175 = Num (8271917682925401 / 281474976710656)"
  by (simp add: calculateBMI_def js_div_def Let_def fl_7_4 fl_49_16 fl_bmi)

text \<open>
  C5: whenever \<open>hasDiabetes\<close> is true, the diabetes computation returns score 100, risk
  "Very High" and the single factor saying the patient is already diagnosed, whatever the
  other fields are.
\<close>

theorem C5_diabetes_short_circuit:
  "hasDiabetes a \<Longrightarrow>
   calculateDiabetesRisk a =
     \<lparr>risk = ''Very High'', score = 100,
      factors = [''Already diagnosed with diabetes. Continue treatment and monitoring.'']\<rparr>"
  by (simp add: calculateDiabetesRisk_def)

theorem C5_diabetes_short_circuit_witness:
  "hasDiabetes (example_assessment\<lparr>hasDiabetes := True\<rparr>) \<and>
   calculateDiabetesRisk (example_assessment\<lparr>hasDiabetes := True\<rparr>) =
     \<lparr>risk = ''Very High'', score = 100,
      factors = [''Already diagnosed with diabetes. Continue treatment and monitoring.'']\<rparr>"
  using C5_diabetes_short_circuit [of "example_assessment\<lparr>hasDiabetes := True\<rparr>"]
  by simp

text \<open>
  C6: for every questionnaire, each of the three scores lies between 0 and 100, and the
  risk level is the one the thresholds give for that score: 70 and above "Very High",
  50 to 69 "High", 30 to 49 "Moderate", below 30 "Low".
\<close>

theorem C6_scores_bounded_and_graded:
  "(0 \<le> score (calculateStrokeRisk a) \<and> score (calculateStrokeRisk a) \<le> 100 \<and>
    risk (calculateStrokeRisk a) = spec_risk_level (score (calculateStrokeRisk a))) \<and>
   (0 \<le> score (calculateHeartDiseaseRisk a) \<and> score (calculateHeartDiseaseRisk a) \<le> 100 \<and>
    risk (calculateHeartDiseaseRisk a) = spec_risk_level (score (calculateHeartDiseaseRisk a))) \<and>
   (0 \<le> score (calculateDiabetesRisk a) \<and> score (calculateDiabetesRisk a) \<le> 100 \<and>
    risk (calculateDiabetesRisk a) = spec_risk_level (score (calculateDiabetesRisk a))) \<and>
   spec_risk_level 70 = ''Very High'' \<and> spec_risk_level 69 = ''High'' \<and>
   spec_risk_level 50 = ''High'' \<and> spec_risk_level 49 = ''Moderate'' \<and>
   spec_risk_level 30 = ''Moderate'' \<and> spec_risk_level 29 = ''Low''"
  using graded_stroke [of a] graded_heart [of a] graded_diabetes [of a]
  by (simp add: graded_def spec_risk_level_def)

text \<open>
  C7: on the questionnaire of the end-to-end example (age 70, male, 175 cm, 90 kg, high
  blood pressure, current smoker, never exercising, every other boolean false) the stroke
  computation yields score 74 = 20 + 25 + 15 + 8 + 6 and risk "Very High"; the body-mass
  index is about 29.39, between 25 and 30.
\<close>

theorem C7_example_stroke_score:
  "calculateStrokeRisk example_assessment =
     \<lparr>risk = ''Very High'', score = 74,
      factors = [''Age 65-74 increases stroke risk'',
                 ''High blood pressure is a major stroke risk factor'',
                 ''Current smoking doubles stroke risk'',
                 ''Lack of exercise increases stroke risk'',
                 ''Overweight (BMI 25-30) moderately increases risk'']\<rparr> \<and>
   calculateBMI (weight example_assessment) (height example_assessment) =
     Num (8271917682925401 / 281474976710656) \<and>
   (25::real) \<le> 8271917682925401 / 281474976710656 \<and>
   (8271917682925401 / 281474976710656 :: real) < 30"
  by (simp add: calculateStrokeRisk_def example_assessment_def example_bmi add_def)

section \<open>Lemmas on the queries and writes\<close>

lemma sel_createNotification [simp]:
  "users (createNotification n s) = users s"
  "doctorRequests (createNotification n s) = doctorRequests s"
  "doctorReceptionAgents (createNotification n s) = doctorReceptionAgents s"
  "appointmentInvitations (createNotification n s) = appointmentInvitations s"
  "medicalRecords (createNotification n s) = medicalRecords s"
  "nextId (createNotification n s) = nextId s"
  by (simp_all add: createNotification_def)

lemma sel_takeIds [simp]:
  "users (takeIds k s) = users s"
  "doctorRequests (takeIds k s) = doctorRequests s"
  "doctorReceptionAgents (takeIds k s) = doctorReceptionAgents s"
  "appointmentInvitations (takeIds k s) = appointmentInvitations s"
  "medicalRecords (takeIds k s) = medicalRecords s"
  "notifications (takeIds k s) = notifications s"
  "nextId (takeIds k s) = nextId s + k"
  by (simp_all add: takeIds_def)

lemma sel_MedicalRecord_save [simp]:
  "users (MedicalRecord_save b m s) = users s"
  "doctorRequests (MedicalRecord_save b m s) = doctorRequests s"
  "doctorReceptionAgents (MedicalRecord_save b m s) = doctorReceptionAgents s"
  "appointmentInvitations (MedicalRecord_save b m s) = appointmentInvitations s"
  "notifications (MedicalRecord_save b m s) = notifications s"
  "nextId (MedicalRecord_save b m s) = nextId s"
  by (simp_all add: MedicalRecord_save_def)

lemma sel_DoctorRequest_save [simp]:
  "users (DoctorRequest_save r s) = users s"
  "doctorReceptionAgents (DoctorRequest_save r s) = doctorReceptionAgents s"
  "appointmentInvitations (DoctorRequest_save r s) = appointmentInvitations s"
  "medicalRecords (DoctorRequest_save r s) = medicalRecords s"
  "notifications (DoctorRequest_save r s) = notifications s"
  "nextId (DoctorRequest_save r s) = nextId s"
  by (simp_all add: DoctorRequest_save_def)

lemma sel_DoctorReceptionAgent_save [simp]:
  "users (DoctorReceptionAgent_save r s) = users s"
  "doctorRequests (DoctorReceptionAgent_save r s) = doctorRequests s"
  "appointmentInvitations (DoctorReceptionAgent_save r s) = appointmentInvitations s"
  "medicalRecords (DoctorReceptionAgent_save r s) = medicalRecords s"
  "notifications (DoctorReceptionAgent_save r s) = notifications s"
  "nextId (DoctorReceptionAgent_save r s) = nextId s"
  by (simp_all add: DoctorReceptionAgent_save_def)

lemma sel_AppointmentInvitation_save [simp]:
  "users (AppointmentInvitation_save r s) = users s"
  "doctorRequests (AppointmentInvitation_save r s) = doctorRequests s"
  "doctorReceptionAgents (AppointmentInvitation_save r s) = doctorReceptionAgents s"
  "medicalRecords (AppointmentInvitation_save r s) = medicalRecords s"
  "notifications (AppointmentInvitation_save r s) = notifications s"
  "nextId (AppointmentInvitation_save r s) = nextId s"
  by (simp_all add: AppointmentInvitation_save_def)

lemma find_append:
  "find P (xs @ ys) = (case find P xs of None \<Rightarrow> find P ys | Some x \<Rightarrow> Some x)"
  by (induction xs) auto

lemma find_Some_pred: "find P xs = Some x \<Longrightarrow> P x"
  by (auto simp: find_Some_iff)

lemma find_Some_mem: "find P xs = Some x \<Longrightarrow> x \<in> set xs"
  by (auto simp: find_Some_iff)

text \<open>Once the document with key \<open>k\<close> is replaced by one that fails \<open>R\<close>, no document
  with that key passes \<open>R\<close>: keys are unique.\<close>

lemma find_closed_after_update:
  "distinct (map f xs) \<Longrightarrow> f y = k \<Longrightarrow> \<not> R y \<Longrightarrow>
   find (\<lambda>x. f x = k \<and> R x) (update_first (\<lambda>x. f x = k) (\<lambda>_. y) xs) = None"
proof (induction xs)
  case Nil
  then show ?case by simp
next
  case (Cons x xs)
  show ?case
  proof (cases "f x = k")
    case True
    with Cons.prems have "k \<notin> f ` set xs" by simp
    then have "find (\<lambda>x. f x = k \<and> R x) xs = None" by (auto simp: find_None_iff)
    with True Cons.prems show ?thesis by simp
  next
    case False
    with Cons show ?thesis by simp
  qed
qed

lemma decision_not_pending: "decision v = Some st \<Longrightarrow> st \<noteq> Pending"
  by (auto simp: decision_def split: if_splits)

lemma User_findById_frame [simp]:
  "User_findById i (createNotification n s) = User_findById i s"
  "User_findById i (takeIds k s) = User_findById i s"
  "User_findById i (MedicalRecord_save b m s) = User_findById i s"
  "User_findById i (DoctorRequest_save r s) = User_findById i s"
  "User_findById i (DoctorReceptionAgent_save a s) = User_findById i s"
  "User_findById i (AppointmentInvitation_save v s) = User_findById i s"
  by (simp_all add: User_findById_def)

lemma acceptedRequest_frame [simp]:
  "acceptedRequest d p (createNotification n s) = acceptedRequest d p s"
  "acceptedRequest d p (takeIds k s) = acceptedRequest d p s"
  "acceptedRequest d p (MedicalRecord_save b m s) = acceptedRequest d p s"
  "acceptedRequest d p (DoctorReceptionAgent_save a s) = acceptedRequest d p s"
  "acceptedRequest d p (AppointmentInvitation_save v s) = acceptedRequest d p s"
  by (simp_all add: acceptedRequest_def)

lemma acceptedInvitation_frame [simp]:
  "acceptedInvitation a d (createNotification n s) = acceptedInvitation a d s"
  "acceptedInvitation a d (takeIds k s) = acceptedInvitation a d s"
  "acceptedInvitation a d (MedicalRecord_save b m s) = acceptedInvitation a d s"
  "acceptedInvitation a d (DoctorRequest_save r s) = acceptedInvitation a d s"
  "acceptedInvitation a d (AppointmentInvitation_save v s) = acceptedInvitation a d s"
  by (simp_all add: acceptedInvitation_def)

lemma MedicalRecord_findOne_frame [simp]:
  "MedicalRecord_findOne p (createNotification n s) = MedicalRecord_findOne p s"
  "MedicalRecord_findOne p (takeIds k s) = MedicalRecord_findOne p s"
  "MedicalRecord_findOne p (DoctorRequest_save r s) = MedicalRecord_findOne p s"
  "MedicalRecord_findOne p (DoctorReceptionAgent_save a s) = MedicalRecord_findOne p s"
  "MedicalRecord_findOne p (AppointmentInvitation_save v s) = MedicalRecord_findOne p s"
  by (simp_all add: MedicalRecord_findOne_def)

lemma sel_notifyMedicalRecordUpdate [simp]:
  "users (notifyMedicalRecordUpdate d p k s) = users s"
  "doctorRequests (notifyMedicalRecordUpdate d p k s) = doctorRequests s"
  "doctorReceptionAgents (notifyMedicalRecordUpdate d p k s) = doctorReceptionAgents s"
  "appointmentInvitations (notifyMedicalRecordUpdate d p k s) = appointmentInvitations s"
  "medicalRecords (notifyMedicalRecordUpdate d p k s) = medicalRecords s"
  "nextId (notifyMedicalRecordUpdate d p k s) = nextId s"
  by (simp_all add: notifyMedicalRecordUpdate_def)

text \<open>The end of a mutation changes the notifications only.\<close>

lemma sel_notifyAndReply [simp]:
  "users (snd (notifyAndReply d p k c msg s)) = users s"
  "doctorRequests (snd (notifyAndReply d p k c msg s)) = doctorRequests s"
  "doctorReceptionAgents (snd (notifyAndReply d p k c msg s)) = doctorReceptionAgents s"
  "appointmentInvitations (snd (notifyAndReply d p k c msg s)) = appointmentInvitations s"
  "medicalRecords (snd (notifyAndReply d p k c msg s)) = medicalRecords s"
  "nextId (snd (notifyAndReply d p k c msg s)) = nextId s"
  by (simp_all add: notifyAndReply_def split: option.splits)

lemma MedicalRecord_findOne_notifyAndReply [simp]:
  "MedicalRecord_findOne q (snd (notifyAndReply d p k c msg s)) = MedicalRecord_findOne q s"
  by (simp add: MedicalRecord_findOne_def)

lemma fst_notifyAndReply:
  "fst (notifyAndReply d p k c msg s) =
     (if User_findById d s = None then Reply 500 ''Server error'' else Reply c msg)"
  by (simp add: notifyAndReply_def split: option.splits)

text \<open>Replacing the first document that has the identifier of the one a query found
  leaves the query with the replacement.\<close>

lemma find_update_first_same:
  "find P xs = Some m \<Longrightarrow> Q m \<Longrightarrow> P m' \<Longrightarrow> find P (update_first Q (\<lambda>_. m') xs) = Some m'"
proof (induction xs)
  case Nil
  then show ?case by simp
next
  case (Cons x xs)
  show ?case
  proof (cases "Q x")
    case True
    with Cons.prems show ?thesis by simp
  next
    case False
    with Cons.prems have "x \<noteq> m" by auto
    with Cons.prems have "\<not> P x" by (auto split: if_splits)
    with Cons False show ?thesis by simp
  qed
qed

section \<open>Responding to a doctor's request\<close>

text \<open>
  C3: a patient's response to a doctor's request, with a decision that is accepted or
  rejected. Unless a request with that identifier, this patient and status pending is
  stored, the reply is 404 and nothing changes. Otherwise the request takes the decision
  as its status. On acceptance by a patient whose user document exists, a medical record
  of the patient exists afterwards: the stored one, untouched, or a new empty one. Any
  second response to the same request is answered 404 and changes nothing.
\<close>

theorem C3_respond_request:
  assumes patient: "role u = Patient"
    and valid: "decision status' = Some st"
    and ids: "distinct (map dr_id (doctorRequests s))"
    and run: "respondRequest u requestId status' s = (reply, s')"
  shows
    "(case find (\<lambda>r. dr_id r = requestId \<and> dr_patient r = userId u \<and> dr_status r = Pending)
             (doctorRequests s) of
        None \<Rightarrow> reply = Reply 404 ''Request not found or already processed'' \<and> s' = s
      | Some r \<Rightarrow>
          doctorRequests s' =
            update_first (\<lambda>x. dr_id x = requestId) (\<lambda>_. r\<lparr>dr_status := st\<rparr>)
              (doctorRequests s) \<and>
          (if st = Accepted \<and> User_findById (userId u) s \<noteq> None
           then medicalRecords s' =
                  (case MedicalRecord_findOne (userId u) s of
                     Some m \<Rightarrow> medicalRecords s
                   | None \<Rightarrow> medicalRecords s @ [MedicalRecord_new (nextId s) (userId u)]) \<and>
                MedicalRecord_findOne (userId u) s' \<noteq> None
           else medicalRecords s' = medicalRecords s) \<and>
          (\<forall>again. decision again \<noteq> None \<longrightarrow>
             respondRequest u requestId again s' =
               (Reply 404 ''Request not found or already processed'', s')))"
proof (cases "find (\<lambda>r. dr_id r = requestId \<and> dr_patient r = userId u \<and> dr_status r = Pending)
             (doctorRequests s)")
  case None
  with patient valid run show ?thesis by (auto simp: respondRequest_def)
next
  case (Some r)
  from find_Some_pred[OF Some] have r: "dr_id r = requestId" "dr_patient r = userId u"
    by simp_all
  let ?r' = "r\<lparr>dr_status := st\<rparr>"
  have reqs: "doctorRequests s' =
      update_first (\<lambda>x. dr_id x = requestId) (\<lambda>_. ?r') (doctorRequests s)"
    using patient valid run Some r
    by (auto simp: respondRequest_def Let_def DoctorRequest_save_def notifyRequestAccepted_def
        notifyRequestRejected_def split: option.splits if_splits)
  have recs: "(if st = Accepted \<and> User_findById (userId u) s \<noteq> None
           then medicalRecords s' =
                  (case MedicalRecord_findOne (userId u) s of
                     Some m \<Rightarrow> medicalRecords s
                   | None \<Rightarrow> medicalRecords s @ [MedicalRecord_new (nextId s) (userId u)]) \<and>
                MedicalRecord_findOne (userId u) s' \<noteq> None
           else medicalRecords s' = medicalRecords s)"
    using patient valid run Some r
    by (auto simp: respondRequest_def Let_def notifyRequestAccepted_def
        notifyRequestRejected_def User_findById_def MedicalRecord_findOne_def
        MedicalRecord_save_def MedicalRecord_new_def find_append
        split: option.splits if_splits)
  have closed:
    "find (\<lambda>r. dr_id r = requestId \<and> dr_patient r = userId u \<and> dr_status r = Pending)
       (doctorRequests s') = None"
    unfolding reqs
    using find_closed_after_update[OF ids, of ?r' requestId
        "\<lambda>x. dr_patient x = userId u \<and> dr_status x = Pending"]
      r decision_not_pending[OF valid] by simp
  have again: "\<forall>again. decision again \<noteq> None \<longrightarrow>
             respondRequest u requestId again s' =
               (Reply 404 ''Request not found or already processed'', s')"
    using patient closed by (auto simp: respondRequest_def)
  from reqs recs again Some show ?thesis by simp
qed

theorem C3_respond_request_witness:
  "role patient1 = Patient \<and> decision ''accepted'' = Some Accepted \<and>
   distinct (map dr_id (doctorRequests db_pending)) \<and>
   fst (respondRequest patient1 10 ''accepted'' db_pending) =
     Reply 200 ''Request accepted successfully'' \<and>
   doctorRequests (snd (respondRequest patient1 10 ''accepted'' db_pending)) =
     [\<lparr>dr_id = 10, dr_doctor = 2, dr_patient = 1, dr_status = Accepted\<rparr>] \<and>
   medicalRecords (snd (respondRequest patient1 10 ''accepted'' db_pending)) =
     [MedicalRecord_new 11 1] \<and>
   respondRequest patient1 10 ''accepted''
       (snd (respondRequest patient1 10 ''accepted'' db_pending)) =
     (Reply 404 ''Request not found or already processed'',
      snd (respondRequest patient1 10 ''accepted'' db_pending)) \<and>
   respondRequest patient1 10 ''rejected''
       (snd (respondRequest patient1 10 ''accepted'' db_pending)) =
     (Reply 404 ''Request not found or already processed'',
      snd (respondRequest patient1 10 ''accepted'' db_pending))"
  using C3_respond_request [of patient1 "''accepted''" Accepted db_pending 10
      "fst (respondRequest patient1 10 ''accepted'' db_pending)"
      "snd (respondRequest patient1 10 ''accepted'' db_pending)"]
  by (simp add: patient1_def db_pending_def some_users_def decision_def respondRequest_def
      User_findById_def MedicalRecord_findOne_def DoctorRequest_save_def
      notifyRequestAccepted_def createNotification_def MedicalRecord_save_def takeIds_def
      Let_def)

lemma record_after_save:
  "MedicalRecord_findOne p s = found \<Longrightarrow> mr_patient m' = p \<Longrightarrow>
   (case found of None \<Rightarrow> True | Some m \<Rightarrow> mr_id m' = mr_id m) \<Longrightarrow>
   MedicalRecord_findOne p (MedicalRecord_save (found = None) m' s) = Some m'"
  by (auto simp: MedicalRecord_findOne_def MedicalRecord_save_def find_append
      intro: find_update_first_same split: option.splits)

lemma update_first_mem: "x \<in> set xs \<Longrightarrow> Q x \<Longrightarrow> y \<in> set (update_first Q (\<lambda>_. y) xs)"
  by (induction xs) auto

lemma find_not_None: "x \<in> set xs \<Longrightarrow> P x \<Longrightarrow> find P xs \<noteq> None"
  by (auto simp: find_None_iff)

lemma decision_accepted [simp]: "decision ''accepted'' = Some Accepted"
  by (simp add: decision_def)

section \<open>Accepting an appointment invitation\<close>

text \<open>
  C2: when a doctor accepts a pending appointment invitation of patient P, an accepted
  request of the doctor for P is stored afterwards: a new one when none was stored for the
  pair, else the stored one, set to accepted whatever its status was. The record of P,
  created when absent, has gained one appointment, written by the doctor, with the date
  and the reason of the invitation.
\<close>

theorem C2_accept_invitation:
  assumes doctor: "role u = Doctor"
    and iv: "find (\<lambda>i. ai_id i = invitationId \<and> ai_doctor i = userId u)
                (appointmentInvitations s) = Some iv"
    and pending: "ai_status iv = Pending"
    and run: "respondInvitation u invitationId ''accepted'' s = (reply, s')"
  shows
    "acceptedRequest (userId u) (ai_patient iv) s' \<noteq> None \<and>
     (case find (\<lambda>r. dr_doctor r = userId u \<and> dr_patient r = ai_patient iv)
             (doctorRequests s) of
        None \<Rightarrow>
          doctorRequests s' = doctorRequests s @
            [\<lparr>dr_id = nextId s, dr_doctor = userId u, dr_patient = ai_patient iv,
              dr_status = Accepted\<rparr>]
      | Some r \<Rightarrow>
          doctorRequests s' =
            (if dr_status r = Accepted then doctorRequests s
             else update_first (\<lambda>x. dr_id x = dr_id r) (\<lambda>_. r\<lparr>dr_status := Accepted\<rparr>)
                    (doctorRequests s))) \<and>
     (\<exists>k. map_option appointments (MedicalRecord_findOne (ai_patient iv) s') =
        Some ((case MedicalRecord_findOne (ai_patient iv) s of None \<Rightarrow> []
               | Some m \<Rightarrow> appointments m) @
              [\<lparr>ap_id = k, ap_doctor = userId u, ap_date = ai_appointmentDate iv,
                ap_reason = ai_reason iv, ap_notes = None\<rparr>]))"
proof -
  let ?P = "ai_patient iv"
  let ?iv = "iv\<lparr>ai_status := Accepted\<rparr>"
  let ?s1 = "AppointmentInvitation_save ?iv s"
  let ?found = "find (\<lambda>r. dr_doctor r = userId u \<and> dr_patient r = ?P) (doctorRequests s)"
  define s2 where "s2 =
      (case ?found of
         None \<Rightarrow> takeIds 1 (?s1\<lparr>doctorRequests := doctorRequests ?s1 @
                     [\<lparr>dr_id = nextId ?s1, dr_doctor = userId u, dr_patient = ?P,
                       dr_status = Accepted\<rparr>]\<rparr>)
       | Some r \<Rightarrow> if dr_status r \<noteq> Accepted
                   then DoctorRequest_save (r\<lparr>dr_status := Accepted\<rparr>) ?s1 else ?s1)"
  define m0 where "m0 = (case MedicalRecord_findOne ?P s2 of
       None \<Rightarrow> MedicalRecord_new (nextId s2) ?P | Some m \<Rightarrow> m)"
  define s3 where "s3 = (if MedicalRecord_findOne ?P s2 = None
       then takeIds 1 (MedicalRecord_save True m0 s2) else s2)"
  define m1 where "m1 = m0\<lparr>appointments := appointments m0 @
       [\<lparr>ap_id = nextId s3, ap_doctor = userId u, ap_date = ai_appointmentDate iv,
         ap_reason = ai_reason iv, ap_notes = None\<rparr>]\<rparr>"
  define s4 where "s4 = takeIds 1 (MedicalRecord_save False m1 s3)"
  have s': "s' = (case User_findById (userId u) ?s1 of None \<Rightarrow> s4
             | Some d \<Rightarrow> createNotification
                 \<lparr>n_recipient = ?P, n_sender = userId u, n_type = ''appointment_accepted'',
                  n_title = ''Appointment Invitation Accepted''\<rparr> s4)"
    using doctor iv pending run
    by (auto simp: respondInvitation_def Let_def s2_def m0_def s3_def m1_def s4_def
        split: option.splits)
  have reqs4: "doctorRequests s' = doctorRequests s2"
    by (simp add: s' s4_def s3_def split: option.splits)
  have mr2: "MedicalRecord_findOne ?P s2 = MedicalRecord_findOne ?P s"
    by (simp add: s2_def MedicalRecord_findOne_def takeIds_def split: option.splits)
  have reqs: "doctorRequests s2 =
      (case ?found of
        None \<Rightarrow> doctorRequests s @
            [\<lparr>dr_id = nextId s, dr_doctor = userId u, dr_patient = ?P, dr_status = Accepted\<rparr>]
      | Some r \<Rightarrow>
            (if dr_status r = Accepted then doctorRequests s
             else update_first (\<lambda>x. dr_id x = dr_id r) (\<lambda>_. r\<lparr>dr_status := Accepted\<rparr>)
                    (doctorRequests s)))"
    by (simp add: s2_def DoctorRequest_save_def takeIds_def split: option.splits)
  have acc: "acceptedRequest (userId u) ?P s' \<noteq> None"
  proof (cases ?found)
    case None
    then show ?thesis
      by (simp add: acceptedRequest_def reqs4 reqs find_append split: option.splits)
  next
    case (Some r)
    from find_Some_pred[OF Some] find_Some_mem[OF Some]
    have r: "dr_doctor r = userId u" "dr_patient r = ?P" "r \<in> set (doctorRequests s)"
      by simp_all
    let ?A = "\<lambda>r. dr_doctor r = userId u \<and> dr_patient r = ?P \<and> dr_status r = Accepted"
    show ?thesis
    proof (cases "dr_status r = Accepted")
      case True
      with r have "find ?A (doctorRequests s) \<noteq> None"
        by (intro find_not_None[of r]) simp_all
      with Some True show ?thesis
        by (simp add: acceptedRequest_def reqs4 reqs)
    next
      case False
      have "r\<lparr>dr_status := Accepted\<rparr> \<in> set (update_first (\<lambda>x. dr_id x = dr_id r)
              (\<lambda>_. r\<lparr>dr_status := Accepted\<rparr>) (doctorRequests s))"
        using r by (intro update_first_mem[of r]) simp_all
      then have "find ?A (update_first (\<lambda>x. dr_id x = dr_id r)
              (\<lambda>_. r\<lparr>dr_status := Accepted\<rparr>) (doctorRequests s)) \<noteq> None"
        using r by (intro find_not_None[of "r\<lparr>dr_status := Accepted\<rparr>"]) simp_all
      with Some False show ?thesis
        by (simp add: acceptedRequest_def reqs4 reqs)
    qed
  qed
  have m0p: "mr_patient m0 = ?P"
    by (auto simp: m0_def MedicalRecord_new_def MedicalRecord_findOne_def
        dest: find_Some_pred split: option.splits)
  have f3: "MedicalRecord_findOne ?P s3 = Some m0"
  proof (cases "MedicalRecord_findOne ?P s2")
    case None
    then show ?thesis
      using record_after_save[of ?P s2 None m0] m0p by (simp add: s3_def)
  next
    case (Some m)
    then show ?thesis by (simp add: s3_def m0_def)
  qed
  have "MedicalRecord_findOne ?P s4 = Some m1"
    using record_after_save[of ?P s3 "Some m0" m1] f3 m0p by (simp add: s4_def m1_def)
  then have f': "MedicalRecord_findOne ?P s' = Some m1"
    by (simp add: s' split: option.splits)
  have "appointments m0 = (case MedicalRecord_findOne ?P s of None \<Rightarrow> []
               | Some m \<Rightarrow> appointments m)"
    by (simp add: m0_def mr2 MedicalRecord_new_def split: option.splits)
  then have apps: "\<exists>k. map_option appointments (MedicalRecord_findOne ?P s') =
        Some ((case MedicalRecord_findOne ?P s of None \<Rightarrow> []
               | Some m \<Rightarrow> appointments m) @
              [\<lparr>ap_id = k, ap_doctor = userId u, ap_date = ai_appointmentDate iv,
                ap_reason = ai_reason iv, ap_notes = None\<rparr>])"
    by (simp add: f' m1_def)
  from acc apps show ?thesis
    by (simp add: reqs4 reqs split: option.splits)
qed

theorem C2_accept_invitation_witness:
  "role doctor2 = Doctor \<and>
   find (\<lambda>i. ai_id i = 5 \<and> ai_doctor i = userId doctor2) (appointmentInvitations db_invited) =
     Some (hd (appointmentInvitations db_invited)) \<and>
   ai_status (hd (appointmentInvitations db_invited)) = Pending \<and>
   MedicalRecord_findOne 1 db_invited = None \<and>
   fst (respondInvitation doctor2 5 ''accepted'' db_invited) = Reply 200 ''Invitation accepted'' \<and>
   doctorRequests (snd (respondInvitation doctor2 5 ''accepted'' db_invited)) =
     [\<lparr>dr_id = 6, dr_doctor = 2, dr_patient = 1, dr_status = Accepted\<rparr>] \<and>
   map_option appointments
       (MedicalRecord_findOne 1 (snd (respondInvitation doctor2 5 ''accepted'' db_invited))) =
     Some [\<lparr>ap_id = 8, ap_doctor = 2, ap_date = 2000, ap_reason = ''fever'', ap_notes = None\<rparr>]"
  using C2_accept_invitation [of doctor2 5 db_invited "hd (appointmentInvitations db_invited)"
      "fst (respondInvitation doctor2 5 ''accepted'' db_invited)"
      "snd (respondInvitation doctor2 5 ''accepted'' db_invited)"]
  by (simp add: doctor2_def db_invited_def some_users_def respondInvitation_def
      User_findById_def MedicalRecord_findOne_def MedicalRecord_new_def
      AppointmentInvitation_save_def DoctorRequest_save_def MedicalRecord_save_def
      takeIds_def createNotification_def Let_def)

section \<open>What a reception agent may write\<close>

text \<open>
  C8: a reception agent who names doctor D, holds an accepted delegation of D, and whose D
  has accepted access to patient P, adds an appointment to the record of P, written in
  the name of D (the date and the reason being given, and D's user document existing).
  When the delegation or the access of D is missing, the reply is 403 and nothing
  changes. In every state the agent's attempt to add a prescription, a disease, a comment
  or a diagnostic is answered 403 and changes nothing.
\<close>

theorem C8_reception_agent_writes:
  assumes agent: "role u = ReceptionAgent"
  shows
    "(acceptedInvitation (userId u) d s \<noteq> None \<and> acceptedRequest d p s \<noteq> None \<and>
      truthy reason = Some r \<and> User_findById d s \<noteq> None \<longrightarrow>
        fst (postAppointment u p (Some t) reason notes (Some d) s) =
          Reply 201 ''Appointment added successfully'' \<and>
        map_option appointments
            (MedicalRecord_findOne p (snd (postAppointment u p (Some t) reason notes (Some d) s))) =
          Some ((case MedicalRecord_findOne p s of None \<Rightarrow> [] | Some m \<Rightarrow> appointments m) @
                [\<lparr>ap_id = nextId s + 1, ap_doctor = d, ap_date = t, ap_reason = r,
                  ap_notes = notes\<rparr>])) \<and>
     (acceptedInvitation (userId u) d s = None \<or> acceptedRequest d p s = None \<longrightarrow>
        http_status (fst (postAppointment u p date reason notes (Some d) s)) = 403 \<and>
        snd (postAppointment u p date reason notes (Some d) s) = s) \<and>
     postPrescription u p medication dosage duration instructions s =
       (Reply 403 ''Only doctors can add prescriptions'', s) \<and>
     postDisease u p name' diagnosedDate status' notes' s =
       (Reply 403 ''Only doctors can add diseases'', s) \<and>
     postComment u p text' s = (Reply 403 ''Only doctors can add comments'', s) \<and>
     postDiagnostic u p testName testDate results notes'' s =
       (Reply 403 ''Only doctors can add diagnostics'', s)"
proof -
  have added: "fst (postAppointment u p (Some t) reason notes (Some d) s) =
          Reply 201 ''Appointment added successfully'' \<and>
        map_option appointments
            (MedicalRecord_findOne p (snd (postAppointment u p (Some t) reason notes (Some d) s))) =
          Some ((case MedicalRecord_findOne p s of None \<Rightarrow> [] | Some m \<Rightarrow> appointments m) @
                [\<lparr>ap_id = nextId s + 1, ap_doctor = d, ap_date = t, ap_reason = r,
                  ap_notes = notes\<rparr>])"
    if h: "acceptedInvitation (userId u) d s \<noteq> None" "acceptedRequest d p s \<noteq> None"
      "truthy reason = Some r" "User_findById d s \<noteq> None"
  proof (cases "MedicalRecord_findOne p s")
    case None
    with agent h show ?thesis
      by (simp add: postAppointment_def Let_def fst_notifyAndReply MedicalRecord_new_def
          record_after_save[where found = None, simplified])
  next
    case (Some m)
    then have "mr_patient m = p"
      by (auto simp: MedicalRecord_findOne_def dest: find_Some_pred)
    with Some agent h show ?thesis
      by (simp add: postAppointment_def Let_def fst_notifyAndReply
          record_after_save[where found = "Some m", simplified])
  qed
  have denied: "http_status (fst (postAppointment u p date reason notes (Some d) s)) = 403 \<and>
        snd (postAppointment u p date reason notes (Some d) s) = s"
    if "acceptedInvitation (userId u) d s = None \<or> acceptedRequest d p s = None"
    using agent that by (auto simp: postAppointment_def)
  have others: "postPrescription u p medication dosage duration instructions s =
       (Reply 403 ''Only doctors can add prescriptions'', s) \<and>
     postDisease u p name' diagnosedDate status' notes' s =
       (Reply 403 ''Only doctors can add diseases'', s) \<and>
     postComment u p text' s = (Reply 403 ''Only doctors can add comments'', s) \<and>
     postDiagnostic u p testName testDate results notes'' s =
       (Reply 403 ''Only doctors can add diagnostics'', s)"
    using agent by (simp add: postPrescription_def postDisease_def postComment_def
        postDiagnostic_def)
  from added denied others show ?thesis by blast
qed

theorem C8_reception_agent_writes_witness:
  "role agent4 = ReceptionAgent \<and>
   acceptedInvitation (userId agent4) 2 db_treated \<noteq> None \<and>
   acceptedRequest 2 1 db_treated \<noteq> None \<and>
   fst (postAppointment agent4 1 (Some 3000) (Some ''control'') None (Some 2) db_treated) =
     Reply 201 ''Appointment added successfully'' \<and>
   map_option appointments
       (MedicalRecord_findOne 1
          (snd (postAppointment agent4 1 (Some 3000) (Some ''control'') None (Some 2) db_treated))) =
     Some [\<lparr>ap_id = 21, ap_doctor = 2, ap_date = 1000, ap_reason = ''checkup'', ap_notes = None\<rparr>,
           \<lparr>ap_id = 31, ap_doctor = 2, ap_date = 3000, ap_reason = ''control'', ap_notes = None\<rparr>] \<and>
   acceptedInvitation (userId agent4) 3 db_treated = None \<and>
   postAppointment agent4 1 (Some 3000) (Some ''control'') None (Some 3) db_treated =
     (Reply 403 ''You do not have access through this doctor'', db_treated) \<and>
   postPrescription agent4 1 (Some ''aspirin'') (Some ''100 mg'') None None db_treated =
     (Reply 403 ''Only doctors can add prescriptions'', db_treated)"
  using C8_reception_agent_writes [of agent4 2 db_treated 1 "Some ''control''" "''control''"
      3000 None "Some 3000" "Some ''aspirin''" "Some ''100 mg''" None None]
    C8_reception_agent_writes [of agent4 3 db_treated 1 "Some ''control''" "''control''"
      3000 None "Some 3000"]
  by (simp add: agent4_def db_treated_def some_users_def acceptedInvitation_def
      acceptedRequest_def User_findById_def MedicalRecord_findOne_def postAppointment_def)

section \<open>Prescriptions belong to their author\<close>

text \<open>
  C9: for a prescription stored in a patient's record, an update or a delete by a doctor
  who is not its author is answered 403 and changes nothing, whatever access that doctor
  has to the patient. An update or delete that succeeds is the author's; and the author's
  succeeds when the author's user document exists.
\<close>

theorem C9_prescription_author_only:
  assumes rec: "MedicalRecord_findOne p s = Some m"
    and entry: "find (\<lambda>x. pr_id x = e) (prescriptions m) = Some pr"
  shows
    "(role u = Doctor \<and> userId u \<noteq> pr_doctor pr \<longrightarrow>
        putPrescription u p e medication dosage duration instructions s =
          (Reply 403 ''You can only modify your own prescriptions'', s) \<and>
        deletePrescription u p e s =
          (Reply 403 ''You can only delete your own prescriptions'', s)) \<and>
     (http_status (fst (putPrescription u p e medication dosage duration instructions s)) = 200
        \<longrightarrow> role u = Doctor \<and> userId u = pr_doctor pr) \<and>
     (http_status (fst (deletePrescription u p e s)) = 200
        \<longrightarrow> role u = Doctor \<and> userId u = pr_doctor pr) \<and>
     (role u = Doctor \<and> userId u = pr_doctor pr \<and> User_findById (userId u) s \<noteq> None \<longrightarrow>
        http_status (fst (putPrescription u p e medication dosage duration instructions s)) = 200 \<and>
        http_status (fst (deletePrescription u p e s)) = 200)"
  using rec entry
  by (auto simp: putPrescription_def deletePrescription_def fst_notifyAndReply Let_def
      split: option.splits)

theorem C9_prescription_author_only_witness:
  "MedicalRecord_findOne 1 db_treated \<noteq> None \<and>
   acceptedRequest 3 1 db_treated \<noteq> None \<and>
   putPrescription doctor3 1 22 (Some ''warfarin'') None None None db_treated =
     (Reply 403 ''You can only modify your own prescriptions'', db_treated) \<and>
   deletePrescription doctor3 1 22 db_treated =
     (Reply 403 ''You can only delete your own prescriptions'', db_treated) \<and>
   http_status (fst (putPrescription doctor2 1 22 (Some ''warfarin'') None None None db_treated))
     = 200 \<and>
   http_status (fst (deletePrescription doctor2 1 22 db_treated)) = 200"
  using C9_prescription_author_only [of 1 db_treated "hd (medicalRecords db_treated)" 22
      "hd (prescriptions (hd (medicalRecords db_treated)))" doctor3 "Some ''warfarin''" None None None]
    C9_prescription_author_only [of 1 db_treated "hd (medicalRecords db_treated)" 22
      "hd (prescriptions (hd (medicalRecords db_treated)))" doctor2 "Some ''warfarin''" None None None]
  by (simp add: db_treated_def doctor3_def doctor2_def some_users_def MedicalRecord_findOne_def
      acceptedRequest_def User_findById_def)

section \<open>The invariants hold along every write\<close>

lemma update_first_map:
  "distinct (map f xs) \<Longrightarrow> r \<in> set xs \<Longrightarrow>
   update_first (\<lambda>x. f x = f r) (\<lambda>_. r') xs = map (\<lambda>x. if x = r then r' else x) xs"
proof (induction xs)
  case Nil
  then show ?case by simp
next
  case (Cons x xs)
  show ?case
  proof (cases "x = r")
    case True
    with Cons.prems have "r \<notin> set xs" by auto
    then have "map (\<lambda>x. if x = r then r' else x) xs = xs" by (induction xs) auto
    with True show ?thesis by simp
  next
    case False
    with Cons.prems have "r \<in> set xs" "f x \<noteq> f r" by auto
    with Cons False show ?thesis by simp
  qed
qed

lemma map_key_replace:
  "g r' = g r \<Longrightarrow> map g (map (\<lambda>x. if x = r then r' else x) xs) = map g xs"
  by (induction xs) auto

lemma set_remove_first: "set (remove_first P xs) \<subseteq> set xs"
  by (induction xs) auto

lemma distinct_map_remove_first:
  "distinct (map f xs) \<Longrightarrow> distinct (map f (remove_first P xs))"
proof (induction xs)
  case Nil
  then show ?case by simp
next
  case (Cons x xs)
  then show ?case using set_remove_first[of P xs] by auto
qed

lemma list_all_remove_first: "list_all Q xs \<Longrightarrow> list_all Q (remove_first P xs)"
  using set_remove_first[of P xs] by (auto simp: list_all_iff)

lemma find_None_pair:
  "find (\<lambda>x. f x = a \<and> g x = b) xs = None \<Longrightarrow> (a, b) \<notin> (\<lambda>x. (f x, g x)) ` set xs"
  by (auto simp: find_None_iff)

text \<open>Accepted access survives a change of status of a request that was not accepted.\<close>

lemma acceptedRequest_kept:
  assumes "distinct (map dr_id (doctorRequests t))" "r \<in> set (doctorRequests t)"
    "dr_status r \<noteq> Accepted" "acceptedRequest d p t \<noteq> None"
  shows "acceptedRequest d p (DoctorRequest_save (r\<lparr>dr_status := st\<rparr>) t) \<noteq> None"
proof -
  from assms(4) obtain a where a: "a \<in> set (doctorRequests t)" "dr_doctor a = d"
    "dr_patient a = p" "dr_status a = Accepted"
    by (auto simp: acceptedRequest_def find_None_iff)
  with assms(3) have "a \<noteq> r" by auto
  with a have "a \<in> set (map (\<lambda>x. if x = r then r\<lparr>dr_status := st\<rparr> else x) (doctorRequests t))"
    by (auto simp: image_iff)
  with a show ?thesis
    using update_first_map[OF assms(1,2), of "r\<lparr>dr_status := st\<rparr>"]
    by (auto simp: acceptedRequest_def DoctorRequest_save_def find_None_iff)
qed

lemma acceptedRequest_append:
  "acceptedRequest d p t \<noteq> None \<Longrightarrow>
   acceptedRequest d p (t\<lparr>doctorRequests := doctorRequests t @ [r]\<rparr>) \<noteq> None"
  by (auto simp: acceptedRequest_def find_append split: option.splits)

lemma acceptedRequest_other [simp]:
  "acceptedRequest d p (t\<lparr>doctorReceptionAgents := xs\<rparr>) = acceptedRequest d p t"
  "acceptedRequest d p (t\<lparr>appointmentInvitations := ys\<rparr>) = acceptedRequest d p t"
  "acceptedRequest d p (t\<lparr>users := us\<rparr>) = acceptedRequest d p t"
  "acceptedRequest d p (t\<lparr>notifications := ns\<rparr>) = acceptedRequest d p t"
  by (simp_all add: acceptedRequest_def)

lemma entries_ok_mono:
  "(\<And>d p. acceptedRequest d p t \<noteq> None \<Longrightarrow> acceptedRequest d p t' \<noteq> None) \<Longrightarrow>
   entries_ok t m \<Longrightarrow> entries_ok t' m"
  by (auto simp: entries_ok_def list_all_iff)

lemma entries_ok_frame:
  "doctorRequests t' = doctorRequests t \<Longrightarrow> entries_ok t' m = entries_ok t m"
  by (simp add: entries_ok_def acceptedRequest_def)

lemma authors_ok_mono:
  "(\<And>d p. acceptedRequest d p t \<noteq> None \<Longrightarrow> acceptedRequest d p t' \<noteq> None) \<Longrightarrow>
   medicalRecords t' = medicalRecords t \<Longrightarrow> authors_ok t \<Longrightarrow> authors_ok t'"
  using entries_ok_mono[of t t'] by (auto simp: authors_ok_def list_all_iff)

lemma writes_wf: "writes s t \<Longrightarrow> wf s \<Longrightarrow> wf t"
proof (induction rule: writes.induct)
  case w_refl
  then show ?case by simp
next
  case (w_notify t n)
  then have "wf t" by simp
  then show ?case
    using authors_ok_mono[of t "createNotification n t"]
    by (simp add: wf_def ids_ok_def pairs_ok_def)
next
  case (w_ids t k)
  then have "wf t" by simp
  then show ?case
    using authors_ok_mono[of t "takeIds k t"]
    by (auto simp: wf_def ids_ok_def pairs_ok_def list_all_iff)
next
  case (w_dr_insert t r k)
  then have wf: "wf t" by simp
  let ?t' = "takeIds k (t\<lparr>doctorRequests := doctorRequests t @ [r]\<rparr>)"
  from wf w_dr_insert.hyps have "ids_ok ?t'"
    by (auto simp: wf_def ids_ok_def list_all_iff takeIds_def)
  moreover from wf find_None_pair[OF w_dr_insert.hyps(3)] have "pairs_ok ?t'"
    by (auto simp: wf_def pairs_ok_def dr_pair_def takeIds_def)
  moreover from wf have "authors_ok ?t'"
    using authors_ok_mono[of t ?t'] acceptedRequest_append[of _ _ t r]
    by (simp add: wf_def)
  ultimately show ?case by (simp add: wf_def)
next
  case (w_dr_status t r st)
  then have wf: "wf t" by simp
  then have d: "distinct (map dr_id (doctorRequests t))" by (simp add: wf_def ids_ok_def)
  let ?r' = "r\<lparr>dr_status := st\<rparr>"
  let ?t' = "DoctorRequest_save ?r' t"
  have eq: "doctorRequests ?t' = map (\<lambda>x. if x = r then ?r' else x) (doctorRequests t)"
    using update_first_map[OF d w_dr_status.hyps(2), of ?r']
    by (simp add: DoctorRequest_save_def)
  have "map dr_id (doctorRequests ?t') = map dr_id (doctorRequests t)"
    unfolding eq by (rule map_key_replace) simp
  moreover have "map dr_pair (doctorRequests ?t') = map dr_pair (doctorRequests t)"
    unfolding eq by (rule map_key_replace) (simp add: dr_pair_def)
  moreover have "list_all (\<lambda>r. dr_id r < nextId t) (doctorRequests ?t')"
    using wf w_dr_status.hyps(2) unfolding eq
    by (auto simp: wf_def ids_ok_def list_all_iff)
  moreover have "authors_ok ?t'"
    using authors_ok_mono[of t ?t'] acceptedRequest_kept[OF d w_dr_status.hyps(2,3)] wf
    by (simp add: wf_def)
  ultimately show ?case using wf
    by (simp add: wf_def ids_ok_def pairs_ok_def)
next
  case (w_ra_insert t i k)
  then have wf: "wf t" by simp
  let ?t' = "takeIds k (t\<lparr>doctorReceptionAgents := doctorReceptionAgents t @ [i]\<rparr>)"
  from wf w_ra_insert.hyps have "ids_ok ?t'"
    by (auto simp: wf_def ids_ok_def list_all_iff takeIds_def)
  moreover from wf find_None_pair[OF w_ra_insert.hyps(3)] have "pairs_ok ?t'"
    by (auto simp: wf_def pairs_ok_def ra_pair_def takeIds_def)
  moreover from wf have "authors_ok ?t'"
    using authors_ok_mono[of t ?t'] by (simp add: wf_def)
  ultimately show ?case by (simp add: wf_def)
next
  case (w_ra_status t i st)
  then have wf: "wf t" by simp
  then have d: "distinct (map ra_id (doctorReceptionAgents t))" by (simp add: wf_def ids_ok_def)
  let ?i' = "i\<lparr>ra_status := st\<rparr>"
  let ?t' = "DoctorReceptionAgent_save ?i' t"
  have eq: "doctorReceptionAgents ?t' =
      map (\<lambda>x. if x = i then ?i' else x) (doctorReceptionAgents t)"
    using update_first_map[OF d w_ra_status.hyps(2), of ?i']
    by (simp add: DoctorReceptionAgent_save_def)
  have "map ra_id (doctorReceptionAgents ?t') = map ra_id (doctorReceptionAgents t)"
    unfolding eq by (rule map_key_replace) simp
  moreover have "map ra_pair (doctorReceptionAgents ?t') = map ra_pair (doctorReceptionAgents t)"
    unfolding eq by (rule map_key_replace) (simp add: ra_pair_def)
  moreover have "list_all (\<lambda>r. ra_id r < nextId t) (doctorReceptionAgents ?t')"
    using wf w_ra_status.hyps(2) unfolding eq
    by (auto simp: wf_def ids_ok_def list_all_iff)
  moreover have "authors_ok ?t'"
    using authors_ok_mono[of t ?t'] wf by (simp add: wf_def)
  ultimately show ?case using wf
    by (simp add: wf_def ids_ok_def pairs_ok_def)
next
  case (w_ra_remove t P)
  then have wf: "wf t" by simp
  let ?t' = "t\<lparr>doctorReceptionAgents := remove_first P (doctorReceptionAgents t)\<rparr>"
  have "authors_ok ?t'"
    using authors_ok_mono[of t ?t'] wf by (simp add: wf_def)
  then show ?case using wf
    by (simp add: wf_def ids_ok_def pairs_ok_def distinct_map_remove_first
        list_all_remove_first)
next
  case (w_ai t xs)
  then have wf: "wf t" by simp
  have "authors_ok (t\<lparr>appointmentInvitations := xs\<rparr>)"
    using authors_ok_mono[of t "t\<lparr>appointmentInvitations := xs\<rparr>"] wf by (simp add: wf_def)
  then show ?case using wf by (simp add: wf_def ids_ok_def pairs_ok_def)
next
  case (w_mr_insert t m k)
  then have wf: "wf t" by simp
  let ?t' = "takeIds k (MedicalRecord_save True m t)"
  from wf w_mr_insert.hyps have "ids_ok ?t'"
    by (auto simp: wf_def ids_ok_def list_all_iff MedicalRecord_save_def)
  moreover have e: "entries_ok ?t' = entries_ok t"
    by (rule ext, rule entries_ok_frame) simp
  have "medicalRecords ?t' = medicalRecords t @ [m]"
    by (simp add: MedicalRecord_save_def)
  then have "authors_ok ?t'"
    using wf w_mr_insert.hyps(3) unfolding authors_ok_def e
    by (simp add: wf_def authors_ok_def)
  ultimately show ?case using wf by (simp add: wf_def pairs_ok_def)
next
  case (w_mr_update t m m')
  then have wf: "wf t" by simp
  then have d: "distinct (map mr_id (medicalRecords t))" by (simp add: wf_def ids_ok_def)
  let ?t' = "MedicalRecord_save False m' t"
  have eq: "medicalRecords ?t' = map (\<lambda>x. if x = m then m' else x) (medicalRecords t)"
    using update_first_map[OF d w_mr_update.hyps(2), of m'] w_mr_update.hyps(3)
    by (simp add: MedicalRecord_save_def)
  have "map mr_id (medicalRecords ?t') = map mr_id (medicalRecords t)"
    unfolding eq using w_mr_update.hyps(3) by (intro map_key_replace)
  moreover have "list_all (\<lambda>r. mr_id r < nextId t) (medicalRecords ?t')"
    using wf w_mr_update.hyps(2,3) unfolding eq
    by (auto simp: wf_def ids_ok_def list_all_iff)
  moreover have e: "entries_ok ?t' = entries_ok t"
    by (rule ext, rule entries_ok_frame) simp
  have "authors_ok ?t'"
    using wf w_mr_update.hyps(2,5) unfolding authors_ok_def eq e
    by (auto simp: wf_def authors_ok_def list_all_iff)
  ultimately show ?case using wf
    by (simp add: wf_def ids_ok_def pairs_ok_def)
qed


lemma w_notifyAndReply: "writes s t \<Longrightarrow> writes s (snd (notifyAndReply d p k c msg t))"
  by (auto simp: notifyAndReply_def notifyMedicalRecordUpdate_def split: option.splits
      intro: writes.w_notify)

lemma w_notifyDoctorRequest: "writes s t \<Longrightarrow> writes s (notifyDoctorRequest d p t)"
  by (simp add: notifyDoctorRequest_def writes.w_notify)

lemma w_notifyRequestAccepted: "writes s t \<Longrightarrow> writes s (notifyRequestAccepted p d t)"
  by (simp add: notifyRequestAccepted_def writes.w_notify)

lemma w_notifyRequestRejected: "writes s t \<Longrightarrow> writes s (notifyRequestRejected p d t)"
  by (simp add: notifyRequestRejected_def writes.w_notify)

lemma w_ai_save: "writes s t \<Longrightarrow> writes s (AppointmentInvitation_save i t)"
  by (simp add: AppointmentInvitation_save_def writes.w_ai)

lemma w_ai_insert:
  "writes s t \<Longrightarrow> writes s (takeIds k (t\<lparr>appointmentInvitations := xs\<rparr>))"
  by (intro writes.w_ids writes.w_ai)

lemma entries_ok_new [simp]: "entries_ok t (MedicalRecord_new i p)"
  by (simp add: entries_ok_def MedicalRecord_new_def)

lemma mr_new_sel [simp]:
  "mr_id (MedicalRecord_new i p) = i" "mr_patient (MedicalRecord_new i p) = p"
  by (simp_all add: MedicalRecord_new_def)

lemma findOne_patient: "MedicalRecord_findOne p t = Some m \<Longrightarrow> mr_patient m = p"
  by (auto simp: MedicalRecord_findOne_def dest: find_Some_pred)

lemma findOne_mem: "MedicalRecord_findOne p t = Some m \<Longrightarrow> m \<in> set (medicalRecords t)"
  by (auto simp: MedicalRecord_findOne_def dest: find_Some_mem)

lemma w_new:
  "mr_id m = nextId s \<Longrightarrow> entries_ok s m \<Longrightarrow> 0 < k \<Longrightarrow>
   writes s (takeIds k (MedicalRecord_save True m s))"
  by (intro writes.w_mr_insert writes.w_refl)

lemma w_upd:
  "MedicalRecord_findOne p s = Some m \<Longrightarrow> mr_id m' = mr_id m \<Longrightarrow>
   mr_patient m' = mr_patient m \<Longrightarrow> (entries_ok s m \<Longrightarrow> entries_ok s m') \<Longrightarrow>
   writes s (MedicalRecord_save False m' s)"
  using writes.w_mr_update[OF writes.w_refl, of m s m'] findOne_mem[of p s m] by blast

lemma w_upd_ids:
  "MedicalRecord_findOne p s = Some m \<Longrightarrow> mr_id m' = mr_id m \<Longrightarrow>
   mr_patient m' = mr_patient m \<Longrightarrow> (entries_ok s m \<Longrightarrow> entries_ok s m') \<Longrightarrow>
   writes s (takeIds k (MedicalRecord_save False m' s))"
  by (intro writes.w_ids w_upd)

lemma list_all_update_first:
  "list_all Q xs \<Longrightarrow> Q y \<Longrightarrow> list_all Q (update_first P (\<lambda>_. y) xs)"
  by (induction xs) auto

lemma list_all_find: "list_all Q xs \<Longrightarrow> find P xs = Some x \<Longrightarrow> Q x"
  by (auto simp: list_all_iff dest: find_Some_mem)

lemma entries_ok_add_ap:
  "entries_ok s m \<Longrightarrow> acceptedRequest (ap_doctor x) (mr_patient m) s \<noteq> None \<Longrightarrow>
   entries_ok s (m\<lparr>appointments := appointments m @ [x]\<rparr>)"
  by (simp add: entries_ok_def)

lemma entries_ok_put_ap:
  "entries_ok s m \<Longrightarrow> find P (appointments m) = Some x \<Longrightarrow> ap_doctor x' = ap_doctor x \<Longrightarrow>
   entries_ok s (m\<lparr>appointments := update_first Q (\<lambda>_. x') (appointments m)\<rparr>)"
  by (auto simp: entries_ok_def intro!: list_all_update_first dest: list_all_find)

lemma entries_ok_del_ap:
  "entries_ok s m \<Longrightarrow> entries_ok s (m\<lparr>appointments := filter P (appointments m)\<rparr>)"
  by (simp add: entries_ok_def list_all_iff)

lemma entries_ok_add_pr:
  "entries_ok s m \<Longrightarrow> acceptedRequest (pr_doctor x) (mr_patient m) s \<noteq> None \<Longrightarrow>
   entries_ok s (m\<lparr>prescriptions := prescriptions m @ [x]\<rparr>)"
  by (simp add: entries_ok_def)

lemma entries_ok_put_pr:
  "entries_ok s m \<Longrightarrow> find P (prescriptions m) = Some x \<Longrightarrow> pr_doctor x' = pr_doctor x \<Longrightarrow>
   entries_ok s (m\<lparr>prescriptions := update_first Q (\<lambda>_. x') (prescriptions m)\<rparr>)"
  by (auto simp: entries_ok_def intro!: list_all_update_first dest: list_all_find)

lemma entries_ok_del_pr:
  "entries_ok s m \<Longrightarrow> entries_ok s (m\<lparr>prescriptions := filter P (prescriptions m)\<rparr>)"
  by (simp add: entries_ok_def list_all_iff)

lemma entries_ok_add_ds:
  "entries_ok s m \<Longrightarrow> acceptedRequest (ds_doctor x) (mr_patient m) s \<noteq> None \<Longrightarrow>
   entries_ok s (m\<lparr>diseases := diseases m @ [x]\<rparr>)"
  by (simp add: entries_ok_def)

lemma entries_ok_put_ds:
  "entries_ok s m \<Longrightarrow> find P (diseases m) = Some x \<Longrightarrow> ds_doctor x' = ds_doctor x \<Longrightarrow>
   entries_ok s (m\<lparr>diseases := update_first Q (\<lambda>_. x') (diseases m)\<rparr>)"
  by (auto simp: entries_ok_def intro!: list_all_update_first dest: list_all_find)

lemma entries_ok_del_ds:
  "entries_ok s m \<Longrightarrow> entries_ok s (m\<lparr>diseases := filter P (diseases m)\<rparr>)"
  by (simp add: entries_ok_def list_all_iff)

lemma entries_ok_add_cm:
  "entries_ok s m \<Longrightarrow> acceptedRequest (cm_doctor x) (mr_patient m) s \<noteq> None \<Longrightarrow>
   entries_ok s (m\<lparr>comments := comments m @ [x]\<rparr>)"
  by (simp add: entries_ok_def)

lemma entries_ok_put_cm:
  "entries_ok s m \<Longrightarrow> find P (comments m) = Some x \<Longrightarrow> cm_doctor x' = cm_doctor x \<Longrightarrow>
   entries_ok s (m\<lparr>comments := update_first Q (\<lambda>_. x') (comments m)\<rparr>)"
  by (auto simp: entries_ok_def intro!: list_all_update_first dest: list_all_find)

lemma entries_ok_del_cm:
  "entries_ok s m \<Longrightarrow> entries_ok s (m\<lparr>comments := filter P (comments m)\<rparr>)"
  by (simp add: entries_ok_def list_all_iff)

lemma entries_ok_add_dg:
  "entries_ok s m \<Longrightarrow> acceptedRequest (dg_doctor x) (mr_patient m) s \<noteq> None \<Longrightarrow>
   entries_ok s (m\<lparr>diagnostics := diagnostics m @ [x]\<rparr>)"
  by (simp add: entries_ok_def)

lemma entries_ok_put_dg:
  "entries_ok s m \<Longrightarrow> find P (diagnostics m) = Some x \<Longrightarrow> dg_doctor x' = dg_doctor x \<Longrightarrow>
   entries_ok s (m\<lparr>diagnostics := update_first Q (\<lambda>_. x') (diagnostics m)\<rparr>)"
  by (auto simp: entries_ok_def intro!: list_all_update_first dest: list_all_find)

lemma entries_ok_del_dg:
  "entries_ok s m \<Longrightarrow> entries_ok s (m\<lparr>diagnostics := filter P (diagnostics m)\<rparr>)"
  by (simp add: entries_ok_def list_all_iff)

lemma w_dr_new:
  "dr_id r = nextId s \<Longrightarrow>
   find (\<lambda>x. dr_doctor x = dr_doctor r \<and> dr_patient x = dr_patient r) (doctorRequests s) = None \<Longrightarrow>
   0 < k \<Longrightarrow> writes s (takeIds k (s\<lparr>doctorRequests := doctorRequests s @ [r]\<rparr>))"
  by (intro writes.w_dr_insert writes.w_refl)


lemma w_dr_set:
  "find P (doctorRequests s) = Some r \<Longrightarrow> dr_status r \<noteq> Accepted \<Longrightarrow>
   writes s (DoctorRequest_save (r\<lparr>dr_status := st\<rparr>) s)"
  by (intro writes.w_dr_status writes.w_refl) (auto dest: find_Some_mem)


lemma w_ra_new:
  "ra_id i = nextId s \<Longrightarrow>
   find (\<lambda>x. ra_doctor x = ra_doctor i \<and> ra_receptionAgent x = ra_receptionAgent i)
     (doctorReceptionAgents s) = None \<Longrightarrow>
   0 < k \<Longrightarrow>
   writes s (takeIds k (s\<lparr>doctorReceptionAgents := doctorReceptionAgents s @ [i]\<rparr>))"
  by (intro writes.w_ra_insert writes.w_refl)


lemma w_ra_set:
  "find P (doctorReceptionAgents s) = Some i \<Longrightarrow>
   writes s (DoctorReceptionAgent_save (i\<lparr>ra_status := st\<rparr>) s)"
  by (intro writes.w_ra_status writes.w_refl) (auto dest: find_Some_mem)

section \<open>Every handler is a sequence of elementary writes\<close>

lemma writes_postAppointment:
  "writes s (snd (postAppointment u p date reason notes doctorId s))"
  unfolding postAppointment_def Let_def
  by (auto split: option.splits sum.splits dest: findOne_patient
      intro!: w_notifyAndReply w_new w_upd_ids writes.w_refl entries_ok_add_ap)

lemma writes_putAppointment:
  "writes s (snd (putAppointment u p e date reason notes s))"
  unfolding putAppointment_def Let_def
  by (auto split: option.splits
      intro!: w_notifyAndReply w_upd writes.w_refl entries_ok_put_ap)

lemma writes_deleteAppointment:
  "writes s (snd (deleteAppointment u p e s))"
  unfolding deleteAppointment_def Let_def
  by (auto split: option.splits
      intro!: w_notifyAndReply w_upd writes.w_refl entries_ok_del_ap)

lemma writes_postPrescription:
  "writes s (snd (postPrescription u p medication dosage duration instructions s))"
  unfolding postPrescription_def Let_def
  by (auto split: option.splits dest: findOne_patient
      intro!: w_notifyAndReply w_new w_upd_ids writes.w_refl entries_ok_add_pr)

lemma writes_putPrescription:
  "writes s (snd (putPrescription u p e medication dosage duration instructions s))"
  unfolding putPrescription_def Let_def
  by (auto split: option.splits
      intro!: w_notifyAndReply w_upd writes.w_refl entries_ok_put_pr)

lemma writes_deletePrescription:
  "writes s (snd (deletePrescription u p e s))"
  unfolding deletePrescription_def Let_def
  by (auto split: option.splits
      intro!: w_notifyAndReply w_upd writes.w_refl entries_ok_del_pr)

lemma writes_postDisease:
  "writes s (snd (postDisease u p name' diagnosedDate status' notes s))"
  unfolding postDisease_def Let_def
  by (auto split: option.splits sum.splits dest: findOne_patient
      intro!: w_notifyAndReply w_new w_upd_ids writes.w_refl entries_ok_add_ds)

lemma writes_putDisease:
  "writes s (snd (putDisease u p e name' diagnosedDate status' notes s))"
  unfolding putDisease_def Let_def
  by (auto split: option.splits
      intro!: w_notifyAndReply w_upd writes.w_refl entries_ok_put_ds)

lemma writes_deleteDisease:
  "writes s (snd (deleteDisease u p e s))"
  unfolding deleteDisease_def Let_def
  by (auto split: option.splits
      intro!: w_notifyAndReply w_upd writes.w_refl entries_ok_del_ds)

lemma writes_postComment:
  "writes s (snd (postComment u p text' s))"
  unfolding postComment_def Let_def
  by (auto split: option.splits sum.splits dest: findOne_patient
      intro!: w_notifyAndReply w_new w_upd_ids writes.w_refl entries_ok_add_cm)

lemma writes_putComment:
  "writes s (snd (putComment u p e text' s))"
  unfolding putComment_def Let_def
  by (auto split: option.splits
      intro!: w_notifyAndReply w_upd writes.w_refl entries_ok_put_cm)

lemma writes_deleteComment:
  "writes s (snd (deleteComment u p e s))"
  unfolding deleteComment_def Let_def
  by (auto split: option.splits
      intro!: w_notifyAndReply w_upd writes.w_refl entries_ok_del_cm)

lemma writes_postDiagnostic:
  "writes s (snd (postDiagnostic u p testName testDate results notes s))"
  unfolding postDiagnostic_def Let_def
  by (auto split: option.splits sum.splits dest: findOne_patient
      intro!: w_notifyAndReply w_new w_upd_ids writes.w_refl entries_ok_add_dg)

lemma writes_putDiagnostic:
  "writes s (snd (putDiagnostic u p e testName testDate results notes s))"
  unfolding putDiagnostic_def Let_def
  by (auto split: option.splits
      intro!: w_notifyAndReply w_upd writes.w_refl entries_ok_put_dg)

lemma writes_deleteDiagnostic:
  "writes s (snd (deleteDiagnostic u p e s))"
  unfolding deleteDiagnostic_def Let_def
  by (auto split: option.splits
      intro!: w_notifyAndReply w_upd writes.w_refl entries_ok_del_dg)

lemma gate_cases:
  "P (snd X) \<Longrightarrow> P s \<Longrightarrow> P (snd (case g of Some d \<Rightarrow> (d, s) | None \<Rightarrow> X))"
  by (cases g) auto

lemma writes_getMedicalRecord: "writes s (snd (getMedicalRecord u p s))"
  unfolding getMedicalRecord_def
  by (rule gate_cases) (auto split: option.splits simp: Let_def intro!: w_new writes.w_refl)

lemma writes_sendRequest: "writes s (snd (sendRequest u patientId s))"
  unfolding sendRequest_def Let_def
  by (auto split: option.splits dest: find_Some_pred
      intro!: w_notifyDoctorRequest w_dr_new w_dr_set writes.w_refl)

lemma writes_respondRequest: "writes s (snd (respondRequest u requestId status' s))"
  unfolding respondRequest_def Let_def
  by (auto split: option.splits dest: find_Some_pred
      intro!: w_notifyRequestAccepted w_notifyRequestRejected w_dr_set writes.w_refl
        writes.w_mr_insert)

lemma writes_inviteAgent: "writes s (snd (inviteAgent u receptionAgentId s))"
  unfolding inviteAgent_def Let_def
  by (auto split: option.splits
      intro!: writes.w_notify w_ra_new w_ra_set writes.w_refl)

lemma writes_respondAgentInvitation:
  "writes s (snd (respondAgentInvitation u invitationId status' s))"
  unfolding respondAgentInvitation_def Let_def
  by (auto split: option.splits
      intro!: writes.w_notify w_ra_set writes.w_refl)

lemma writes_removeAgent: "writes s (snd (removeAgent u receptionAgentId s))"
  unfolding removeAgent_def Let_def
  by (auto split: option.splits intro!: writes.w_ra_remove writes.w_refl)

lemma writes_sendInvitation:
  "writes s (snd (sendInvitation u doctorId appointmentDate reason s))"
  unfolding sendInvitation_def Let_def
  by (auto split: option.splits intro!: writes.w_notify w_ai_insert writes.w_refl)

lemma writes_respondInvitation:
  "writes s (snd (respondInvitation u invitationId status' s))"
proof (cases "role u = Doctor \<and> decision status' \<noteq> None \<and>
    (case find (\<lambda>i. ai_id i = invitationId \<and> ai_doctor i = userId u)
            (appointmentInvitations s) of None \<Rightarrow> False | Some iv \<Rightarrow> ai_status iv = Pending)")
  case False
  then show ?thesis
    by (auto simp: respondInvitation_def split: option.splits intro: writes.w_refl)
next
  case True
  then obtain st iv where doctor: "role u = Doctor" and st: "decision status' = Some st"
    and iv: "find (\<lambda>i. ai_id i = invitationId \<and> ai_doctor i = userId u)
            (appointmentInvitations s) = Some iv" and pending: "ai_status iv = Pending"
    by (auto split: option.splits)
  let ?P = "ai_patient iv"
  let ?iv = "iv\<lparr>ai_status := st\<rparr>"
  let ?s1 = "AppointmentInvitation_save ?iv s"
  have w1: "writes s ?s1" by (intro w_ai_save writes.w_refl)
  show ?thesis
  proof (cases "st = Accepted")
    case False
    with doctor st iv pending w1 show ?thesis
      by (auto simp: respondInvitation_def Let_def split: option.splits
          intro!: writes.w_notify)
  next
    case True
    let ?found = "find (\<lambda>r. dr_doctor r = userId u \<and> dr_patient r = ?P) (doctorRequests ?s1)"
    define s2 where "s2 =
      (case ?found of
         None \<Rightarrow> takeIds 1 (?s1\<lparr>doctorRequests := doctorRequests ?s1 @
                     [\<lparr>dr_id = nextId ?s1, dr_doctor = userId u, dr_patient = ?P,
                       dr_status = Accepted\<rparr>]\<rparr>)
       | Some r \<Rightarrow> if dr_status r \<noteq> Accepted
                   then DoctorRequest_save (r\<lparr>dr_status := Accepted\<rparr>) ?s1 else ?s1)"
    define m0 where "m0 = (case MedicalRecord_findOne ?P s2 of
       None \<Rightarrow> MedicalRecord_new (nextId s2) ?P | Some m \<Rightarrow> m)"
    define s3 where "s3 = (if MedicalRecord_findOne ?P s2 = None
       then takeIds 1 (MedicalRecord_save True m0 s2) else s2)"
    define m1 where "m1 = m0\<lparr>appointments := appointments m0 @
       [\<lparr>ap_id = nextId s3, ap_doctor = userId u, ap_date = ai_appointmentDate iv,
         ap_reason = ai_reason iv, ap_notes = None\<rparr>]\<rparr>"
    define s4 where "s4 = takeIds 1 (MedicalRecord_save False m1 s3)"
    have s': "snd (respondInvitation u invitationId status' s) =
        (case User_findById (userId u) ?s1 of None \<Rightarrow> s4
             | Some d \<Rightarrow> createNotification
                 \<lparr>n_recipient = ?P, n_sender = userId u, n_type = ''appointment_accepted'',
                  n_title = ''Appointment Invitation Accepted''\<rparr> s4)"
      using doctor iv pending st True
      by (auto simp: respondInvitation_def Let_def s2_def m0_def s3_def m1_def s4_def
          split: option.splits)
    have w2: "writes s s2"
    proof (cases ?found)
      case None
      have "writes s (takeIds 1 (?s1\<lparr>doctorRequests := doctorRequests ?s1 @
                     [\<lparr>dr_id = nextId ?s1, dr_doctor = userId u, dr_patient = ?P,
                       dr_status = Accepted\<rparr>]\<rparr>))"
        using None by (intro writes.w_dr_insert w1) simp_all
      with None show ?thesis unfolding s2_def by (simp only: option.case)
    next
      case (Some r)
      have "dr_status r \<noteq> Accepted \<Longrightarrow>
          writes s (DoctorRequest_save (r\<lparr>dr_status := Accepted\<rparr>) ?s1)"
        using find_Some_mem[OF Some] by (intro writes.w_dr_status w1)
      with Some w1 show ?thesis unfolding s2_def
        by (simp only: option.case split: if_splits) simp
    qed
    have acc2: "acceptedRequest (userId u) ?P s2 \<noteq> None"
    proof (cases ?found)
      case None
      then show ?thesis
        by (simp add: s2_def acceptedRequest_def find_append split: option.splits)
    next
      case (Some r)
      from find_Some_pred[OF Some] find_Some_mem[OF Some]
      have r: "dr_doctor r = userId u" "dr_patient r = ?P" "r \<in> set (doctorRequests ?s1)"
        by simp_all
      let ?A = "\<lambda>r. dr_doctor r = userId u \<and> dr_patient r = ?P \<and> dr_status r = Accepted"
      show ?thesis
      proof (cases "dr_status r = Accepted")
        case True
        with r have "find ?A (doctorRequests ?s1) \<noteq> None"
          by (intro find_not_None[of r]) simp_all
        with Some True show ?thesis
          by (simp add: acceptedRequest_def s2_def)
      next
        case False
        have "r\<lparr>dr_status := Accepted\<rparr> \<in> set (update_first (\<lambda>x. dr_id x = dr_id r)
                (\<lambda>_. r\<lparr>dr_status := Accepted\<rparr>) (doctorRequests ?s1))"
          using r by (intro update_first_mem[of r]) simp_all
        then have "find ?A (update_first (\<lambda>x. dr_id x = dr_id r)
                (\<lambda>_. r\<lparr>dr_status := Accepted\<rparr>) (doctorRequests ?s1)) \<noteq> None"
          using r by (intro find_not_None[of "r\<lparr>dr_status := Accepted\<rparr>"]) simp_all
        with Some False show ?thesis
          by (simp add: acceptedRequest_def s2_def DoctorRequest_save_def)
      qed
    qed
    have m0p: "mr_patient m0 = ?P"
      by (auto simp: m0_def dest: findOne_patient split: option.splits)
    have w3: "writes s s3"
      unfolding s3_def using w2
      by (auto simp: m0_def intro!: writes.w_mr_insert)
    have f3: "MedicalRecord_findOne ?P s3 = Some m0"
    proof (cases "MedicalRecord_findOne ?P s2")
      case None
      then show ?thesis
        using record_after_save[of ?P s2 None m0] m0p by (simp add: s3_def)
    next
      case (Some m)
      then show ?thesis by (simp add: s3_def m0_def)
    qed
    have acc3: "acceptedRequest (userId u) ?P s3 \<noteq> None"
      using acc2 by (simp add: s3_def)
    have "writes s (MedicalRecord_save False m1 s3)"
      using w3 findOne_mem[OF f3] m0p acc3
      by (intro writes.w_mr_update[of s s3 m0]) (simp_all add: m1_def entries_ok_def)
    then have w4: "writes s s4"
      unfolding s4_def by (rule writes.w_ids)
    show ?thesis
      unfolding s' using w4 by (auto split: option.splits intro!: writes.w_notify)
  qed
qed

lemma writes_handle: "writes s (snd (handle u q s))"
  by (cases q)
    (simp_all add: writes_getMedicalRecord writes_postAppointment writes_putAppointment
      writes_deleteAppointment writes_postPrescription writes_putPrescription
      writes_deletePrescription writes_postDisease writes_putDisease writes_deleteDisease
      writes_postComment writes_putComment writes_deleteComment writes_postDiagnostic
      writes_putDiagnostic writes_deleteDiagnostic writes_sendRequest writes_respondRequest
      writes_inviteAgent writes_respondAgentInvitation writes_removeAgent
      writes_sendInvitation writes_respondInvitation)

lemma wf_handle: "wf s \<Longrightarrow> wf (snd (handle u q s))"
  using writes_wf[OF writes_handle] .

lemma wf_frame:
  "doctorRequests t = doctorRequests s \<Longrightarrow>
   doctorReceptionAgents t = doctorReceptionAgents s \<Longrightarrow>
   medicalRecords t = medicalRecords s \<Longrightarrow> nextId t = nextId s \<Longrightarrow> wf t = wf s"
proof -
  assume h: "doctorRequests t = doctorRequests s"
    "doctorReceptionAgents t = doctorReceptionAgents s"
    "medicalRecords t = medicalRecords s" "nextId t = nextId s"
  have "entries_ok t = entries_ok s"
    by (rule ext, rule entries_ok_frame) (rule h(1))
  with h show ?thesis
    by (simp add: wf_def ids_ok_def pairs_ok_def authors_ok_def)
qed

lemma reachable_wf: "reachable s \<Longrightarrow> wf s"
proof (induction rule: reachable.induct)
  case (r_init us n)
  show ?case by (simp add: wf_def ids_ok_def pairs_ok_def authors_ok_def)
next
  case (r_handle s u q)
  then show ?case by (simp add: wf_handle)
next
  case (r_other s ns us)
  then show ?case
    using wf_frame[of "s\<lparr>users := us, notifications := ns\<rparr>" s] by simp
qed

section \<open>Creating a relationship\<close>

lemma pairs_ok_one_open: "pairs_ok s \<Longrightarrow> one_open_request s"
  by (simp add: pairs_ok_def one_open_request_def distinct_map_filter)

lemma reachable_one_open: "reachable s \<Longrightarrow> one_open_request s"
  using reachable_wf[of s] pairs_ok_one_open[of s] by (simp add: wf_def)

text \<open>
  C4: a doctor's request to an existing patient, and a doctor's invitation to an existing
  reception agent. When a document for the pair is stored with status pending or
  accepted, the reply is the conflict (400, "already pending" or "already accepted") and
  nothing changes. When it is stored as rejected, that document goes back to pending and
  none is added. When none is stored, one pending document is added. In every state the
  interface can reach, before and after any request, no pair has two documents that are
  both not rejected.
\<close>

theorem C4_create_relationship:
  assumes doctor: "role u = Doctor"
  shows
    "(find (\<lambda>x. u_id x = p \<and> u_role x = Patient) (users s) \<noteq> None \<longrightarrow>
       (case find (\<lambda>r. dr_doctor r = userId u \<and> dr_patient r = p) (doctorRequests s) of
          Some r \<Rightarrow>
            if dr_status r = Rejected
            then doctorRequests (snd (sendRequest u (Some p) s)) =
                   update_first (\<lambda>x. dr_id x = dr_id r) (\<lambda>_. r\<lparr>dr_status := Pending\<rparr>)
                     (doctorRequests s)
            else sendRequest u (Some p) s =
                   (Reply 400 (''Request already '' @ statusString (dr_status r)), s)
        | None \<Rightarrow>
            doctorRequests (snd (sendRequest u (Some p) s)) =
              doctorRequests s @
              [\<lparr>dr_id = nextId s, dr_doctor = userId u, dr_patient = p,
                dr_status = Pending\<rparr>])) \<and>
     (find (\<lambda>x. u_id x = a \<and> u_role x = ReceptionAgent) (users s) \<noteq> None \<longrightarrow>
       (case find (\<lambda>i. ra_doctor i = userId u \<and> ra_receptionAgent i = a)
               (doctorReceptionAgents s) of
          Some i \<Rightarrow>
            if ra_status i = Rejected
            then doctorReceptionAgents (snd (inviteAgent u (Some a) s)) =
                   update_first (\<lambda>x. ra_id x = ra_id i) (\<lambda>_. i\<lparr>ra_status := Pending\<rparr>)
                     (doctorReceptionAgents s)
            else inviteAgent u (Some a) s =
                   (Reply 400 (''Invitation already '' @ statusString (ra_status i)), s)
        | None \<Rightarrow>
            doctorReceptionAgents (snd (inviteAgent u (Some a) s)) =
              doctorReceptionAgents s @
              [\<lparr>ra_id = nextId s, ra_doctor = userId u, ra_receptionAgent = a,
                ra_status = Pending\<rparr>])) \<and>
     (reachable s \<longrightarrow> one_open_request s \<and> one_open_request (snd (handle v q s)))"
proof -
  have send: "find (\<lambda>x. u_id x = p \<and> u_role x = Patient) (users s) \<noteq> None \<longrightarrow>
       (case find (\<lambda>r. dr_doctor r = userId u \<and> dr_patient r = p) (doctorRequests s) of
          Some r \<Rightarrow>
            if dr_status r = Rejected
            then doctorRequests (snd (sendRequest u (Some p) s)) =
                   update_first (\<lambda>x. dr_id x = dr_id r) (\<lambda>_. r\<lparr>dr_status := Pending\<rparr>)
                     (doctorRequests s)
            else sendRequest u (Some p) s =
                   (Reply 400 (''Request already '' @ statusString (dr_status r)), s)
        | None \<Rightarrow>
            doctorRequests (snd (sendRequest u (Some p) s)) =
              doctorRequests s @
              [\<lparr>dr_id = nextId s, dr_doctor = userId u, dr_patient = p,
                dr_status = Pending\<rparr>])"
    using doctor
    by (auto simp: sendRequest_def Let_def DoctorRequest_save_def notifyDoctorRequest_def
        User_findById_def split: option.splits)
  have invite: "find (\<lambda>x. u_id x = a \<and> u_role x = ReceptionAgent) (users s) \<noteq> None \<longrightarrow>
       (case find (\<lambda>i. ra_doctor i = userId u \<and> ra_receptionAgent i = a)
               (doctorReceptionAgents s) of
          Some i \<Rightarrow>
            if ra_status i = Rejected
            then doctorReceptionAgents (snd (inviteAgent u (Some a) s)) =
                   update_first (\<lambda>x. ra_id x = ra_id i) (\<lambda>_. i\<lparr>ra_status := Pending\<rparr>)
                     (doctorReceptionAgents s)
            else inviteAgent u (Some a) s =
                   (Reply 400 (''Invitation already '' @ statusString (ra_status i)), s)
        | None \<Rightarrow>
            doctorReceptionAgents (snd (inviteAgent u (Some a) s)) =
              doctorReceptionAgents s @
              [\<lparr>ra_id = nextId s, ra_doctor = userId u, ra_receptionAgent = a,
                ra_status = Pending\<rparr>])"
    using doctor
    by (auto simp: inviteAgent_def Let_def DoctorReceptionAgent_save_def
        User_findById_def split: option.splits)
  have never: "reachable s \<longrightarrow> one_open_request s \<and> one_open_request (snd (handle v q s))"
    using reachable_one_open[of s] reachable_one_open[OF reachable.r_handle[of s v q]]
    by simp
  from send invite never show ?thesis by (intro conjI)
qed

theorem C4_create_relationship_witness:
  "role doctor2 = Doctor \<and>
   find (\<lambda>x. u_id x = 1 \<and> u_role x = Patient) (users db_empty) \<noteq> None \<and>
   find (\<lambda>x. u_id x = 4 \<and> u_role x = ReceptionAgent) (users db_empty) \<noteq> None \<and>
   doctorRequests (snd (sendRequest doctor2 (Some 1) db_empty)) =
     [\<lparr>dr_id = 0, dr_doctor = 2, dr_patient = 1, dr_status = Pending\<rparr>] \<and>
   doctorReceptionAgents (snd (inviteAgent doctor2 (Some 4) db_empty)) =
     [\<lparr>ra_id = 0, ra_doctor = 2, ra_receptionAgent = 4, ra_status = Pending\<rparr>] \<and>
   sendRequest doctor2 (Some 1) db_pending = (Reply 400 ''Request already pending'', db_pending) \<and>
   sendRequest doctor2 (Some 1) db_treated =
     (Reply 400 ''Request already accepted'', db_treated) \<and>
   inviteAgent doctor2 (Some 4) db_treated =
     (Reply 400 ''Invitation already accepted'', db_treated) \<and>
   doctorRequests (snd (sendRequest doctor2 (Some 1) db_invited)) =
     [\<lparr>dr_id = 6, dr_doctor = 2, dr_patient = 1, dr_status = Pending\<rparr>] \<and>
   reachable db_empty \<and>
   one_open_request (snd (handle doctor2 (SendRequest (Some 1)) db_empty))"
  using C4_create_relationship [of doctor2 1 db_empty 4 doctor2 "SendRequest (Some 1)"]
    C4_create_relationship [of doctor2 1 db_pending 4]
    C4_create_relationship [of doctor2 1 db_treated 4]
    C4_create_relationship [of doctor2 1 db_invited 4]
    reachable.r_init [of some_users 0]
  by (simp add: doctor2_def db_empty_def db_pending_def db_treated_def db_invited_def
      some_users_def)

section \<open>Where medical records come from\<close>

lemma findOne_iff: "(MedicalRecord_findOne p s \<noteq> None) = (p \<in> mr_patient ` set (medicalRecords s))"
  by (auto simp: MedicalRecord_findOne_def find_None_iff)

lemma writes_keeps:
  "writes s t \<Longrightarrow> wf s \<Longrightarrow>
   \<exists>ys. map mr_patient (medicalRecords t) = map mr_patient (medicalRecords s) @ ys"
proof (induction rule: writes.induct)
  case (w_mr_insert t m k)
  then show ?case by (auto simp: MedicalRecord_save_def)
next
  case (w_mr_update t m m')
  from writes_wf[OF w_mr_update.hyps(1) w_mr_update.prems]
  have d: "distinct (map mr_id (medicalRecords t))" by (simp add: wf_def ids_ok_def)
  have "medicalRecords (MedicalRecord_save False m' t) =
      map (\<lambda>x. if x = m then m' else x) (medicalRecords t)"
    using update_first_map[OF d w_mr_update.hyps(2), of m'] w_mr_update.hyps(3)
    by (simp add: MedicalRecord_save_def)
  then have "map mr_patient (medicalRecords (MedicalRecord_save False m' t)) =
      map mr_patient (medicalRecords t)"
    using w_mr_update.hyps(4) by (simp add: map_key_replace)
  with w_mr_update show ?case by simp
qed (simp_all add: DoctorRequest_save_def DoctorReceptionAgent_save_def)

lemma records_kept:
  assumes "wf s" "MedicalRecord_findOne p s \<noteq> None"
  shows "MedicalRecord_findOne p (snd (handle u q s)) \<noteq> None"
proof -
  from writes_keeps[OF writes_handle assms(1), of u q] obtain ys where
    "map mr_patient (medicalRecords (snd (handle u q s))) = map mr_patient (medicalRecords s) @ ys"
    by blast
  then have "mr_patient ` set (medicalRecords s) \<subseteq> mr_patient ` set (medicalRecords (snd (handle u q s)))"
    by (metis set_map set_append Un_upper1)
  with assms(2) show ?thesis unfolding findOne_iff by blast
qed

lemma find_update_first_None:
  "find P xs = None \<Longrightarrow> \<not> P y \<Longrightarrow> find P (update_first Q (\<lambda>_. y) xs) = None"
  by (induction xs) auto

lemma findOne_save_False:
  "MedicalRecord_findOne p t = None \<Longrightarrow> mr_patient m' \<noteq> p \<Longrightarrow>
   MedicalRecord_findOne p (MedicalRecord_save False m' t) = None"
  by (simp add: MedicalRecord_findOne_def MedicalRecord_save_def find_update_first_None)

lemma findOne_save_True:
  "MedicalRecord_findOne p t = None \<Longrightarrow> mr_patient m' \<noteq> p \<Longrightarrow>
   MedicalRecord_findOne p (MedicalRecord_save True m' t) = None"
  by (simp add: MedicalRecord_findOne_def MedicalRecord_save_def find_append)

lemma findOne_other_patient:
  "MedicalRecord_findOne p t = None \<Longrightarrow> MedicalRecord_findOne p' t = Some m \<Longrightarrow>
   mr_patient m \<noteq> p"
  by (auto simp: MedicalRecord_findOne_def find_None_iff dest: find_Some_mem)

lemma absent_putAppointment:
  "MedicalRecord_findOne p s = None \<Longrightarrow>
   MedicalRecord_findOne p (snd (putAppointment u p' e date reason notes s)) = None"
  unfolding putAppointment_def Let_def
  by (auto split: option.splits dest: findOne_other_patient intro!: findOne_save_False)

lemma absent_deleteAppointment:
  "MedicalRecord_findOne p s = None \<Longrightarrow>
   MedicalRecord_findOne p (snd (deleteAppointment u p' e  s)) = None"
  unfolding deleteAppointment_def Let_def
  by (auto split: option.splits dest: findOne_other_patient intro!: findOne_save_False)

lemma absent_putPrescription:
  "MedicalRecord_findOne p s = None \<Longrightarrow>
   MedicalRecord_findOne p (snd (putPrescription u p' e medication dosage duration instructions s)) = None"
  unfolding putPrescription_def Let_def
  by (auto split: option.splits dest: findOne_other_patient intro!: findOne_save_False)

lemma absent_deletePrescription:
  "MedicalRecord_findOne p s = None \<Longrightarrow>
   MedicalRecord_findOne p (snd (deletePrescription u p' e  s)) = None"
  unfolding deletePrescription_def Let_def
  by (auto split: option.splits dest: findOne_other_patient intro!: findOne_save_False)

lemma absent_putDisease:
  "MedicalRecord_findOne p s = None \<Longrightarrow>
   MedicalRecord_findOne p (snd (putDisease u p' e name' diagnosedDate status' notes s)) = None"
  unfolding putDisease_def Let_def
  by (auto split: option.splits dest: findOne_other_patient intro!: findOne_save_False)

lemma absent_deleteDisease:
  "MedicalRecord_findOne p s = None \<Longrightarrow>
   MedicalRecord_findOne p (snd (deleteDisease u p' e  s)) = None"
  unfolding deleteDisease_def Let_def
  by (auto split: option.splits dest: findOne_other_patient intro!: findOne_save_False)

lemma absent_putComment:
  "MedicalRecord_findOne p s = None \<Longrightarrow>
   MedicalRecord_findOne p (snd (putComment u p' e text' s)) = None"
  unfolding putComment_def Let_def
  by (auto split: option.splits dest: findOne_other_patient intro!: findOne_save_False)

lemma absent_deleteComment:
  "MedicalRecord_findOne p s = None \<Longrightarrow>
   MedicalRecord_findOne p (snd (deleteComment u p' e  s)) = None"
  unfolding deleteComment_def Let_def
  by (auto split: option.splits dest: findOne_other_patient intro!: findOne_save_False)

lemma absent_putDiagnostic:
  "MedicalRecord_findOne p s = None \<Longrightarrow>
   MedicalRecord_findOne p (snd (putDiagnostic u p' e testName testDate results notes s)) = None"
  unfolding putDiagnostic_def Let_def
  by (auto split: option.splits dest: findOne_other_patient intro!: findOne_save_False)

lemma absent_deleteDiagnostic:
  "MedicalRecord_findOne p s = None \<Longrightarrow>
   MedicalRecord_findOne p (snd (deleteDiagnostic u p' e  s)) = None"
  unfolding deleteDiagnostic_def Let_def
  by (auto split: option.splits dest: findOne_other_patient intro!: findOne_save_False)

lemma absent_postAppointment:
  "MedicalRecord_findOne p s = None \<Longrightarrow> p' \<noteq> p \<Longrightarrow>
   MedicalRecord_findOne p (snd (postAppointment u p' date reason notes doctorId s)) = None"
  unfolding postAppointment_def Let_def
  by (auto split: option.splits sum.splits dest: findOne_other_patient
      intro!: findOne_save_False findOne_save_True)

lemma absent_postPrescription:
  "MedicalRecord_findOne p s = None \<Longrightarrow> p' \<noteq> p \<Longrightarrow>
   MedicalRecord_findOne p (snd (postPrescription u p' medication dosage duration instructions s)) = None"
  unfolding postPrescription_def Let_def
  by (auto split: option.splits sum.splits dest: findOne_other_patient
      intro!: findOne_save_False findOne_save_True)

lemma absent_postDisease:
  "MedicalRecord_findOne p s = None \<Longrightarrow> p' \<noteq> p \<Longrightarrow>
   MedicalRecord_findOne p (snd (postDisease u p' name' diagnosedDate status' notes s)) = None"
  unfolding postDisease_def Let_def
  by (auto split: option.splits sum.splits dest: findOne_other_patient
      intro!: findOne_save_False findOne_save_True)

lemma absent_postComment:
  "MedicalRecord_findOne p s = None \<Longrightarrow> p' \<noteq> p \<Longrightarrow>
   MedicalRecord_findOne p (snd (postComment u p' text' s)) = None"
  unfolding postComment_def Let_def
  by (auto split: option.splits sum.splits dest: findOne_other_patient
      intro!: findOne_save_False findOne_save_True)

lemma absent_postDiagnostic:
  "MedicalRecord_findOne p s = None \<Longrightarrow> p' \<noteq> p \<Longrightarrow>
   MedicalRecord_findOne p (snd (postDiagnostic u p' testName testDate results notes s)) = None"
  unfolding postDiagnostic_def Let_def
  by (auto split: option.splits sum.splits dest: findOne_other_patient
      intro!: findOne_save_False findOne_save_True)

lemma get_effect:
  "snd (getMedicalRecord u p s) =
     (if http_status (fst (getMedicalRecord u p s)) = 200 \<and> MedicalRecord_findOne p s = None
      then takeIds 1 (MedicalRecord_save True (MedicalRecord_new (nextId s) p) s)
      else s)"
  by (simp add: getMedicalRecord_def Let_def split: role.splits option.splits)

lemma absent_getMedicalRecord:
  "MedicalRecord_findOne p s = None \<Longrightarrow> p' \<noteq> p \<Longrightarrow>
   MedicalRecord_findOne p (snd (getMedicalRecord u p' s)) = None"
  by (subst get_effect) (simp add: findOne_save_True)

lemma absent_sendRequest:
  "MedicalRecord_findOne p (snd (sendRequest u patientId s)) = MedicalRecord_findOne p s"
  unfolding sendRequest_def Let_def
  by (auto split: option.splits simp: MedicalRecord_findOne_def notifyDoctorRequest_def
      takeIds_def)

lemma absent_inviteAgent:
  "MedicalRecord_findOne p (snd (inviteAgent u receptionAgentId s)) = MedicalRecord_findOne p s"
  unfolding inviteAgent_def Let_def
  by (auto split: option.splits simp: MedicalRecord_findOne_def takeIds_def)

lemma absent_respondAgentInvitation:
  "MedicalRecord_findOne p (snd (respondAgentInvitation u i status' s)) =
   MedicalRecord_findOne p s"
  unfolding respondAgentInvitation_def Let_def
  by (auto split: option.splits simp: MedicalRecord_findOne_def)

lemma absent_removeAgent:
  "MedicalRecord_findOne p (snd (removeAgent u a s)) = MedicalRecord_findOne p s"
  unfolding removeAgent_def Let_def
  by (auto split: option.splits simp: MedicalRecord_findOne_def)

lemma absent_sendInvitation:
  "MedicalRecord_findOne p (snd (sendInvitation u d date reason s)) = MedicalRecord_findOne p s"
  unfolding sendInvitation_def Let_def
  by (auto split: option.splits simp: MedicalRecord_findOne_def takeIds_def)

lemma absent_respondRequest:
  "MedicalRecord_findOne p s = None \<Longrightarrow> \<not> (userId u = p \<and> decision status' = Some Accepted) \<Longrightarrow>
   MedicalRecord_findOne p (snd (respondRequest u i status' s)) = None"
  unfolding respondRequest_def Let_def
  by (auto split: option.splits simp: notifyRequestAccepted_def notifyRequestRejected_def
      intro!: findOne_save_True)

lemma findOne_raw [simp]:
  "MedicalRecord_findOne p (t\<lparr>doctorRequests := xs\<rparr>) = MedicalRecord_findOne p t"
  "MedicalRecord_findOne p (t\<lparr>doctorReceptionAgents := ys\<rparr>) = MedicalRecord_findOne p t"
  "MedicalRecord_findOne p (t\<lparr>appointmentInvitations := zs\<rparr>) = MedicalRecord_findOne p t"
  by (simp_all add: MedicalRecord_findOne_def)

lemma absent_respondInvitation:
  "MedicalRecord_findOne p s = None \<Longrightarrow> \<not> creates u (RespondInvitation i status') s p \<Longrightarrow>
   MedicalRecord_findOne p (snd (respondInvitation u i status' s)) = None"
  unfolding respondInvitation_def Let_def
  by (auto split: option.splits dest: findOne_other_patient
      intro!: findOne_save_False findOne_save_True)

lemma not_created:
  assumes "MedicalRecord_findOne p s = None" and "\<not> creates u q s p"
  shows "MedicalRecord_findOne p (snd (handle u q s)) = None"
proof (cases q)
  case (RespondInvitation i st)
  with assms absent_respondInvitation[of p s u i st] show ?thesis by simp
next
  case (RespondRequest i st)
  with assms absent_respondRequest[of p s u st i] show ?thesis by simp
qed (use assms in \<open>simp_all add: absent_getMedicalRecord absent_postAppointment
      absent_putAppointment absent_deleteAppointment absent_postPrescription
      absent_putPrescription absent_deletePrescription absent_postDisease absent_putDisease
      absent_deleteDisease absent_postComment absent_putComment absent_deleteComment
      absent_postDiagnostic absent_putDiagnostic absent_deleteDiagnostic absent_sendRequest
      absent_inviteAgent absent_respondAgentInvitation absent_removeAgent
      absent_sendInvitation\<close>)

lemma created_only:
  "MedicalRecord_findOne p s = None \<Longrightarrow>
   MedicalRecord_findOne p (snd (handle u q s)) \<noteq> None \<Longrightarrow> creates u q s p"
  by (cases "creates u q s p") (simp_all add: not_created)

text \<open>
  The claim C10 as stated fails on the code: GET /:patientId, a read, stores an empty
  record when the patient has none ("Create empty record if it doesn't exist"). Here the
  patient opens the own record in a store that holds none.
\<close>

theorem C10_read_creates_record_counterexample:
  "MedicalRecord_findOne 1 db_empty = None \<and>
   getMedicalRecord patient1 1 db_empty =
     (ReplyRecord (MedicalRecord_new 0 1),
      db_empty\<lparr>medicalRecords := [MedicalRecord_new 0 1], nextId := 1\<rparr>) \<and>
   MedicalRecord_findOne 1 (snd (getMedicalRecord patient1 1 db_empty)) =
     Some (MedicalRecord_new 0 1) \<and>
   snd (getMedicalRecord patient1 1 db_empty) \<noteq> db_empty"
  by (simp add: getMedicalRecord_def patient1_def db_empty_def MedicalRecord_findOne_def
      MedicalRecord_save_def takeIds_def Let_def)

text \<open>
  C10, amended: the record of a patient comes into existence only by a GET of the record,
  by an append to it, by the patient accepting a doctor's request, or by a doctor
  accepting an appointment invitation of the patient; in a well-formed state, as every
  reachable state is, no request removes it. A GET changes the state only when it is
  permitted and finds no record: then it stores an empty one.
\<close>

theorem C10_records_lazily_created_never_deleted:
  "(wf s \<and> MedicalRecord_findOne p s \<noteq> None \<longrightarrow>
      MedicalRecord_findOne p (snd (handle u q s)) \<noteq> None) \<and>
   (reachable s \<longrightarrow> wf s) \<and>
   (MedicalRecord_findOne p s = None \<and> MedicalRecord_findOne p (snd (handle u q s)) \<noteq> None \<longrightarrow>
      creates u q s p) \<and>
   snd (getMedicalRecord u p s) =
     (if http_status (fst (getMedicalRecord u p s)) = 200 \<and> MedicalRecord_findOne p s = None
      then takeIds 1 (MedicalRecord_save True (MedicalRecord_new (nextId s) p) s)
      else s)"
  using records_kept[of s p u q] reachable_wf[of s] created_only[of p s u q] get_effect[of u p s]
  by blast

theorem C10_records_lazily_created_never_deleted_witness:
  "wf db_treated \<and> MedicalRecord_findOne 1 db_treated \<noteq> None \<and>
   MedicalRecord_findOne 1 (snd (handle doctor2 (DeletePrescription 1 22) db_treated)) \<noteq> None \<and>
   reachable db_empty \<and> wf db_empty \<and>
   MedicalRecord_findOne 1 db_empty = None \<and>
   MedicalRecord_findOne 1 (snd (handle patient1 (GetMedicalRecord 1) db_empty)) \<noteq> None \<and>
   creates patient1 (GetMedicalRecord 1) db_empty 1 \<and>
   snd (getMedicalRecord doctor2 1 db_empty) = db_empty \<and>
   snd (getMedicalRecord doctor2 1 db_treated) = db_treated"
  using C10_records_lazily_created_never_deleted
      [of db_treated 1 doctor2 "DeletePrescription 1 22"]
    C10_records_lazily_created_never_deleted [of db_empty 1 patient1 "GetMedicalRecord 1"]
    C10_records_lazily_created_never_deleted [of db_empty 1 doctor2 "GetMedicalRecord 1"]
    C10_records_lazily_created_never_deleted [of db_treated 1 doctor2 "GetMedicalRecord 1"]
    reachable.r_init [of some_users 0]
  by (simp add: wf_def ids_ok_def pairs_ok_def authors_ok_def entries_ok_def dr_pair_def
      ra_pair_def acceptedRequest_def MedicalRecord_findOne_def db_treated_def db_empty_def
      some_users_def doctor2_def patient1_def getMedicalRecord_def MedicalRecord_save_def
      takeIds_def Let_def)

section \<open>The gates of the medical-record mutations\<close>

lemma change_gate:
  assumes "changeOf q = Some (p, md)"
  shows "(case targetAuthor s q of
      None \<Rightarrow>
        http_status (fst (handle u q s)) = (if roleAllowed u md then 404 else 403) \<and>
        snd (handle u q s) = s
    | Some a \<Rightarrow>
        if mayChange s u md a
        then http_status (fst (handle u q s)) = 200 \<or> http_status (fst (handle u q s)) = 500
        else http_status (fst (handle u q s)) = 403 \<and> snd (handle u q s) = s)"
proof (cases q)
  case (PutAppointment p' e date reason nts)
  with assms show ?thesis
    by (auto simp: authorIn_def putAppointment_def fst_notifyAndReply Let_def mayChange_def
        roleAllowed_def split: option.splits)
next
  case (DeleteAppointment p' e)
  with assms show ?thesis
    by (auto simp: authorIn_def deleteAppointment_def fst_notifyAndReply Let_def mayChange_def
        roleAllowed_def split: option.splits)
next
  case (PutPrescription p' e medication dosage duration instructions)
  with assms show ?thesis
    by (auto simp: authorIn_def putPrescription_def fst_notifyAndReply Let_def mayChange_def
        roleAllowed_def split: option.splits)
next
  case (DeletePrescription p' e)
  with assms show ?thesis
    by (auto simp: authorIn_def deletePrescription_def fst_notifyAndReply Let_def mayChange_def
        roleAllowed_def split: option.splits)
next
  case (PutDisease p' e name' diagnosedDate status' nts)
  with assms show ?thesis
    by (auto simp: authorIn_def putDisease_def fst_notifyAndReply Let_def mayChange_def
        roleAllowed_def split: option.splits)
next
  case (DeleteDisease p' e)
  with assms show ?thesis
    by (auto simp: authorIn_def deleteDisease_def fst_notifyAndReply Let_def mayChange_def
        roleAllowed_def split: option.splits)
next
  case (PutComment p' e text')
  with assms show ?thesis
    by (auto simp: authorIn_def putComment_def fst_notifyAndReply Let_def mayChange_def
        roleAllowed_def split: option.splits)
next
  case (DeleteComment p' e)
  with assms show ?thesis
    by (auto simp: authorIn_def deleteComment_def fst_notifyAndReply Let_def mayChange_def
        roleAllowed_def split: option.splits)
next
  case (PutDiagnostic p' e testName testDate results nts)
  with assms show ?thesis
    by (auto simp: authorIn_def putDiagnostic_def fst_notifyAndReply Let_def mayChange_def
        roleAllowed_def split: option.splits)
next
  case (DeleteDiagnostic p' e)
  with assms show ?thesis
    by (auto simp: authorIn_def deleteDiagnostic_def fst_notifyAndReply Let_def mayChange_def
        roleAllowed_def split: option.splits)
qed (use assms in simp_all)

lemma delegated_access:
  assumes "acceptedInvitation a d s = Some i" "acceptedRequest d p s \<noteq> None"
  shows "list_ex (\<lambda>i. ra_receptionAgent i = a \<and> ra_status i = Accepted \<and>
                       acceptedRequest (ra_doctor i) p s \<noteq> None) (doctorReceptionAgents s)"
proof -
  from assms(1) have "i \<in> set (doctorReceptionAgents s)" "ra_receptionAgent i = a"
    "ra_doctor i = d" "ra_status i = Accepted"
    by (auto simp: acceptedInvitation_def dest: find_Some_mem find_Some_pred)
  with assms(2) show ?thesis by (auto simp: list_ex_iff)
qed

lemma entry_author_access:
  "authors_ok s \<Longrightarrow> MedicalRecord_findOne p s = Some m \<Longrightarrow> entries_ok s m"
  by (auto simp: authors_ok_def list_all_iff dest: findOne_mem)

lemma authorIn_access:
  assumes "authors_ok s" "authorIn p s entries ident doctor e = Some a"
    "\<And>m. entries_ok s m \<Longrightarrow>
       list_all (\<lambda>x. acceptedRequest (doctor x) (mr_patient m) s \<noteq> None) (entries m)"
  shows "acceptedRequest a p s \<noteq> None"
proof -
  from assms(2) obtain m x where m: "MedicalRecord_findOne p s = Some m"
    and x: "find (\<lambda>x. ident x = e) (entries m) = Some x" and a: "a = doctor x"
    by (auto simp: authorIn_def split: option.splits)
  from assms(3)[OF entry_author_access[OF assms(1) m]] x
  have "acceptedRequest (doctor x) (mr_patient m) s \<noteq> None"
    by (rule list_all_find)
  with a findOne_patient[OF m] show ?thesis by simp
qed

lemma author_has_access:
  assumes "authors_ok s" "changeOf q = Some (p, md)" "targetAuthor s q = Some a"
  shows "acceptedRequest a p s \<noteq> None"
proof (cases q)
  case (PutAppointment p' e date reason nts)
  with assms authorIn_access[of s p appointments ap_id ap_doctor e a] show ?thesis
    by (simp add: entries_ok_def)
next
  case (DeleteAppointment p' e)
  with assms authorIn_access[of s p appointments ap_id ap_doctor e a] show ?thesis
    by (simp add: entries_ok_def)
next
  case (PutPrescription p' e medication dosage duration instructions)
  with assms authorIn_access[of s p prescriptions pr_id pr_doctor e a] show ?thesis
    by (simp add: entries_ok_def)
next
  case (DeletePrescription p' e)
  with assms authorIn_access[of s p prescriptions pr_id pr_doctor e a] show ?thesis
    by (simp add: entries_ok_def)
next
  case (PutDisease p' e name' diagnosedDate status' nts)
  with assms authorIn_access[of s p diseases ds_id ds_doctor e a] show ?thesis
    by (simp add: entries_ok_def)
next
  case (DeleteDisease p' e)
  with assms authorIn_access[of s p diseases ds_id ds_doctor e a] show ?thesis
    by (simp add: entries_ok_def)
next
  case (PutComment p' e text')
  with assms authorIn_access[of s p comments cm_id cm_doctor e a] show ?thesis
    by (simp add: entries_ok_def)
next
  case (DeleteComment p' e)
  with assms authorIn_access[of s p comments cm_id cm_doctor e a] show ?thesis
    by (simp add: entries_ok_def)
next
  case (PutDiagnostic p' e testName testDate results nts)
  with assms authorIn_access[of s p diagnostics dg_id dg_doctor e a] show ?thesis
    by (simp add: entries_ok_def)
next
  case (DeleteDiagnostic p' e)
  with assms authorIn_access[of s p diagnostics dg_id dg_doctor e a] show ?thesis
    by (simp add: entries_ok_def)
qed (use assms in simp_all)

text \<open>An update or a delete reads no request of a doctor.\<close>

lemma change_ignores_requests:
  assumes "changeOf q = Some (p, md)"
  shows "handle u q (s\<lparr>doctorRequests := rs\<rparr>) =
         (fst (handle u q s), (snd (handle u q s))\<lparr>doctorRequests := rs\<rparr>)"
proof (cases q)
  case (PutAppointment p' e date reason nts)
  then show ?thesis
    by (auto simp: putAppointment_def notifyAndReply_def Let_def MedicalRecord_findOne_def
        acceptedInvitation_def User_findById_def MedicalRecord_save_def
        notifyMedicalRecordUpdate_def createNotification_def split: option.splits)
next
  case (DeleteAppointment p' e)
  then show ?thesis
    by (auto simp: deleteAppointment_def notifyAndReply_def Let_def MedicalRecord_findOne_def
        acceptedInvitation_def User_findById_def MedicalRecord_save_def
        notifyMedicalRecordUpdate_def createNotification_def split: option.splits)
next
  case (PutPrescription p' e medication dosage duration instructions)
  then show ?thesis
    by (auto simp: putPrescription_def notifyAndReply_def Let_def MedicalRecord_findOne_def
        acceptedInvitation_def User_findById_def MedicalRecord_save_def
        notifyMedicalRecordUpdate_def createNotification_def split: option.splits)
next
  case (DeletePrescription p' e)
  then show ?thesis
    by (auto simp: deletePrescription_def notifyAndReply_def Let_def MedicalRecord_findOne_def
        acceptedInvitation_def User_findById_def MedicalRecord_save_def
        notifyMedicalRecordUpdate_def createNotification_def split: option.splits)
next
  case (PutDisease p' e name' diagnosedDate status' nts)
  then show ?thesis
    by (auto simp: putDisease_def notifyAndReply_def Let_def MedicalRecord_findOne_def
        acceptedInvitation_def User_findById_def MedicalRecord_save_def
        notifyMedicalRecordUpdate_def createNotification_def split: option.splits)
next
  case (DeleteDisease p' e)
  then show ?thesis
    by (auto simp: deleteDisease_def notifyAndReply_def Let_def MedicalRecord_findOne_def
        acceptedInvitation_def User_findById_def MedicalRecord_save_def
        notifyMedicalRecordUpdate_def createNotification_def split: option.splits)
next
  case (PutComment p' e text')
  then show ?thesis
    by (auto simp: putComment_def notifyAndReply_def Let_def MedicalRecord_findOne_def
        acceptedInvitation_def User_findById_def MedicalRecord_save_def
        notifyMedicalRecordUpdate_def createNotification_def split: option.splits)
next
  case (DeleteComment p' e)
  then show ?thesis
    by (auto simp: deleteComment_def notifyAndReply_def Let_def MedicalRecord_findOne_def
        acceptedInvitation_def User_findById_def MedicalRecord_save_def
        notifyMedicalRecordUpdate_def createNotification_def split: option.splits)
next
  case (PutDiagnostic p' e testName testDate results nts)
  then show ?thesis
    by (auto simp: putDiagnostic_def notifyAndReply_def Let_def MedicalRecord_findOne_def
        acceptedInvitation_def User_findById_def MedicalRecord_save_def
        notifyMedicalRecordUpdate_def createNotification_def split: option.splits)
next
  case (DeleteDiagnostic p' e)
  then show ?thesis
    by (auto simp: deleteDiagnostic_def notifyAndReply_def Let_def MedicalRecord_findOne_def
        acceptedInvitation_def User_findById_def MedicalRecord_save_def
        notifyMedicalRecordUpdate_def createNotification_def split: option.splits)
qed (use assms in simp_all)

lemma db_trace_value:
  "db_trace =
     \<lparr>users = some_users,
      doctorRequests = [\<lparr>dr_id = 0, dr_doctor = 2, dr_patient = 1, dr_status = Accepted\<rparr>],
      doctorReceptionAgents = [], appointmentInvitations = [],
      medicalRecords =
        [\<lparr>mr_id = 1, mr_patient = 1, appointments = [],
          prescriptions =
            [\<lparr>pr_id = 3, pr_doctor = 2, pr_medication = ''aspirin'', pr_dosage = ''100 mg'',
              pr_duration = None, pr_instructions = None\<rparr>],
          diseases = [], comments = [], diagnostics = []\<rparr>],
      notifications =
        [\<lparr>n_recipient = 1, n_sender = 2, n_type = ''doctor_request'',
          n_title = ''New Doctor Access Request''\<rparr>,
         \<lparr>n_recipient = 2, n_sender = 1, n_type = ''request_accepted'',
          n_title = ''Access Request Accepted''\<rparr>,
         \<lparr>n_recipient = 1, n_sender = 2, n_type = ''prescription_added'',
          n_title = ''Medical Record Updated''\<rparr>],
      nextId = 4\<rparr>"
  by (simp add: db_trace_def db_empty_def doctor2_def patient1_def some_users_def
      sendRequest_def respondRequest_def postPrescription_def User_findById_def
      MedicalRecord_findOne_def acceptedRequest_def DoctorRequest_save_def
      MedicalRecord_save_def MedicalRecord_new_def takeIds_def notifyDoctorRequest_def
      notifyRequestAccepted_def notifyAndReply_def notifyMedicalRecordUpdate_def
      createNotification_def decision_def Let_def)

lemma reachable_db_trace: "reachable db_trace"
  unfolding db_trace_def db_empty_def
  by (intro reachable.r_handle reachable.r_init)

lemma append_validation:
  assumes "appendOf q = Some (p, md)" "doctorIdMissing u q"
  shows "http_status (fst (handle u q s)) = 400 \<and> snd (handle u q s) = s"
  using assms by (cases q) (simp_all add: postAppointment_def)

lemma append_denied:
  assumes "appendOf q = Some (p, md)" "\<not> doctorIdMissing u q" "\<not> canAccess s u p md"
  shows "http_status (fst (handle u q s)) = 403 \<and> snd (handle u q s) = s"
proof (cases q)
  case (PostAppointment p' date reason nts doctorId)
  with assms show ?thesis
    using delegated_access[of "userId u" _ s _ p]
    by (cases "role u")
      (auto simp: canAccess_def postAppointment_def split: option.splits)
next
  case (PostPrescription p' medication dosage duration instructions)
  with assms show ?thesis
    by (cases "role u") (auto simp: canAccess_def postPrescription_def)
next
  case (PostDisease p' name' diagnosedDate status' nts)
  with assms show ?thesis
    by (cases "role u") (auto simp: canAccess_def postDisease_def)
next
  case (PostComment p' text')
  with assms show ?thesis
    by (cases "role u") (auto simp: canAccess_def postComment_def)
next
  case (PostDiagnostic p' testName testDate results nts)
  with assms show ?thesis
    by (cases "role u") (auto simp: canAccess_def postDiagnostic_def)
qed (use assms in simp_all)

lemma append_needs_access:
  assumes "appendOf q = Some (p, md)"
    "snd (handle u q s) \<noteq> s \<or> http_status (fst (handle u q s)) < 300"
  shows "canAccess s u p md"
proof (rule ccontr)
  assume n: "\<not> canAccess s u p md"
  show False
  proof (cases "doctorIdMissing u q")
    case True
    from append_validation[OF assms(1) True, of s] assms(2) show False by auto
  next
    case False
    from append_denied[OF assms(1) False n] assms(2) show False by auto
  qed
qed

lemma change_missing:
  assumes "changeOf q = Some (p, md)" "targetAuthor s q = None"
  shows "http_status (fst (handle u q s)) = (if roleAllowed u md then 404 else 403) \<and>
         snd (handle u q s) = s"
  using change_gate[OF assms(1), where s = s and u = u] assms(2) by simp

lemma mayChange_access:
  assumes "reachable s" "changeOf q = Some (p, md)" "targetAuthor s q = Some a"
    "mayChange s u md a"
  shows "canAccess s u p md"
proof -
  from reachable_wf[OF assms(1)] have "authors_ok s" by (simp add: wf_def)
  from author_has_access[OF this assms(2,3)] have acc: "acceptedRequest a p s \<noteq> None" .
  from assms(4) show ?thesis
  proof (unfold mayChange_def, elim disjE conjE)
    assume "role u = Doctor" "userId u = a"
    with acc show ?thesis by (simp add: canAccess_def)
  next
    assume h: "role u = ReceptionAgent" "md = WriteAppointment"
      "acceptedInvitation (userId u) a s \<noteq> None"
    then obtain i where "acceptedInvitation (userId u) a s = Some i" by auto
    from delegated_access[OF this acc] h show ?thesis by (simp add: canAccess_def)
  qed
qed

lemma change_access:
  assumes "reachable s" "changeOf q = Some (p, md)"
    "snd (handle u q s) \<noteq> s \<or> http_status (fst (handle u q s)) < 300"
  shows "canAccess s u p md"
proof -
  from change_gate[OF assms(2), where s = s and u = u] assms(3)
  obtain a where a: "targetAuthor s q = Some a" "mayChange s u md a"
    by (auto split: option.splits if_splits)
  from mayChange_access[OF assms(1,2) a] show ?thesis .
qed

lemma change_denied:
  assumes "reachable s" "changeOf q = Some (p, md)" "targetAuthor s q \<noteq> None"
    "\<not> canAccess s u p md"
  shows "http_status (fst (handle u q s)) = 403 \<and> snd (handle u q s) = s"
proof -
  from assms(3) obtain a where a: "targetAuthor s q = Some a" by auto
  from mayChange_access[OF assms(1,2) a] assms(4) have "\<not> mayChange s u md a" by blast
  with change_gate[OF assms(2), where s = s and u = u] a show ?thesis by simp
qed

lemma db_desk_value:
  "db_desk =
     \<lparr>users = some_users,
      doctorRequests = [\<lparr>dr_id = 0, dr_doctor = 2, dr_patient = 1, dr_status = Accepted\<rparr>],
      doctorReceptionAgents =
        [\<lparr>ra_id = 4, ra_doctor = 2, ra_receptionAgent = 4, ra_status = Accepted\<rparr>],
      appointmentInvitations = [],
      medicalRecords =
        [\<lparr>mr_id = 1, mr_patient = 1,
          appointments =
            [\<lparr>ap_id = 6, ap_doctor = 2, ap_date = 1000, ap_reason = ''checkup'',
              ap_notes = None\<rparr>],
          prescriptions =
            [\<lparr>pr_id = 3, pr_doctor = 2, pr_medication = ''aspirin'', pr_dosage = ''100 mg'',
              pr_duration = None, pr_instructions = None\<rparr>],
          diseases = [], comments = [], diagnostics = []\<rparr>],
      notifications =
        [\<lparr>n_recipient = 1, n_sender = 2, n_type = ''doctor_request'',
          n_title = ''New Doctor Access Request''\<rparr>,
         \<lparr>n_recipient = 2, n_sender = 1, n_type = ''request_accepted'',
          n_title = ''Access Request Accepted''\<rparr>,
         \<lparr>n_recipient = 1, n_sender = 2, n_type = ''prescription_added'',
          n_title = ''Medical Record Updated''\<rparr>,
         \<lparr>n_recipient = 4, n_sender = 2, n_type = ''doctor_request'',
          n_title = ''New Doctor Invitation''\<rparr>,
         \<lparr>n_recipient = 2, n_sender = 4, n_type = ''request_accepted'',
          n_title = ''Invitation Accepted''\<rparr>,
         \<lparr>n_recipient = 1, n_sender = 2, n_type = ''appointment_added'',
          n_title = ''Medical Record Updated''\<rparr>],
      nextId = 7\<rparr>"
  by (simp add: db_desk_def db_trace_value doctor2_def agent4_def some_users_def
      inviteAgent_def respondAgentInvitation_def postAppointment_def User_findById_def
      MedicalRecord_findOne_def acceptedRequest_def acceptedInvitation_def
      DoctorReceptionAgent_save_def MedicalRecord_save_def takeIds_def
      notifyAndReply_def notifyMedicalRecordUpdate_def
      createNotification_def decision_def Let_def)

lemma reachable_db_desk: "reachable db_desk"
  unfolding db_desk_def by (intro reachable.r_handle reachable_db_trace)

text \<open>
  C1: every append, update and delete of an entry of a medical record is gated by the
  access resolver for its mode. In every state the interface can reach, an actor who does
  not pass the resolver (a doctor without an accepted request for the patient, a reception
  agent without a delegating doctor who has one, and any actor of another role) is
  answered 403 and the state is left as it was; this holds for an append and equally for
  an update or a delete of an entry that exists. Conversely a mutation that writes
  anything, or that is answered with success, is by an actor who passes the resolver in
  the state it is applied to. The two replies that come before the gate are those for an
  input that names nothing to act on: 400 to a reception agent who adds an appointment
  without naming the doctor, and for an update or delete of an entry that is not stored
  404 (403 to a role that may not use the route); neither writes.
\<close>

theorem C1_mutation_gates:
  assumes "reachable s"
  shows
    "(appendOf q = Some (p, md) \<longrightarrow>
        (doctorIdMissing u q \<longrightarrow>
           http_status (fst (handle u q s)) = 400 \<and> snd (handle u q s) = s) \<and>
        (\<not> doctorIdMissing u q \<and> \<not> canAccess s u p md \<longrightarrow>
           http_status (fst (handle u q s)) = 403 \<and> snd (handle u q s) = s) \<and>
        (snd (handle u q s) \<noteq> s \<or> http_status (fst (handle u q s)) < 300 \<longrightarrow>
           canAccess s u p md)) \<and>
     (changeOf q = Some (p, md) \<longrightarrow>
        (targetAuthor s q = None \<longrightarrow>
           http_status (fst (handle u q s)) = (if roleAllowed u md then 404 else 403) \<and>
           snd (handle u q s) = s) \<and>
        (targetAuthor s q \<noteq> None \<and> \<not> canAccess s u p md \<longrightarrow>
           http_status (fst (handle u q s)) = 403 \<and> snd (handle u q s) = s) \<and>
        (snd (handle u q s) \<noteq> s \<or> http_status (fst (handle u q s)) < 300 \<longrightarrow>
           canAccess s u p md))"
proof (intro conjI impI)
  assume "appendOf q = Some (p, md)" "doctorIdMissing u q"
  from append_validation[OF this]
  show "http_status (fst (handle u q s)) = 400" "snd (handle u q s) = s" by simp_all
next
  assume a: "appendOf q = Some (p, md)" and "\<not> doctorIdMissing u q \<and> \<not> canAccess s u p md"
  then have "\<not> doctorIdMissing u q" "\<not> canAccess s u p md" by simp_all
  from append_denied[OF a this]
  show "http_status (fst (handle u q s)) = 403" "snd (handle u q s) = s" by simp_all
next
  assume "appendOf q = Some (p, md)"
    "snd (handle u q s) \<noteq> s \<or> http_status (fst (handle u q s)) < 300"
  from append_needs_access[OF this] show "canAccess s u p md" .
next
  assume "changeOf q = Some (p, md)" "targetAuthor s q = None"
  from change_missing[OF this]
  show "http_status (fst (handle u q s)) = (if roleAllowed u md then 404 else 403)"
    "snd (handle u q s) = s" by simp_all
next
  assume c: "changeOf q = Some (p, md)"
    and "targetAuthor s q \<noteq> None \<and> \<not> canAccess s u p md"
  then have "targetAuthor s q \<noteq> None" "\<not> canAccess s u p md" by simp_all
  from change_denied[OF assms c this]
  show "http_status (fst (handle u q s)) = 403" "snd (handle u q s) = s" by simp_all
next
  assume "changeOf q = Some (p, md)"
    "snd (handle u q s) \<noteq> s \<or> http_status (fst (handle u q s)) < 300"
  from change_access[OF assms this] show "canAccess s u p md" .
qed

theorem C1_mutation_gates_witness:
  "reachable db_trace \<and> reachable db_desk \<and>
   appendOf (PostPrescription 1 (Some ''statin'') (Some ''20 mg'') None None) =
     Some (1, WriteOther) \<and>
   \<not> doctorIdMissing doctor3 (PostPrescription 1 (Some ''statin'') (Some ''20 mg'') None None) \<and>
   \<not> canAccess db_trace doctor3 1 WriteOther \<and>
   http_status (fst (handle doctor3
     (PostPrescription 1 (Some ''statin'') (Some ''20 mg'') None None) db_trace)) = 403 \<and>
   snd (handle doctor3
     (PostPrescription 1 (Some ''statin'') (Some ''20 mg'') None None) db_trace) = db_trace \<and>
   http_status (fst (handle doctor2
     (PostPrescription 1 (Some ''statin'') (Some ''20 mg'') None None) db_trace)) < 300 \<and>
   canAccess db_trace doctor2 1 WriteOther \<and>
   appendOf (PostAppointment 1 (Some 1000) (Some ''checkup'') None None) =
     Some (1, WriteAppointment) \<and>
   doctorIdMissing agent4 (PostAppointment 1 (Some 1000) (Some ''checkup'') None None) \<and>
   http_status (fst (handle agent4
     (PostAppointment 1 (Some 1000) (Some ''checkup'') None None) db_desk)) = 400 \<and>
   snd (handle agent4
     (PostAppointment 1 (Some 1000) (Some ''checkup'') None None) db_desk) = db_desk \<and>
   \<not> doctorIdMissing agent4 (PostAppointment 1 (Some 1000) (Some ''checkup'') None (Some 2)) \<and>
   \<not> canAccess db_trace agent4 1 WriteAppointment \<and>
   http_status (fst (handle agent4
     (PostAppointment 1 (Some 1000) (Some ''checkup'') None (Some 2)) db_trace)) = 403 \<and>
   snd (handle agent4
     (PostAppointment 1 (Some 1000) (Some ''checkup'') None (Some 2)) db_trace) = db_trace \<and>
   changeOf (PutPrescription 1 3 (Some ''warfarin'') None None None) = Some (1, WriteOther) \<and>
   targetAuthor db_trace (PutPrescription 1 3 (Some ''warfarin'') None None None) \<noteq> None \<and>
   http_status (fst (handle doctor3
     (PutPrescription 1 3 (Some ''warfarin'') None None None) db_trace)) = 403 \<and>
   snd (handle doctor3
     (PutPrescription 1 3 (Some ''warfarin'') None None None) db_trace) = db_trace \<and>
   changeOf (DeletePrescription 1 22) = Some (1, WriteOther) \<and>
   targetAuthor db_trace (DeletePrescription 1 22) = None \<and>
   roleAllowed doctor2 WriteOther \<and>
   http_status (fst (handle doctor2 (DeletePrescription 1 22) db_trace)) = 404 \<and>
   snd (handle doctor2 (DeletePrescription 1 22) db_trace) = db_trace \<and>
   changeOf (PutAppointment 1 6 None (Some ''follow-up'') None) = Some (1, WriteAppointment) \<and>
   http_status (fst (handle agent4
     (PutAppointment 1 6 None (Some ''follow-up'') None) db_desk)) < 300 \<and>
   canAccess db_desk agent4 1 WriteAppointment"
proof -
  let ?post = "PostPrescription 1 (Some ''statin'') (Some ''20 mg'') None None"
  let ?book = "PostAppointment 1 (Some 1000) (Some ''checkup'') None"
  let ?put = "PutPrescription 1 3 (Some ''warfarin'') None None None"
  let ?del = "DeletePrescription 1 22"
  let ?move = "PutAppointment 1 6 None (Some ''follow-up'') None"
  note on_trace = C1_mutation_gates [OF reachable_db_trace]
  note on_desk = C1_mutation_gates [OF reachable_db_desk]
  have a: "appendOf ?post = Some (1, WriteOther)" by simp
  have a': "appendOf (?book None) = Some (1, WriteAppointment)"
    "appendOf (?book (Some 2)) = Some (1, WriteAppointment)" by simp_all
  have c: "changeOf ?put = Some (1, WriteOther)" by simp
  have c': "changeOf ?del = Some (1, WriteOther)" by simp
  have c'': "changeOf ?move = Some (1, WriteAppointment)" by simp
  have n3: "\<not> doctorIdMissing doctor3 ?post" by simp
  have d3: "\<not> canAccess db_trace doctor3 1 WriteOther"
    by (simp add: canAccess_def doctor3_def db_trace_value acceptedRequest_def)
  have m4: "doctorIdMissing agent4 (?book None)" by (simp add: agent4_def)
  have n4: "\<not> doctorIdMissing agent4 (?book (Some 2))" by simp
  have d4: "\<not> canAccess db_trace agent4 1 WriteAppointment"
    by (simp add: canAccess_def agent4_def db_trace_value)
  have ok2: "http_status (fst (handle doctor2 ?post db_trace)) < 300"
    by (simp add: db_trace_value doctor2_def some_users_def postPrescription_def
        acceptedRequest_def MedicalRecord_findOne_def fst_notifyAndReply User_findById_def
        MedicalRecord_save_def takeIds_def Let_def)
  have ta: "targetAuthor db_trace ?put \<noteq> None"
    by (simp add: db_trace_value authorIn_def MedicalRecord_findOne_def)
  have tn: "targetAuthor db_trace ?del = None"
    by (simp add: db_trace_value authorIn_def MedicalRecord_findOne_def)
  have ra: "roleAllowed doctor2 WriteOther" by (simp add: roleAllowed_def doctor2_def)
  have ok4: "http_status (fst (handle agent4 ?move db_desk)) < 300"
    by (simp add: db_desk_value agent4_def some_users_def putAppointment_def
        acceptedInvitation_def MedicalRecord_findOne_def fst_notifyAndReply User_findById_def
        MedicalRecord_save_def Let_def)
  note post3 = on_trace [where q = ?post and p = 1 and md = WriteOther and u = doctor3,
      THEN conjunct1, THEN mp, OF a, THEN conjunct2, THEN conjunct1, THEN mp, OF conjI[OF n3 d3]]
  note post2 = on_trace [where q = ?post and p = 1 and md = WriteOther and u = doctor2,
      THEN conjunct1, THEN mp, OF a, THEN conjunct2, THEN conjunct2, THEN mp,
      OF disjI2[OF ok2]]
  note book0 = on_desk [where q = "?book None" and p = 1 and md = WriteAppointment
        and u = agent4,
      THEN conjunct1, THEN mp, OF a'(1), THEN conjunct1, THEN mp, OF m4]
  note book2 = on_trace [where q = "?book (Some 2)" and p = 1 and md = WriteAppointment
        and u = agent4,
      THEN conjunct1, THEN mp, OF a'(2), THEN conjunct2, THEN conjunct1, THEN mp,
      OF conjI[OF n4 d4]]
  note put3 = on_trace [where q = ?put and p = 1 and md = WriteOther and u = doctor3,
      THEN conjunct2, THEN mp, OF c, THEN conjunct2, THEN conjunct1, THEN mp,
      OF conjI[OF ta d3]]
  note del2 = on_trace [where q = ?del and p = 1 and md = WriteOther and u = doctor2,
      THEN conjunct2, THEN mp, OF c', THEN conjunct1, THEN mp, OF tn]
  note move4 = on_desk [where q = ?move and p = 1 and md = WriteAppointment and u = agent4,
      THEN conjunct2, THEN mp, OF c'', THEN conjunct2, THEN conjunct2, THEN mp,
      OF disjI2[OF ok4]]
  from del2 ra have del2': "http_status (fst (handle doctor2 ?del db_trace)) = 404 \<and>
      snd (handle doctor2 ?del db_trace) = db_trace"
    by simp
  from reachable_db_trace reachable_db_desk a n3 d3 post3 ok2 post2 a'(1) m4 book0 n4 d4
    book2 c ta put3 c' tn ra del2' c'' ok4 move4
  show ?thesis by (intro conjI) (erule conjunct1 conjunct2 | assumption)+
qed

end
